theory Spec2Isabelle
  imports Complex_Main
begin

section \<open>Errors\<close>

text \<open>
  Go errors as values. The first three constructors are the API server's status errors,
  told apart by \<open>errors.IsNotFound\<close> and \<open>errors.IsAlreadyExists\<close>; \<open>Errorf\<close> is an error
  built by \<open>fmt.Errorf\<close> (or returned by a library call) and carries its text; \<open>Panic\<close> is a
  run-time panic (a nil dereference, an index out of range), which ends the pass as well.
\<close>

datatype error =
    StatusNotFound string
  | StatusAlreadyExists string
  | StatusFailure string
  | Errorf string
  | Panic string

fun IsNotFound :: "error \<Rightarrow> bool" where
  "IsNotFound (StatusNotFound _) = True"
| "IsNotFound _ = False"

fun IsAlreadyExists :: "error \<Rightarrow> bool" where
  "IsAlreadyExists (StatusAlreadyExists _) = True"
| "IsAlreadyExists _ = False"

text \<open>The text \<open>err.Error()\<close>, as \<open>%v\<close> prints it.\<close>

fun ErrorText :: "error \<Rightarrow> string" where
  "ErrorText (StatusNotFound s) = s"
| "ErrorText (StatusAlreadyExists s) = s"
| "ErrorText (StatusFailure s) = s"
| "ErrorText (Errorf s) = s"
| "ErrorText (Panic s) = s"

section \<open>Objects\<close>

type_synonym key = "string \<times> string"

datatype OwnerReference =
  OwnerReference (ownerUID: string) (ownerAPIVersion: string) (ownerKind: string) (ownerName: string)

text \<open>
  \<open>metav1.TypeMeta\<close> and \<open>metav1.ObjectMeta\<close> are embedded in every API object; here they
  are one base record that every object record extends, so that \<open>obj.Name\<close> is \<open>Name obj\<close>.
\<close>

record ObjectMeta =
  APIVersion :: string
  Kind :: string
  UID :: string
  Name :: string
  Namespace :: string
  Labels :: "string \<rightharpoonup> string"
  Annotations :: "string \<rightharpoonup> string"
  OwnerReferences :: "OwnerReference list"
  DeletionTimestamp :: "nat option"

text \<open>\<open>types.NamespacedName{Name: o.Name, Namespace: o.Namespace}\<close>, namespace first.\<close>

definition NamespacedName :: "'a ObjectMeta_scheme \<Rightarrow> key" where
  "NamespacedName obj = (Namespace obj, Name obj)"

text \<open>The assignment \<open>dst.ObjectMeta = src.ObjectMeta\<close>.\<close>

definition setObjectMeta :: "'a ObjectMeta_scheme \<Rightarrow> 'b ObjectMeta_scheme \<Rightarrow> 'a ObjectMeta_scheme" where
  "setObjectMeta dst src =
     dst\<lparr>UID := UID src, Name := Name src, Namespace := Namespace src, Labels := Labels src,
         Annotations := Annotations src, OwnerReferences := OwnerReferences src,
         DeletionTimestamp := DeletionTimestamp src\<rparr>"

definition emptyMeta :: ObjectMeta where
  "emptyMeta = \<lparr>APIVersion = [], Kind = [], UID = [], Name = [], Namespace = [], Labels = Map.empty, Annotations = Map.empty,
     OwnerReferences = [], DeletionTimestamp = None\<rparr>"

record StorageClass = ObjectMeta +
  Provisioner :: string
  ReclaimPolicy :: "string option"
  AllowVolumeExpansion :: "bool option"
  Parameters :: "string \<rightharpoonup> string"

text \<open>
  An object with a spec and a status. A pointer-typed status (\<open>Status *T\<close>) is an option.
  A Go map is a HOL map; a nil map and an empty map are both \<open>Map.empty\<close>
  (\<open>reflect.DeepEqual\<close> tells the two apart, no other operation here does).
\<close>

record ('spec, 'status) Object = ObjectMeta +
  Spec :: 'spec
  Status :: 'status

record PhaseStatus =
  Phase :: string

text \<open>\<open>ConfigMap\<close> and \<open>Secret\<close>: the bytes of a secret value are a string.\<close>

record DataObject = ObjectMeta +
  Data :: "string \<rightharpoonup> string"

type_synonym ConfigMap = DataObject
type_synonym Secret = DataObject

subsection \<open>The StorageCluster\<close>

text \<open>
  \<open>ManageCephBlockPools\<close>, \<open>ManageCephFilesystems\<close> and \<open>ManageCephObjectStores\<close> of
  \<open>api/v1/storagecluster_types.go\<close> share the two fields the controllers read.
\<close>

record ResourceRequirements =
  Limits :: "string \<rightharpoonup> string"
  Requests :: "string \<rightharpoonup> string"

record ManageSpec =
  ReconcileStrategy :: string
  DisableStorageClass :: bool

record ManagedResourcesSpec =
  CephBlockPools :: ManageSpec
  CephFilesystems :: ManageSpec
  CephObjectStores :: ManageSpec

record ExternalStorageClusterSpec =
  Enable :: bool

record PersistentVolumeClaim =
  StorageClassName :: "string option"
  StorageRequest :: "string option"

record StorageDeviceSet =
  dsName :: string
  dsCount :: int
  DataPVCTemplate :: PersistentVolumeClaim

record StorageClusterSpec =
  ExternalStorage :: ExternalStorageClusterSpec
  HostNetwork :: bool
  StorageDeviceSets :: "StorageDeviceSet list"
  Resources :: "string \<rightharpoonup> ResourceRequirements"
  MonPVCTemplate :: "PersistentVolumeClaim option"
  ManagedResources :: ManagedResourcesSpec

datatype ConditionStatus = ConditionTrue | ConditionFalse | ConditionUnknown

record Condition =
  cType :: string
  cStatus :: ConditionStatus
  cReason :: string
  cMessage :: string
  cLastTransitionTime :: nat

text \<open>An object reference, as kept in \<open>Status.RelatedObjects\<close>: kind, namespace, name.\<close>

type_synonym ObjectReference = "string \<times> string \<times> string"

text \<open>A nil slice is the empty list: \<open>Conditions == nil\<close> is \<open>Conditions = []\<close>.\<close>

record StorageClusterStatus = PhaseStatus +
  Conditions :: "Condition list"
  RelatedObjects :: "ObjectReference list"
  FailureDomain :: string
  ExternalSecretHash :: string

type_synonym StorageCluster = "(StorageClusterSpec, StorageClusterStatus) Object"

subsection \<open>Rook objects\<close>

record Toleration =
  tolKey :: string
  tolOperator :: string
  tolValue :: string
  tolEffect :: string

text \<open>
  \<open>rook.Placement\<close>: the node-affinity match expressions (key, operator), the tolerations,
  and the preferred pod anti-affinity terms (weight, label key, operator, values, topology key).
\<close>

record Placement =
  NodeAffinity :: "(string \<times> string) list option"
  Tolerations :: "Toleration list"
  PodAntiAffinity :: "(nat \<times> string \<times> string \<times> string list \<times> string) list option"

record PoolSpec =
  poolFailureDomain :: string
  ReplicatedSize :: nat
  TargetSizeRatio :: real

record GatewaySpec =
  Port :: int
  Instances :: int
  gwPlacement :: Placement
  gwResources :: ResourceRequirements
  ExternalRgwEndpoints :: "string list"

record HealthCheckSpec =
  Disabled :: bool
  Interval :: string

record ObjectStoreSpec =
  PreservePoolsOnDelete :: bool
  DataPool :: PoolSpec
  MetadataPool :: PoolSpec
  Gateway :: GatewaySpec
  HealthCheck :: HealthCheckSpec

record StorageClassDeviceSet =
  scdsName :: string
  scdsCount :: int
  scdsPlacement :: Placement
  scdsResources :: ResourceRequirements
  scdsPortable :: bool
  scdsVolumeClaimTemplates :: "PersistentVolumeClaim list"

record CephVersionSpec =
  Image :: string
  AllowUnsupported :: bool

record MonSpec =
  Count :: int
  AllowMultiplePerNode :: bool
  VolumeClaimTemplate :: "PersistentVolumeClaim option"

record DisruptionManagementSpec =
  ManagePodBudgets :: bool
  ManageMachineDisruptionBudgets :: bool
  MachineDisruptionBudgetNamespace :: string

record MonitoringSpec =
  Enabled :: bool
  RulesNamespace :: string

record StorageScopeSpec =
  StorageClassDeviceSets :: "StorageClassDeviceSet list"
  TopologyAware :: bool

text \<open>
  \<open>cephv1.ClusterSpec\<close>, with the fields \<open>newCephCluster\<close> sets. The one-field structs
  \<open>Mgr.Modules\<close> (name, enabled), \<open>RBDMirroring.Workers\<close> and \<open>Network.HostNetwork\<close> are
  fields of the spec itself; \<open>Placement\<close> is the map from a daemon's name to its placement.
\<close>

record ClusterSpec =
  CephVersion :: CephVersionSpec
  Mon :: MonSpec
  MgrModules :: "(string \<times> bool) list"
  DataDirHostPath :: string
  DisruptionManagement :: DisruptionManagementSpec
  RBDMirroringWorkers :: int
  NetworkHostNetwork :: bool
  Monitoring :: MonitoringSpec
  Storage :: StorageScopeSpec
  PlacementSpec :: "string \<rightharpoonup> Placement"

record ClusterStatus =
  State :: string

type_synonym CephCluster = "(ClusterSpec, ClusterStatus) Object"
type_synonym CephObjectStore = "(ObjectStoreSpec, unit) Object"
type_synonym CephBlockPool = "(unit, PhaseStatus option) Object"
type_synonym CephFilesystem = "(unit, PhaseStatus option) Object"
type_synonym StorageClusterInitialization = "(unit, unit) Object"

section \<open>The object store behind \<open>r.Client\<close>\<close>

text \<open>
  Modelled from the spec: the API server is outside the repository, which uses it through
  ``a generic create/get/update/delete interface over dependent objects'' whose calls
  are blocking and whose failures ``surface as ordinary errors''.
  The world holds one table per kind of object, the list of the calls made so far with the
  answer to each (oldest first), and \<open>faults\<close>: given the calls so far and a request, the
  message of the failure the server answers with, if it fails the request (a conflict, a
  timeout). A request that is not failed is answered from the table: reading or replacing an
  absent object is \<open>NotFound\<close>, creating a present one is \<open>AlreadyExists\<close>.
\<close>

datatype verb = Get | Create | Update | Delete | StatusUpdate

datatype kind =
    KStorageCluster | KStorageClusterInitialization | KCephCluster | KCephBlockPool
  | KCephFilesystem | KCephObjectStore | KStorageClass | KConfigMap | KSecret

type_synonym request = "verb \<times> kind \<times> key"
type_synonym call = "request \<times> error option"

record world =
  storageClusterTable :: "key \<rightharpoonup> StorageCluster"
  initializationTable :: "key \<rightharpoonup> StorageClusterInitialization"
  cephClusterTable :: "key \<rightharpoonup> CephCluster"
  cephBlockPoolTable :: "key \<rightharpoonup> CephBlockPool"
  cephFilesystemTable :: "key \<rightharpoonup> CephFilesystem"
  cephObjectStoreTable :: "key \<rightharpoonup> CephObjectStore"
  storageClassTable :: "key \<rightharpoonup> StorageClass"
  configMapTable :: "key \<rightharpoonup> ConfigMap"
  secretTable :: "key \<rightharpoonup> Secret"
  calls :: "call list"
  faults :: "call list \<Rightarrow> request \<Rightarrow> string option"

definition answer :: "request \<Rightarrow> error option \<Rightarrow> world \<Rightarrow> world" where
  "answer rq res w = w\<lparr>calls := calls w @ [(rq, res)]\<rparr>"

definition clientGet ::
  "kind \<Rightarrow> (world \<Rightarrow> key \<rightharpoonup> 'a) \<Rightarrow> key \<Rightarrow> world
     \<Rightarrow> (error + 'a) \<times> world" where
  "clientGet kd table k w =
     (let rq = (Get, kd, k) in
      case faults w (calls w) rq of
        Some msg \<Rightarrow> (Inl (StatusFailure msg), answer rq (Some (StatusFailure msg)) w)
      | None \<Rightarrow>
         (case table w k of
            None \<Rightarrow> (Inl (StatusNotFound (snd k)), answer rq (Some (StatusNotFound (snd k))) w)
          | Some obj \<Rightarrow> (Inr obj, answer rq None w)))"

definition clientCreate ::
  "kind \<Rightarrow> (world \<Rightarrow> key \<rightharpoonup> 'a)
     \<Rightarrow> (((key \<rightharpoonup> 'a) \<Rightarrow> (key \<rightharpoonup> 'a)) \<Rightarrow> world \<Rightarrow> world)
     \<Rightarrow> key \<Rightarrow> 'a \<Rightarrow> world \<Rightarrow> error option \<times> world" where
  "clientCreate kd table table_update k obj w =
     (let rq = (Create, kd, k) in
      case faults w (calls w) rq of
        Some msg \<Rightarrow> (Some (StatusFailure msg), answer rq (Some (StatusFailure msg)) w)
      | None \<Rightarrow>
         (case table w k of
            Some _ \<Rightarrow> (Some (StatusAlreadyExists (snd k)), answer rq (Some (StatusAlreadyExists (snd k))) w)
          | None \<Rightarrow> (None, answer rq None (table_update (\<lambda>m. m(k \<mapsto> obj)) w))))"

definition clientUpdate ::
  "kind \<Rightarrow> (world \<Rightarrow> key \<rightharpoonup> 'a)
     \<Rightarrow> (((key \<rightharpoonup> 'a) \<Rightarrow> (key \<rightharpoonup> 'a)) \<Rightarrow> world \<Rightarrow> world)
     \<Rightarrow> key \<Rightarrow> 'a \<Rightarrow> world \<Rightarrow> error option \<times> world" where
  "clientUpdate kd table table_update k obj w =
     (let rq = (Update, kd, k) in
      case faults w (calls w) rq of
        Some msg \<Rightarrow> (Some (StatusFailure msg), answer rq (Some (StatusFailure msg)) w)
      | None \<Rightarrow>
         (case table w k of
            None \<Rightarrow> (Some (StatusNotFound (snd k)), answer rq (Some (StatusNotFound (snd k))) w)
          | Some _ \<Rightarrow> (None, answer rq None (table_update (\<lambda>m. m(k \<mapsto> obj)) w))))"

definition clientDelete ::
  "kind \<Rightarrow> (world \<Rightarrow> key \<rightharpoonup> 'a)
     \<Rightarrow> (((key \<rightharpoonup> 'a) \<Rightarrow> (key \<rightharpoonup> 'a)) \<Rightarrow> world \<Rightarrow> world)
     \<Rightarrow> key \<Rightarrow> world \<Rightarrow> error option \<times> world" where
  "clientDelete kd table table_update k w =
     (let rq = (Delete, kd, k) in
      case faults w (calls w) rq of
        Some msg \<Rightarrow> (Some (StatusFailure msg), answer rq (Some (StatusFailure msg)) w)
      | None \<Rightarrow>
         (case table w k of
            None \<Rightarrow> (Some (StatusNotFound (snd k)), answer rq (Some (StatusNotFound (snd k))) w)
          | Some _ \<Rightarrow> (None, answer rq None (table_update (\<lambda>m. m(k := None)) w))))"

section \<open>What the controllers use from outside \<open>src\<close>\<close>

text \<open>
  Modelled from the spec: the reconcile strategies are ``Manage|Init|Ignore''; the constants
  \<open>ReconcileStrategyIgnore\<close>, \<open>ReconcileStrategyInit\<close> and \<open>ReconcileStrategyManage\<close> are declared
  outside \<open>src\<close>. The field is a string, so any other string (the empty default) is a
  strategy too; the code compares with the constants only.
\<close>

definition ReconcileStrategyIgnore :: string where "ReconcileStrategyIgnore = ''ignore''"
definition ReconcileStrategyInit :: string where "ReconcileStrategyInit = ''init''"
definition ReconcileStrategyManage :: string where "ReconcileStrategyManage = ''manage''"

text \<open>
  Modelled from the spec: the phases ``Progressing'', ``Ready'', ``Error'' and the
  informational ``Expanding''; the constants of package \<open>util\<close> are declared outside \<open>src\<close>.
\<close>

definition PhaseProgressing :: string where "PhaseProgressing = ''Progressing''"
definition PhaseReady :: string where "PhaseReady = ''Ready''"
definition PhaseNotReady :: string where "PhaseNotReady = ''Not Ready''"
definition PhaseError :: string where "PhaseError = ''Error''"
definition PhaseClusterExpanding :: string where "PhaseClusterExpanding = ''Expanding''"

text \<open>
  The functions of the repository and of its libraries that the controllers call and that
  are not under \<open>src\<close> are parameters: the name generators, the platform detection,
  the placement and resource defaults, and \<open>controllerutil.SetControllerReference\<close>, which
  answers with the owner references the object gets, or with an error.
\<close>

record ext =
  generateNameForCephBlockPool :: "StorageCluster \<Rightarrow> string"
  generateNameForCephFilesystem :: "StorageCluster \<Rightarrow> string"
  generateNameForCephObjectStore :: "StorageCluster \<Rightarrow> string"
  generateNameForCephFilesystemSC :: "StorageCluster \<Rightarrow> string"
  generateNameForCephBlockPoolSC :: "StorageCluster \<Rightarrow> string \<Rightarrow> string"
  generateNameForCephRgwSC :: "StorageCluster \<Rightarrow> string"
  GetPlatform :: "error + string"
  avoidObjectStore :: "string \<Rightarrow> bool"
  PlatformsShouldAvoidObjectStore :: "error + bool"
  getPlacement :: "StorageCluster \<Rightarrow> string \<Rightarrow> Placement"
  GetDaemonResources :: "string \<Rightarrow> (string \<rightharpoonup> ResourceRequirements) \<Rightarrow> ResourceRequirements"
  SetControllerReference :: "StorageCluster \<Rightarrow> ObjectMeta \<Rightarrow> error + OwnerReference list"

text \<open>\<open>%q\<close> of a \<open>types.NamespacedName\<close>: the quoted text \<open>namespace/name\<close>.\<close>

definition quoted :: "key \<Rightarrow> string" where
  "quoted k = CHR 0x22 # fst k @ ''/'' @ snd k @ [CHR 0x22]"

section \<open>\<open>controllers/storagecluster\<close>: storage classes\<close>

record StorageClassConfiguration =
  storageClass :: StorageClass
  reconcileStrategy :: string
  disable :: bool

text \<open>
  \<open>createStorageClasses\<close>: the loop over the configurations is the recursion over the list;
  \<open>continue\<close> is the recursive call, \<open>return err\<close> ends it. Logging has no effect on the
  state and is left out, here and below.
\<close>

fun createStorageClasses :: "StorageClassConfiguration list \<Rightarrow> world \<Rightarrow> error option \<times> world" where
  "createStorageClasses [] w = (None, w)"
| "createStorageClasses (scc # sccs) w =
     (if reconcileStrategy scc = ReconcileStrategyIgnore \<or> disable scc then createStorageClasses sccs w
      else
        let sc = storageClass scc in
        case clientGet KStorageClass storageClassTable (NamespacedName sc) w of
          (Inl err, w1) \<Rightarrow>
            if IsNotFound err then
              (case clientCreate KStorageClass storageClassTable storageClassTable_update (NamespacedName sc) sc w1 of
                 (Some err', w2) \<Rightarrow> (Some err', w2)
               | (None, w2) \<Rightarrow> createStorageClasses sccs w2)
            else (Some err, w1)
        | (Inr existing, w1) \<Rightarrow>
            if reconcileStrategy scc = ReconcileStrategyInit then createStorageClasses sccs w1
            else if DeletionTimestamp existing \<noteq> None then
              (Some (Errorf (''failed to restore StorageClass  '' @ Name existing
                              @ '' because it is marked for deletion'')), w1)
            else if Parameters sc \<noteq> Parameters existing then
              (case clientDelete KStorageClass storageClassTable storageClassTable_update (NamespacedName existing) w1 of
                 (Some err', w2) \<Rightarrow> (Some err', w2)
               | (None, w2) \<Rightarrow>
                  (case clientCreate KStorageClass storageClassTable storageClassTable_update (NamespacedName sc) sc w2 of
                     (Some err', w3) \<Rightarrow> (Some err', w3)
                   | (None, w3) \<Rightarrow> createStorageClasses sccs w3))
            else createStorageClasses sccs w1)"

definition newCephFilesystemStorageClassConfiguration :: "ext \<Rightarrow> StorageCluster \<Rightarrow> StorageClassConfiguration" where
  "newCephFilesystemStorageClassConfiguration x initData =
     (let managementSpec = CephFilesystems (ManagedResources (Spec initData)) in
      \<lparr>storageClass = ObjectMeta.extend
         (emptyMeta\<lparr>Name := generateNameForCephFilesystemSC x initData,
                    Annotations := [''description'' \<mapsto> ''Provides RWO and RWX Filesystem volumes'']\<rparr>)
         (StorageClass.fields
           (Namespace initData @ ''.cephfs.csi.ceph.com'')
           (Some ''Delete'')
           (Some True)
           [''clusterID'' \<mapsto> Namespace initData,
            ''fsName'' \<mapsto> Name initData @ ''-cephfilesystem'',
            ''csi.storage.k8s.io/provisioner-secret-name'' \<mapsto> ''rook-csi-cephfs-provisioner'',
            ''csi.storage.k8s.io/provisioner-secret-namespace'' \<mapsto> Namespace initData,
            ''csi.storage.k8s.io/node-stage-secret-name'' \<mapsto> ''rook-csi-cephfs-node'',
            ''csi.storage.k8s.io/node-stage-secret-namespace'' \<mapsto> Namespace initData,
            ''csi.storage.k8s.io/controller-expand-secret-name'' \<mapsto> ''rook-csi-cephfs-provisioner'',
            ''csi.storage.k8s.io/controller-expand-secret-namespace'' \<mapsto> Namespace initData]),
       reconcileStrategy = ReconcileStrategy managementSpec,
       disable = DisableStorageClass managementSpec\<rparr>)"

definition newCephBlockPoolStorageClassConfiguration ::
  "ext \<Rightarrow> StorageCluster \<Rightarrow> bool \<Rightarrow> StorageClassConfiguration" where
  "newCephBlockPoolStorageClassConfiguration x initData thickProvision =
     (let thickProvisionStr = (if thickProvision then ''true'' else ''false'');
          storageClassSuffix = (if thickProvision then ''-thick'' else []);
          managementSpec = CephBlockPools (ManagedResources (Spec initData)) in
      \<lparr>storageClass = ObjectMeta.extend
         (emptyMeta\<lparr>Name := generateNameForCephBlockPoolSC x initData storageClassSuffix,
                    Annotations := [''description'' \<mapsto>
                       ''Provides RWO Filesystem volumes, and RWO and RWX Block volumes'']\<rparr>)
         (StorageClass.fields
           (Namespace initData @ ''.rbd.csi.ceph.com'')
           (Some ''Delete'')
           (Some True)
           [''clusterID'' \<mapsto> Namespace initData,
            ''pool'' \<mapsto> generateNameForCephBlockPool x initData,
            ''imageFeatures'' \<mapsto> ''layering'',
            ''csi.storage.k8s.io/fstype'' \<mapsto> ''ext4'',
            ''imageFormat'' \<mapsto> ''2'',
            ''thickProvision'' \<mapsto> thickProvisionStr,
            ''csi.storage.k8s.io/provisioner-secret-name'' \<mapsto> ''rook-csi-rbd-provisioner'',
            ''csi.storage.k8s.io/provisioner-secret-namespace'' \<mapsto> Namespace initData,
            ''csi.storage.k8s.io/node-stage-secret-name'' \<mapsto> ''rook-csi-rbd-node'',
            ''csi.storage.k8s.io/node-stage-secret-namespace'' \<mapsto> Namespace initData,
            ''csi.storage.k8s.io/controller-expand-secret-name'' \<mapsto> ''rook-csi-rbd-provisioner'',
            ''csi.storage.k8s.io/controller-expand-secret-namespace'' \<mapsto> Namespace initData]),
       reconcileStrategy = ReconcileStrategy managementSpec,
       disable = DisableStorageClass managementSpec\<rparr>)"

definition newCephOBCStorageClassConfiguration :: "ext \<Rightarrow> StorageCluster \<Rightarrow> StorageClassConfiguration" where
  "newCephOBCStorageClassConfiguration x initData =
     (let managementSpec = CephObjectStores (ManagedResources (Spec initData)) in
      \<lparr>storageClass = ObjectMeta.extend
         (emptyMeta\<lparr>Name := generateNameForCephRgwSC x initData,
                    Annotations := [''description'' \<mapsto> ''Provides Object Bucket Claims (OBCs)'']\<rparr>)
         (StorageClass.fields
           (Namespace initData @ ''.ceph.rook.io/bucket'')
           (Some ''Delete'')
           None
           [''objectStoreNamespace'' \<mapsto> Namespace initData,
            ''region'' \<mapsto> ''us-east-1'',
            ''objectStoreName'' \<mapsto> generateNameForCephObjectStore x initData]),
       reconcileStrategy = ReconcileStrategy managementSpec,
       disable = DisableStorageClass managementSpec\<rparr>)"

text \<open>
  \<open>newStorageClassConfigurations\<close> never fails: it returns \<open>ret, nil\<close>. In
  \<open>Enable || err == nil && !avoid\<close> the conjunction binds tighter.
\<close>

definition newStorageClassConfigurations :: "ext \<Rightarrow> StorageCluster \<Rightarrow> error + StorageClassConfiguration list" where
  "newStorageClassConfigurations x initData =
     (let ret = [newCephFilesystemStorageClassConfiguration x initData,
                 newCephBlockPoolStorageClassConfiguration x initData False,
                 newCephBlockPoolStorageClassConfiguration x initData True] in
      if Enable (ExternalStorage (Spec initData))
           \<or> (case PlatformsShouldAvoidObjectStore x of Inl err \<Rightarrow> False | Inr avoid \<Rightarrow> \<not> avoid)
      then Inr (ret @ [newCephOBCStorageClassConfiguration x initData])
      else Inr ret)"

text \<open>
  \<open>ocsStorageClass.ensureCreated\<close>: the two readiness gates, then \<open>createStorageClasses\<close>.
  \<open>cephBlockPool.Status == nil\<close> is \<open>Status = None\<close>.
\<close>

definition ensureCreated :: "ext \<Rightarrow> StorageCluster \<Rightarrow> world \<Rightarrow> error option \<times> world" where
  "ensureCreated x instance w =
     (case newStorageClassConfigurations x instance of
        Inl err \<Rightarrow> (Some err, w)
      | Inr scs \<Rightarrow>
         (let gate1 =
            (if \<not> DisableStorageClass (CephBlockPools (ManagedResources (Spec instance))) then
               (let key = (Namespace instance, generateNameForCephBlockPool x instance) in
                case clientGet KCephBlockPool cephBlockPoolTable key w of
                  (Inl err, w1) \<Rightarrow> (Some err, w1)
                | (Inr cephBlockPool, w1) \<Rightarrow>
                   (case Status cephBlockPool of
                      None \<Rightarrow> (Some (Errorf (''cephBlockPool '' @ quoted key @ '' is not reporting status'')), w1)
                    | Some st \<Rightarrow>
                       if Phase st \<noteq> PhaseReady then
                         (Some (Errorf (''cephBlockPool '' @ quoted key @ '' is not ''
                                          @ CHR 0x22 # PhaseReady @ [CHR 0x22])), w1)
                       else (None, w1)))
             else (None, w)) in
          case gate1 of
            (Some err, w1) \<Rightarrow> (Some err, w1)
          | (None, w1) \<Rightarrow>
             (let gate2 =
                (if \<not> DisableStorageClass (CephFilesystems (ManagedResources (Spec instance))) then
                   (let key = (Namespace instance, generateNameForCephFilesystem x instance) in
                    case clientGet KCephFilesystem cephFilesystemTable key w1 of
                      (Inl err, w2) \<Rightarrow> (Some err, w2)
                    | (Inr cephFilesystem, w2) \<Rightarrow>
                       (case Status cephFilesystem of
                          None \<Rightarrow> (Some (Errorf (''cephFilesystem '' @ quoted key @ '' is not reporting status'')), w2)
                        | Some st \<Rightarrow>
                           if Phase st \<noteq> PhaseReady then
                             (Some (Errorf (''cephFilesystem '' @ quoted key @ '' is not ''
                                              @ CHR 0x22 # PhaseReady @ [CHR 0x22])), w2)
                           else (None, w2)))
                 else (None, w1)) in
              case gate2 of
                (Some err, w2) \<Rightarrow> (Some err, w2)
              | (None, w2) \<Rightarrow> createStorageClasses scs w2)))"

section \<open>\<open>controllers/storagecluster\<close>: object stores\<close>

text \<open>
  \<open>createCephObjectStores\<close>. Under the Init strategy an existing store ends the function
  (\<open>return nil\<close>, not \<open>continue\<close>). The \<open>switch\<close> has no default: after a \<open>Get\<close> error that is
  not NotFound the loop goes on with the next store.
\<close>

fun createCephObjectStores :: "CephObjectStore list \<Rightarrow> StorageCluster \<Rightarrow> world \<Rightarrow> error option \<times> world" where
  "createCephObjectStores [] instance w = (None, w)"
| "createCephObjectStores (cephObjectStore # rest) instance w =
     (case clientGet KCephObjectStore cephObjectStoreTable (NamespacedName cephObjectStore) w of
        (Inr existing, w1) \<Rightarrow>
          if ReconcileStrategy (CephObjectStores (ManagedResources (Spec instance))) = ReconcileStrategyInit
          then (None, w1)
          else if DeletionTimestamp existing \<noteq> None then
            (Some (Errorf (''failed to restore cephobjectstore object '' @ Name existing
                            @ '' because it is marked for deletion'')), w1)
          else
            (let existing' = existing\<lparr>OwnerReferences := OwnerReferences cephObjectStore\<rparr>;
                 cephObjectStore' = setObjectMeta cephObjectStore existing' in
             case clientUpdate KCephObjectStore cephObjectStoreTable cephObjectStoreTable_update
                    (NamespacedName cephObjectStore') cephObjectStore' w1 of
               (Some err, w2) \<Rightarrow> (Some err, w2)
             | (None, w2) \<Rightarrow> createCephObjectStores rest instance w2)
      | (Inl err, w1) \<Rightarrow>
          if IsNotFound err then
            (case clientCreate KCephObjectStore cephObjectStoreTable cephObjectStoreTable_update
                    (NamespacedName cephObjectStore) cephObjectStore w1 of
               (Some err', w2) \<Rightarrow> (Some err', w2)
             | (None, w2) \<Rightarrow> createCephObjectStores rest instance w2)
          else createCephObjectStores rest instance w1)"

definition newCephObjectStoreInstances :: "ext \<Rightarrow> StorageCluster \<Rightarrow> error + CephObjectStore list" where
  "newCephObjectStoreInstances x initData =
     (let obj = ObjectMeta.extend
           (emptyMeta\<lparr>Name := generateNameForCephObjectStore x initData, Namespace := Namespace initData\<rparr>)
           (Object.fields
             \<lparr>PreservePoolsOnDelete = False,
              DataPool = \<lparr>poolFailureDomain = FailureDomain (Status initData), ReplicatedSize = 3,
                          TargetSizeRatio = 49 / 100\<rparr>,
              MetadataPool = \<lparr>poolFailureDomain = FailureDomain (Status initData), ReplicatedSize = 3,
                              TargetSizeRatio = 0\<rparr>,
              Gateway = \<lparr>Port = 80, Instances = 2, gwPlacement = getPlacement x initData ''rgw'',
                         gwResources = GetDaemonResources x ''rgw'' (Resources (Spec initData)),
                         ExternalRgwEndpoints = []\<rparr>,
              HealthCheck = \<lparr>Disabled = False, Interval = []\<rparr>\<rparr>
             ()) in
      case SetControllerReference x initData (ObjectMeta.truncate obj) of
        Inl err \<Rightarrow> Inl err
      | Inr refs \<Rightarrow> Inr [obj\<lparr>OwnerReferences := refs\<rparr>])"

definition ensureCephObjectStores :: "ext \<Rightarrow> StorageCluster \<Rightarrow> world \<Rightarrow> error option \<times> world" where
  "ensureCephObjectStores x instance w =
     (let strategy = ReconcileStrategy (CephObjectStores (ManagedResources (Spec instance))) in
      if strategy = ReconcileStrategyIgnore then (None, w)
      else
        case GetPlatform x of
          Inl err \<Rightarrow> (Some err, w)
        | Inr platform \<Rightarrow>
           if avoidObjectStore x platform then (None, w)
           else
             (case newCephObjectStoreInstances x instance of
                Inl err \<Rightarrow> (Some err, w)
              | Inr stores \<Rightarrow> createCephObjectStores stores instance w))"

definition clientStatusUpdate :: "key \<Rightarrow> StorageCluster \<Rightarrow> world \<Rightarrow> error option \<times> world" where
  \<comment> \<open>\<open>r.client.Status().Update\<close>: the status subresource; only the stored status is replaced.\<close>
  "clientStatusUpdate k obj w =
     (let rq = (StatusUpdate, KStorageCluster, k) in
      case faults w (calls w) rq of
        Some msg \<Rightarrow> (Some (StatusFailure msg), answer rq (Some (StatusFailure msg)) w)
      | None \<Rightarrow>
         (case storageClusterTable w k of
            None \<Rightarrow> (Some (StatusNotFound (snd k)), answer rq (Some (StatusNotFound (snd k))) w)
          | Some stored \<Rightarrow>
              (None, answer rq None
                 (w\<lparr>storageClusterTable := (storageClusterTable w)(k \<mapsto> stored\<lparr>Status := Status obj\<rparr>)\<rparr>))))"

section \<open>\<open>pkg/controller/storagecluster\<close>: the reconciler\<close>

text \<open>
  The fields of \<open>ReconcileStorageCluster\<close> that a pass reads or writes, with the API client's
  world and the readiness file that \<open>ready.NewFileReady()\<close> sets and unsets.
\<close>

record reconciler =
  client :: world
  conditions :: "Condition list"
  monitoringIP :: string
  cephImage :: string
  readyFile :: bool

text \<open>The records of the external secret's JSON payload.\<close>

record ExternalResource =
  erKind :: string
  erData :: "string \<rightharpoonup> string"
  erName :: string

text \<open>
  What this package calls and \<open>src\<close> does not hold, as parameters: the status helpers of
  \<open>pkg/controller/util\<close> and of \<open>custom-resource-status\<close> with the condition types and
  reasons they are called with, the object-reference helpers, \<open>newStorageClassDeviceSets\<close>,
  the SHA-512 digest (the error of \<open>h.Write\<close>, and the hexadecimal digest), the JSON decoder,
  the network probes and parsers of \<open>net\<close>, \<open>strconv\<close> and \<open>strings\<close>, the results of
  setting and unsetting the readiness file, and this package's own \<open>newStorageClasses\<close>,
  \<open>createStorageClasses\<close> and \<open>createCephObjectStores\<close> (the versions taking a logger),
  \<open>generateNameForCephObjectStore\<close> and \<open>controllerutil.SetControllerReference\<close>.
\<close>

record legacy =
  SetProgressingCondition :: "Condition list \<Rightarrow> string \<Rightarrow> string \<Rightarrow> Condition list"
  SetErrorCondition :: "Condition list \<Rightarrow> string \<Rightarrow> string \<Rightarrow> Condition list"
  SetCompleteCondition :: "Condition list \<Rightarrow> string \<Rightarrow> string \<Rightarrow> Condition list"
  SetStatusCondition :: "Condition list \<Rightarrow> Condition \<Rightarrow> Condition list"
  IsStatusConditionFalse :: "Condition list \<Rightarrow> string \<Rightarrow> bool"
  MapCephClusterNoConditions :: "Condition list \<Rightarrow> string \<Rightarrow> string \<Rightarrow> Condition list"
  MapCephClusterNegativeConditions :: "Condition list \<Rightarrow> CephCluster \<Rightarrow> Condition list"
  ReconcileInit :: string
  ReconcileFailed :: string
  ReconcileCompleted :: string
  ReconcileCompletedMessage :: string
  ConditionReconcileComplete :: string
  ConditionUpgradeable :: string
  GetReference :: "CephCluster \<Rightarrow> error + ObjectReference"
  SetObjectReference :: "ObjectReference list \<Rightarrow> ObjectReference \<Rightarrow> ObjectReference list"
  setControllerReference :: "StorageCluster \<Rightarrow> ObjectMeta \<Rightarrow> error + OwnerReference list"
  newStorageClassDeviceSets :: "StorageDeviceSet list \<Rightarrow> StorageClassDeviceSet list"
  readySet :: "error option"
  readyUnset :: "error option"
  hashWrite :: "string \<Rightarrow> error option"
  hexDigest :: "string \<Rightarrow> string"
  Unmarshal :: "string \<Rightarrow> error + ExternalResource list"
  DialTimeout :: "string \<Rightarrow> error option"
  LookupIP :: "string \<Rightarrow> error option"
  SplitHostPort :: "string \<Rightarrow> error + string \<times> string"
  ParseInt :: "string \<Rightarrow> error + int"
  TrimSpace :: "string \<Rightarrow> string"
  newStorageClasses :: "StorageCluster \<Rightarrow> error + StorageClass list"
  createStorageClassesLogged :: "StorageClass option list \<Rightarrow> StorageCluster \<Rightarrow> world \<Rightarrow> error option \<times> world"
  createCephObjectStoresLogged :: "CephObjectStore list \<Rightarrow> StorageCluster \<Rightarrow> world \<Rightarrow> error option \<times> world"
  nameForCephObjectStore :: "StorageCluster \<Rightarrow> string"

text \<open>An ensurer gets the instance by pointer and the reconciler: it returns both, updated.\<close>

type_synonym ensurer = "StorageCluster \<Rightarrow> reconciler \<Rightarrow> error option \<times> StorageCluster \<times> reconciler"

definition nodeAffinityKey :: string where
  "nodeAffinityKey = ''cluster.ocs.openshift.io/openshift-storage''"

definition nodeTolerationKey :: string where
  "nodeTolerationKey = ''node.ocs.openshift.io/storage''"

definition defaultOSDPlacement :: Placement where
  "defaultOSDPlacement =
     \<lparr>NodeAffinity = Some [(nodeAffinityKey, ''Exists'')],
      Tolerations = [\<lparr>tolKey = nodeTolerationKey, tolOperator = ''Equal'', tolValue = ''true'',
                       tolEffect = ''NoSchedule''\<rparr>],
      PodAntiAffinity = Some [(100, ''app'', ''In'', [''rook-ceph-osd''], ''kubernetes.io/hostname'')]\<rparr>"

text \<open>
  \<open>newCephCluster\<close>. The loop over the device sets assigns \<open>defaultOSDPlacement\<close> to each;
  the monitors' volume claim template is the given one or, failing that, one built from the
  first device set.
\<close>

definition newCephCluster :: "legacy \<Rightarrow> StorageCluster \<Rightarrow> string \<Rightarrow> CephCluster" where
  "newCephCluster lx sc cephImage' =
     ObjectMeta.extend
       (emptyMeta\<lparr>Name := Name sc, Namespace := Namespace sc, Labels := [''app'' \<mapsto> Name sc]\<rparr>)
       (Object.fields
         \<lparr>CephVersion = \<lparr>Image = cephImage', AllowUnsupported = False\<rparr>,
          Mon = \<lparr>Count = 3, AllowMultiplePerNode = False,
                 VolumeClaimTemplate =
                   (case MonPVCTemplate (Spec sc) of
                      Some t \<Rightarrow> Some t
                    | None \<Rightarrow>
                       (case StorageDeviceSets (Spec sc) of
                          [] \<Rightarrow> None
                        | ds # _ \<Rightarrow>
                            Some \<lparr>StorageClassName = StorageClassName (DataPVCTemplate ds),
                                  StorageRequest = Some ''10Gi''\<rparr>))\<rparr>,
          MgrModules = [(''pg_autoscaler'', True)],
          DataDirHostPath = ''/var/lib/rook'',
          DisruptionManagement =
            \<lparr>ManagePodBudgets = True, ManageMachineDisruptionBudgets = True,
             MachineDisruptionBudgetNamespace = ''openshift-machine-api''\<rparr>,
          RBDMirroringWorkers = 0,
          NetworkHostNetwork = HostNetwork (Spec sc),
          Monitoring = \<lparr>Enabled = True, RulesNamespace = ''openshift-storage''\<rparr>,
          Storage =
            \<lparr>StorageClassDeviceSets =
               map (\<lambda>ds. ds\<lparr>scdsPlacement := defaultOSDPlacement\<rparr>)
                 (newStorageClassDeviceSets lx (StorageDeviceSets (Spec sc))),
             TopologyAware = True\<rparr>,
          PlacementSpec =
            [''all'' \<mapsto>
               \<lparr>NodeAffinity = Some [(nodeAffinityKey, ''Exists'')],
                Tolerations = [\<lparr>tolKey = nodeTolerationKey, tolOperator = ''Equal'',
                                 tolValue = ''true'', tolEffect = ''NoSchedule''\<rparr>],
                PodAntiAffinity = None\<rparr>]\<rparr>
         \<lparr>State = []\<rparr>)"

text \<open>
  The two nested loops of \<open>ensureCephCluster\<close> that look for an expansion: the outer one over
  the device sets found, the inner one over the desired ones; both end at the first pair
  with the same name and a larger desired count.
\<close>

definition expanding :: "StorageClassDeviceSet list \<Rightarrow> StorageClassDeviceSet list \<Rightarrow> bool" where
  "expanding foundSets desiredSets =
     list_ex (\<lambda>countInFoundSpec.
        list_ex (\<lambda>countInCephClusterSpec.
           scdsName countInFoundSpec = scdsName countInCephClusterSpec
           \<and> scdsCount countInCephClusterSpec > scdsCount countInFoundSpec) desiredSets) foundSets"

definition ensureCephCluster :: "legacy \<Rightarrow> ensurer" where
  "ensureCephCluster lx sc r =
     (let cephCluster0 = newCephCluster lx sc (cephImage r) in
      case setControllerReference lx sc (ObjectMeta.truncate cephCluster0) of
        Inl err \<Rightarrow> (Some err, sc, r)
      | Inr refs \<Rightarrow>
         (let cephCluster = cephCluster0\<lparr>OwnerReferences := refs\<rparr> in
          case clientGet KCephCluster cephClusterTable (NamespacedName cephCluster) (client r) of
            (Inl err, w1) \<Rightarrow>
              if IsNotFound err then
                (case clientCreate KCephCluster cephClusterTable cephClusterTable_update
                        (NamespacedName cephCluster) cephCluster w1 of
                   (res, w2) \<Rightarrow> (res, sc, r\<lparr>client := w2\<rparr>))
              else (Some err, sc, r\<lparr>client := w1\<rparr>)
          | (Inr found, w1) \<Rightarrow>
              if Spec cephCluster \<noteq> Spec found then
                (let sc' = (if expanding (StorageClassDeviceSets (Storage (Spec found)))
                                  (StorageClassDeviceSets (Storage (Spec cephCluster)))
                            then sc\<lparr>Status := (Status sc)\<lparr>Phase := PhaseClusterExpanding\<rparr>\<rparr>
                            else sc);
                     found' = found\<lparr>Spec := Spec cephCluster\<rparr> in
                 case clientUpdate KCephCluster cephClusterTable cephClusterTable_update
                        (NamespacedName found') found' w1 of
                   (res, w2) \<Rightarrow> (res, sc', r\<lparr>client := w2\<rparr>))
              else
                (case GetReference lx found of
                   Inl err \<Rightarrow> (Some err, sc, r\<lparr>client := w1\<rparr>)
                 | Inr objectRef \<Rightarrow>
                    (let sc' = sc\<lparr>Status := (Status sc)
                                  \<lparr>RelatedObjects := SetObjectReference lx (RelatedObjects (Status sc)) objectRef\<rparr>\<rparr>;
                         conditions' =
                           (if State (Status found) = []
                            then MapCephClusterNoConditions lx (conditions r) ''CephClusterStatus''
                                   ''CephCluster resource is not reporting status''
                            else MapCephClusterNegativeConditions lx (conditions r) found) in
                     (None, sc', r\<lparr>client := w1, conditions := conditions'\<rparr>)))))"

text \<open>
  The loop of \<open>Reconcile\<close> over the ensurers. At the first error it sets the error condition
  and the phase, writes the status (an error of that write is only logged) and returns the
  ensurer's error; the ensurers after it are not called.
\<close>

fun runEnsurers ::
  "legacy \<Rightarrow> ensurer list \<Rightarrow> StorageCluster \<Rightarrow> reconciler \<Rightarrow> error option \<times> StorageCluster \<times> reconciler" where
  "runEnsurers lx [] instance r = (None, instance, r)"
| "runEnsurers lx (f # fs) instance r =
     (case f instance r of
        (Some err, instance1, r1) \<Rightarrow>
          (let message = ''Error while reconciling: '' @ ErrorText err;
               instance2 = instance1\<lparr>Status := (Status instance1)
                 \<lparr>Conditions := SetErrorCondition lx (Conditions (Status instance1)) (ReconcileFailed lx) message,
                  Phase := PhaseError\<rparr>\<rparr> in
           case clientStatusUpdate (NamespacedName instance2) instance2 (client r1) of
             (uErr, w) \<Rightarrow> (Some err, instance2, r1\<lparr>client := w\<rparr>))
      | (None, instance1, r1) \<Rightarrow> runEnsurers lx fs instance1 r1)"

text \<open>
  \<open>Reconcile\<close>, with the list of ensurers as a parameter. The result is the error it
  returns (the \<open>reconcile.Result\<close> is always empty). When the initialization object is not
  found it is created and the pass ends there, with the error of that \<open>Create\<close>, if any.
\<close>

definition ReconcileWith :: "legacy \<Rightarrow> ensurer list \<Rightarrow> key \<Rightarrow> reconciler \<Rightarrow> error option \<times> reconciler" where
  "ReconcileWith lx fs request r =
     (case clientGet KStorageCluster storageClusterTable request (client r) of
        (Inl err, w1) \<Rightarrow>
          if IsNotFound err then (None, r\<lparr>client := w1\<rparr>) else (Some err, r\<lparr>client := w1\<rparr>)
      | (Inr instance, w1) \<Rightarrow>
         (case (if Conditions (Status instance) = [] then
                  (let instance' = instance\<lparr>Status := (Status instance)
                         \<lparr>Conditions := SetProgressingCondition lx (Conditions (Status instance))
                                           (ReconcileInit lx) ''Initializing StorageCluster'',
                          Phase := PhaseProgressing\<rparr>\<rparr> in
                   case clientStatusUpdate (NamespacedName instance') instance' w1 of
                     (res, w2) \<Rightarrow> (res, instance', w2))
                else (None, instance, w1)) of
            (Some err, instance1, w2) \<Rightarrow> (Some err, r\<lparr>client := w2\<rparr>)
          | (None, instance1, w2) \<Rightarrow>
             (case clientGet KStorageClusterInitialization initializationTable request w2 of
                (Inl err, w3) \<Rightarrow>
                  if IsNotFound err then
                    (let scinit = ObjectMeta.extend
                           (emptyMeta\<lparr>Name := snd request, Namespace := fst request\<rparr>)
                           (Object.fields () ()) in
                     case setControllerReference lx instance1 (ObjectMeta.truncate scinit) of
                       Inl err' \<Rightarrow> (Some err', r\<lparr>client := w3\<rparr>)
                     | Inr refs \<Rightarrow>
                        (case clientCreate KStorageClusterInitialization initializationTable
                                initializationTable_update (NamespacedName scinit)
                                (scinit\<lparr>OwnerReferences := refs\<rparr>) w3 of
                           (res, w4) \<Rightarrow> (res, r\<lparr>client := w4\<rparr>)))
                  else (Some err, r\<lparr>client := w3\<rparr>)
              | (Inr scinit, w3) \<Rightarrow>
                 (case runEnsurers lx fs instance1 (r\<lparr>client := w3, conditions := []\<rparr>) of
                    (Some err, instance2, r1) \<Rightarrow> (Some err, r1)
                  | (None, instance2, r1) \<Rightarrow>
                     if conditions r1 = [] then
                       (let instance3 = instance2\<lparr>Status := (Status instance2)
                              \<lparr>Conditions := SetCompleteCondition lx (Conditions (Status instance2))
                                                (ReconcileCompleted lx) (ReconcileCompletedMessage lx),
                               Phase := PhaseReady\<rparr>\<rparr> in
                        case readySet lx of
                          Some err \<Rightarrow> (Some err, r1)
                        | None \<Rightarrow>
                           (case clientStatusUpdate (NamespacedName instance3) instance3 (client r1) of
                              (res, w4) \<Rightarrow> (res, r1\<lparr>client := w4, readyFile := True\<rparr>)))
                     else
                       (let conds1 = foldl (SetStatusCondition lx) (Conditions (Status instance2)) (conditions r1);
                            conds2 = SetStatusCondition lx conds1
                              \<lparr>cType = ConditionReconcileComplete lx, cStatus = ConditionTrue,
                               cReason = ReconcileCompleted lx, cMessage = ReconcileCompletedMessage lx,
                               cLastTransitionTime = 0\<rparr>;
                            instance3 = instance2\<lparr>Status := (Status instance2)
                              \<lparr>Conditions := conds2, Phase := PhaseReady\<rparr>\<rparr> in
                        if IsStatusConditionFalse lx conds2 (ConditionUpgradeable lx) then
                          (let instance4 = instance3\<lparr>Status := (Status instance3)\<lparr>Phase := PhaseNotReady\<rparr>\<rparr> in
                           case readyUnset lx of
                             Some err \<Rightarrow> (Some err, r1)
                           | None \<Rightarrow>
                              (case clientStatusUpdate (NamespacedName instance4) instance4 (client r1) of
                                 (res, w4) \<Rightarrow> (res, r1\<lparr>client := w4, readyFile := False\<rparr>)))
                        else
                          (case clientStatusUpdate (NamespacedName instance3) instance3 (client r1) of
                             (res, w4) \<Rightarrow> (res, r1\<lparr>client := w4\<rparr>)))))))"

text \<open>\<open>Reconcile\<close> as \<open>reconcile.go\<close> has it: the one ensurer is \<open>ensureCephCluster\<close>.\<close>

definition Reconcile :: "legacy \<Rightarrow> key \<Rightarrow> reconciler \<Rightarrow> error option \<times> reconciler" where
  "Reconcile lx request r = ReconcileWith lx [ensureCephCluster lx] request r"

section \<open>\<open>pkg/controller/storagecluster\<close>: resources of an external cluster\<close>

definition externalClusterDetailsSecret :: string where
  "externalClusterDetailsSecret = ''rook-ceph-external-cluster-details''"
definition externalClusterDetailsKey :: string where
  "externalClusterDetailsKey = ''external_cluster_details''"
definition cephFsStorageClassName :: string where "cephFsStorageClassName = ''cephfs''"
definition cephRbdStorageClassName :: string where "cephRbdStorageClassName = ''ceph-rbd''"
definition cephRgwStorageClassName :: string where "cephRgwStorageClassName = ''ceph-rgw''"
definition externalCephRgwEndpointKey :: string where "externalCephRgwEndpointKey = ''endpoint''"
definition rookCephOperatorConfigName :: string where
  "rookCephOperatorConfigName = ''rook-ceph-operator-config''"
definition rookEnableCephFSCSIKey :: string where "rookEnableCephFSCSIKey = ''ROOK_CSI_ENABLE_CEPHFS''"

text \<open>
  The indices into the result of \<open>newStorageClasses\<close> are declared outside \<open>src\<close>; the test
  \<open>assertStorageClasses\<close> finds the filesystem class at 0, the block class at 1 and the
  object class at 2.
\<close>

definition cephFileSystemIndex :: nat where "cephFileSystemIndex = 0"
definition cephBlockPoolIndex :: nat where "cephBlockPoolIndex = 1"
definition cephObjectStoreIndex :: nat where "cephObjectStoreIndex = 2"

text \<open>A Go map read \<open>m[k]\<close>: the zero value, the empty string, when the key is absent.\<close>

definition valueOf :: "(string \<rightharpoonup> string) \<Rightarrow> string \<Rightarrow> string" where
  "valueOf m k = (case m k of None \<Rightarrow> [] | Some v \<Rightarrow> v)"

definition checkRGWEndpoint :: "legacy \<Rightarrow> string \<Rightarrow> error option" where
  "checkRGWEndpoint lx endpoint = DialTimeout lx endpoint"

definition sha512sum :: "legacy \<Rightarrow> string \<Rightarrow> error + string" where
  "sha512sum lx tobeHashed =
     (case hashWrite lx tobeHashed of Some err \<Rightarrow> Inl err | None \<Rightarrow> Inr (hexDigest lx tobeHashed))"

definition retrieveSecret :: "string \<Rightarrow> StorageCluster \<Rightarrow> world \<Rightarrow> (error + Secret) \<times> world" where
  "retrieveSecret secretName instance w = clientGet KSecret secretTable (Namespace instance, secretName) w"

definition externalSecretDataChecksum :: "legacy \<Rightarrow> StorageCluster \<Rightarrow> world \<Rightarrow> (error + string) \<times> world" where
  "externalSecretDataChecksum lx instance w =
     (case retrieveSecret externalClusterDetailsSecret instance w of
        (Inl err, w1) \<Rightarrow> (Inl err, w1)
      | (Inr found, w1) \<Rightarrow> (sha512sum lx (valueOf (Data found) externalClusterDetailsKey), w1))"

definition sameExternalSecretData :: "legacy \<Rightarrow> StorageCluster \<Rightarrow> reconciler \<Rightarrow> bool \<times> StorageCluster \<times> reconciler" where
  "sameExternalSecretData lx instance r =
     (case externalSecretDataChecksum lx instance (client r) of
        (Inl err, w1) \<Rightarrow> (False, instance, r\<lparr>client := w1\<rparr>)
      | (Inr extSecretChecksum, w1) \<Rightarrow>
          if ExternalSecretHash (Status instance) = extSecretChecksum
          then (True, instance, r\<lparr>client := w1\<rparr>)
          else (False, instance\<lparr>Status := (Status instance)\<lparr>ExternalSecretHash := extSecretChecksum\<rparr>\<rparr>,
                r\<lparr>client := w1\<rparr>))"

definition retrieveExternalSecretData ::
  "legacy \<Rightarrow> StorageCluster \<Rightarrow> world \<Rightarrow> (error + ExternalResource list) \<times> world" where
  "retrieveExternalSecretData lx instance w =
     (case retrieveSecret externalClusterDetailsSecret instance w of
        (Inl err, w1) \<Rightarrow> (Inl err, w1)
      | (Inr found, w1) \<Rightarrow> (Unmarshal lx (valueOf (Data found) externalClusterDetailsKey), w1))"

definition emptyPlacement :: Placement where
  "emptyPlacement = \<lparr>NodeAffinity = None, Tolerations = [], PodAntiAffinity = None\<rparr>"

definition newExternalGatewaySpec :: "legacy \<Rightarrow> string \<Rightarrow> error + GatewaySpec" where
  "newExternalGatewaySpec lx rgwEndpoint =
     (case SplitHostPort lx rgwEndpoint of
        Inl err \<Rightarrow> Inl err
      | Inr (hostIP, portStr) \<Rightarrow>
          if hostIP = [] then Inl (Errorf ''An empty rgw host 'IP' address found'')
          else
            (case ParseInt lx portStr of
               Inl err \<Rightarrow> Inl err
             | Inr portInt64 \<Rightarrow>
                 Inr \<lparr>Port = portInt64, Instances = 0, gwPlacement = emptyPlacement,
                      gwResources = \<lparr>Limits = Map.empty, Requests = Map.empty\<rparr>,
                      ExternalRgwEndpoints = [hostIP]\<rparr>))"

text \<open>The result \<open>nil, nil\<close> for an empty endpoint is \<open>Inr None\<close>.\<close>

definition newExternalCephObjectStoreInstances ::
  "legacy \<Rightarrow> StorageCluster \<Rightarrow> string \<Rightarrow> error + CephObjectStore list option" where
  "newExternalCephObjectStoreInstances lx initData rgwEndpoint0 =
     (let rgwEndpoint = TrimSpace lx rgwEndpoint0 in
      if rgwEndpoint = [] then Inr None
      else
        case newExternalGatewaySpec lx rgwEndpoint of
          Inl err \<Rightarrow> Inl err
        | Inr gatewaySpec \<Rightarrow>
            Inr (Some [ObjectMeta.extend
               (emptyMeta\<lparr>Name := nameForCephObjectStore lx initData, Namespace := Namespace initData\<rparr>)
               (Object.fields
                  \<lparr>PreservePoolsOnDelete = False,
                   DataPool = \<lparr>poolFailureDomain = [], ReplicatedSize = 0, TargetSizeRatio = 0\<rparr>,
                   MetadataPool = \<lparr>poolFailureDomain = [], ReplicatedSize = 0, TargetSizeRatio = 0\<rparr>,
                   Gateway = gatewaySpec,
                   HealthCheck = \<lparr>Disabled = False, Interval = ''60s''\<rparr>\<rparr>
                  ())]))"

definition createExternalStorageClusterConfigMap :: "ConfigMap \<Rightarrow> key \<Rightarrow> world \<Rightarrow> error option \<times> world" where
  "createExternalStorageClusterConfigMap cm objectKey w =
     (case clientGet KConfigMap configMapTable objectKey w of
        (Inl err, w1) \<Rightarrow>
          if IsNotFound err
          then clientCreate KConfigMap configMapTable configMapTable_update (NamespacedName cm) cm w1
          else (Some err, w1)
      | (Inr found, w1) \<Rightarrow> (None, w1))"

definition createExternalStorageClusterSecret :: "Secret \<Rightarrow> key \<Rightarrow> world \<Rightarrow> error option \<times> world" where
  "createExternalStorageClusterSecret sec objectKey w =
     (case clientGet KSecret secretTable objectKey w of
        (Inl err, w1) \<Rightarrow>
          if IsNotFound err
          then clientCreate KSecret secretTable secretTable_update (NamespacedName sec) sec w1
          else (Some err, w1)
      | (Inr found, w1) \<Rightarrow> (None, w1))"

text \<open>\<open>net.JoinHostPort\<close>: a host with a colon in it is bracketed.\<close>

definition JoinHostPort :: "string \<Rightarrow> string \<Rightarrow> string" where
  "JoinHostPort host port =
     (if CHR '':'' \<in> set host then ''['' @ host @ '']:'' @ port else host @ '':'' @ port)"

definition validateMonitoringEndpoint :: "legacy \<Rightarrow> string \<Rightarrow> string \<Rightarrow> error option" where
  "validateMonitoringEndpoint lx monitoringIP' monitoringPort =
     (case LookupIP lx monitoringIP' of
        Some err \<Rightarrow> Some err
      | None \<Rightarrow> DialTimeout lx (JoinHostPort monitoringIP' monitoringPort))"

definition setRookCSICephFS :: "bool \<Rightarrow> StorageCluster \<Rightarrow> world \<Rightarrow> error option \<times> world" where
  "setRookCSICephFS enableDisableFlag instance w =
     (case clientGet KConfigMap configMapTable (Namespace instance, rookCephOperatorConfigName) w of
        (Inl err, w1) \<Rightarrow> (Some err, w1)
      | (Inr rookCephOperatorConfig, w1) \<Rightarrow>
         (let enableDisableFlagStr = (if enableDisableFlag then ''true'' else ''false'') in
          if valueOf (Data rookCephOperatorConfig) rookEnableCephFSCSIKey = enableDisableFlagStr
          then (None, w1)
          else
            (let cfg = rookCephOperatorConfig\<lparr>Data := (Data rookCephOperatorConfig)
                          (rookEnableCephFSCSIKey \<mapsto> enableDisableFlagStr)\<rparr> in
             clientUpdate KConfigMap configMapTable configMapTable_update (NamespacedName cfg) cfg w1)))"

text \<open>
  The local variables of \<open>createExternalStorageClusterResources\<close> that its loop over the
  records changes. \<open>scs\<close> holds pointers: writing the parameters of \<open>sc = scs[index]\<close> changes
  the class in \<open>scs\<close> and, after \<open>availableSCs[index] = sc\<close>, the one in \<open>availableSCs\<close>.
  \<open>extCephObjectStores\<close> is nil (\<open>None\<close>) until the object-gateway record sets it.
\<close>

record synthesis =
  scs :: "StorageClass list"
  enableRookCSICephFS :: bool
  availableSCs :: "StorageClass option list"
  extCephObjectStores :: "CephObjectStore list option"

text \<open>
  The end of the \<open>StorageClass\<close> case: the record's data are written into the parameters of
  \<open>sc\<close>, and \<open>sc\<close> is stored at \<open>index\<close>. \<open>sc\<close> is nil (\<open>None\<close>) for a name that is none of the
  three: then a non-empty \<open>d.Data\<close> makes the assignment dereference nil, and with an empty
  one nil is stored at index 0.
\<close>

definition mergeParameters ::
  "nat \<Rightarrow> StorageClass option \<Rightarrow> (string \<rightharpoonup> string) \<Rightarrow> synthesis \<Rightarrow> error + synthesis" where
  "mergeParameters index sc dData st =
     (case sc of
        None \<Rightarrow>
          if dData = Map.empty then Inr (st\<lparr>availableSCs := (availableSCs st)[index := None]\<rparr>)
          else Inl (Panic ''invalid memory address or nil pointer dereference'')
      | Some c \<Rightarrow>
          (let c' = c\<lparr>Parameters := Parameters c ++ dData\<rparr> in
           Inr (st\<lparr>scs := (scs st)[index := c'],
                   availableSCs := (availableSCs st)[index := Some c']\<rparr>)))"

text \<open>\<open>scs[index]\<close>: an index out of range panics.\<close>

definition classAt :: "StorageClass list \<Rightarrow> nat \<Rightarrow> error + StorageClass" where
  "classAt cs index = (if index < length cs then Inr (cs ! index) else Inl (Panic ''index out of range''))"

text \<open>
  The body of the loop over the records, for one record \<open>d\<close>: the \<open>switch\<close> on its kind. A
  kind that is none of the four does nothing.
\<close>

definition externalRecord ::
  "legacy \<Rightarrow> StorageCluster \<Rightarrow> ExternalResource \<Rightarrow> synthesis \<Rightarrow> reconciler
     \<Rightarrow> error option \<times> synthesis \<times> reconciler" where
  "externalRecord lx instance d st r =
     (let ownerRef = OwnerReference (UID instance) (APIVersion instance) (Kind instance) (Name instance);
          objectMeta = emptyMeta\<lparr>Name := erName d, Namespace := Namespace instance,
                                 OwnerReferences := [ownerRef]\<rparr>;
          objectKey = (Namespace instance, erName d) in
      if erKind d = ''CephCluster'' then
        (case erData d ''MonitoringEndpoint'' of
           None \<Rightarrow>
             (Some (Errorf (''Monitoring Endpoint not present in the external cluster secret ''
                             @ externalClusterDetailsSecret)), st, r)
         | Some monitoringIP' \<Rightarrow>
            (case erData d ''MonitoringPort'' of
               None \<Rightarrow>
                 (Some (Errorf (''Monitoring Port not present in the external cluster secret ''
                                 @ externalClusterDetailsSecret)), st, r)
             | Some monitoringPort \<Rightarrow>
                (case validateMonitoringEndpoint lx monitoringIP' monitoringPort of
                   Some err \<Rightarrow> (Some err, st, r)
                 | None \<Rightarrow> (None, st, r\<lparr>monitoringIP := monitoringIP'\<rparr>))))
      else if erKind d = ''ConfigMap'' then
        (let cm = ObjectMeta.extend objectMeta (DataObject.fields (erData d)) in
         case createExternalStorageClusterConfigMap cm objectKey (client r) of
           (res, w1) \<Rightarrow> (res, st, r\<lparr>client := w1\<rparr>))
      else if erKind d = ''Secret'' then
        (let sec = ObjectMeta.extend objectMeta (DataObject.fields (erData d)) in
         case createExternalStorageClusterSecret sec objectKey (client r) of
           (res, w1) \<Rightarrow> (res, st, r\<lparr>client := w1\<rparr>))
      else if erKind d = ''StorageClass'' then
        (if erName d = cephFsStorageClassName then
           (case classAt (scs st) cephFileSystemIndex of
              Inl err \<Rightarrow> (Some err, st, r)
            | Inr sc \<Rightarrow>
               (case mergeParameters cephFileSystemIndex (Some sc) (erData d)
                       (st\<lparr>enableRookCSICephFS := True\<rparr>) of
                  Inl err \<Rightarrow> (Some err, st\<lparr>enableRookCSICephFS := True\<rparr>, r)
                | Inr st' \<Rightarrow> (None, st', r)))
         else if erName d = cephRbdStorageClassName then
           (case classAt (scs st) cephBlockPoolIndex of
              Inl err \<Rightarrow> (Some err, st, r)
            | Inr sc \<Rightarrow>
               (case mergeParameters cephBlockPoolIndex (Some sc) (erData d) st of
                  Inl err \<Rightarrow> (Some err, st, r)
                | Inr st' \<Rightarrow> (None, st', r)))
         else if erName d = cephRgwStorageClassName then
           (let rgwEndpoint = valueOf (erData d) externalCephRgwEndpointKey in
            case checkRGWEndpoint lx rgwEndpoint of
              Some err \<Rightarrow> (Some err, st, r)
            | None \<Rightarrow>
               (case newExternalCephObjectStoreInstances lx instance rgwEndpoint of
                  Inl err \<Rightarrow> (Some err, st, r)
                | Inr stores \<Rightarrow>
                   (let st1 = st\<lparr>extCephObjectStores := stores\<rparr>;
                        dData = (erData d)(externalCephRgwEndpointKey := None) in
                    case classAt (scs st1) cephObjectStoreIndex of
                      Inl err \<Rightarrow> (Some err, st1, r)
                    | Inr sc \<Rightarrow>
                       (case mergeParameters cephObjectStoreIndex (Some sc) dData st1 of
                          Inl err \<Rightarrow> (Some err, st1, r)
                        | Inr st' \<Rightarrow> (None, st', r)))))
         else
           (case mergeParameters 0 None (erData d) st of
              Inl err \<Rightarrow> (Some err, st, r)
            | Inr st' \<Rightarrow> (None, st', r)))
      else (None, st, r))"

text \<open>The loop over the records: the first error returns from the whole function.\<close>

fun externalRecords ::
  "legacy \<Rightarrow> StorageCluster \<Rightarrow> ExternalResource list \<Rightarrow> synthesis \<Rightarrow> reconciler
     \<Rightarrow> error option \<times> synthesis \<times> reconciler" where
  "externalRecords lx instance [] st r = (None, st, r)"
| "externalRecords lx instance (d # ds) st r =
     (case externalRecord lx instance d st r of
        (Some err, st1, r1) \<Rightarrow> (Some err, st1, r1)
      | (None, st1, r1) \<Rightarrow> externalRecords lx instance ds st1 r1)"

definition createExternalStorageClusterResources ::
  "legacy \<Rightarrow> StorageCluster \<Rightarrow> reconciler \<Rightarrow> error option \<times> reconciler" where
  "createExternalStorageClusterResources lx instance r =
     (case newStorageClasses lx instance of
        Inl err \<Rightarrow> (Some err, r)
      | Inr classes \<Rightarrow>
         (case retrieveExternalSecretData lx instance (client r) of
            (Inl err, w1) \<Rightarrow> (Some err, r\<lparr>client := w1\<rparr>)
          | (Inr data, w1) \<Rightarrow>
             (case externalRecords lx instance data
                     \<lparr>scs = classes, enableRookCSICephFS = False,
                      availableSCs = [None, None, None], extCephObjectStores = None\<rparr>
                     (r\<lparr>client := w1\<rparr>) of
                (Some err, st, r1) \<Rightarrow> (Some err, r1)
              | (None, st, r1) \<Rightarrow>
                 (case createStorageClassesLogged lx (availableSCs st) instance (client r1) of
                    (Some err, w2) \<Rightarrow> (Some err, r1\<lparr>client := w2\<rparr>)
                  | (None, w2) \<Rightarrow>
                     (case setRookCSICephFS (enableRookCSICephFS st) instance w2 of
                        (Some err, w3) \<Rightarrow> (Some err, r1\<lparr>client := w3\<rparr>)
                      | (None, w3) \<Rightarrow>
                         (case extCephObjectStores st of
                            None \<Rightarrow> (None, r1\<lparr>client := w3\<rparr>)
                          | Some stores \<Rightarrow>
                             (case createCephObjectStoresLogged lx stores instance w3 of
                                (res, w4) \<Rightarrow> (res, r1\<lparr>client := w4\<rparr>))))))))"

text \<open>
  \<open>ensureExternalStorageClusterResources\<close>: an ensurer. It returns the instance, whose
  checksum \<open>sameExternalSecretData\<close> may have replaced.
\<close>

definition ensureExternalStorageClusterResources :: "legacy \<Rightarrow> ensurer" where
  "ensureExternalStorageClusterResources lx instance r =
     (case sameExternalSecretData lx instance r of
        (True, instance1, r1) \<Rightarrow> (None, instance1, r1)
      | (False, instance1, r1) \<Rightarrow>
         (case createExternalStorageClusterResources lx instance1 r1 of
            (res, r2) \<Rightarrow> (res, instance1, r2)))"

section \<open>Worlds and inputs for the examples\<close>

definition emptyWorld :: world where
  "emptyWorld = \<lparr>storageClusterTable = Map.empty, initializationTable = Map.empty,
     cephClusterTable = Map.empty, cephBlockPoolTable = Map.empty, cephFilesystemTable = Map.empty,
     cephObjectStoreTable = Map.empty, storageClassTable = Map.empty, configMapTable = Map.empty,
     secretTable = Map.empty, calls = [], faults = (\<lambda>_ _. None)\<rparr>"

definition exampleClass :: "string \<Rightarrow> string \<Rightarrow> nat option \<Rightarrow> StorageClass" where
  "exampleClass nm v del =
     ObjectMeta.extend (emptyMeta\<lparr>Name := nm, DeletionTimestamp := del\<rparr>)
       (StorageClass.fields ''provisioner'' None None [''pool'' \<mapsto> v])"

definition exampleConfiguration :: "string \<Rightarrow> string \<Rightarrow> string \<Rightarrow> StorageClassConfiguration" where
  "exampleConfiguration nm v strategy =
     \<lparr>storageClass = exampleClass nm v None, reconcileStrategy = strategy, disable = False\<rparr>"

section \<open>Predicates on calls and worlds\<close>

definition storageClassCall :: "call \<Rightarrow> bool" where
  "storageClassCall c = (fst (snd (fst c)) = KStorageClass \<and> fst (fst c) \<in> {Get, Create, Delete})"

definition sameButStorageClasses :: "world \<Rightarrow> world \<Rightarrow> bool" where
  "sameButStorageClasses w w' =
     (faults w' = faults w \<and> storageClusterTable w' = storageClusterTable w
      \<and> initializationTable w' = initializationTable w \<and> cephClusterTable w' = cephClusterTable w
      \<and> cephBlockPoolTable w' = cephBlockPoolTable w \<and> cephFilesystemTable w' = cephFilesystemTable w
      \<and> cephObjectStoreTable w' = cephObjectStoreTable w \<and> configMapTable w' = configMapTable w
      \<and> secretTable w' = secretTable w
      \<and> (\<exists>cs. calls w' = calls w @ cs \<and> list_all storageClassCall cs))"

definition driftWorld :: "nat option \<Rightarrow> world" where
  \<comment> \<open>One storage class \<open>sc\<close> is stored, with the parameter \<open>pool = old\<close> and the given deletion timestamp.\<close>
  "driftWorld del = emptyWorld\<lparr>storageClassTable := [([], ''sc'') \<mapsto> exampleClass ''sc'' ''old'' del]\<rparr>"

definition exampleCluster :: "string \<Rightarrow> bool \<Rightarrow> bool \<Rightarrow> bool \<Rightarrow> StorageCluster" where
  \<comment> \<open>The cluster \<open>ocsinit\<close>: one strategy for all its managed resources, the flags that disable
     the block and the filesystem storage classes, and the external mode.\<close>
  "exampleCluster strategy disableBlock disableFilesystem external =
     ObjectMeta.extend
       (emptyMeta\<lparr>Name := ''ocsinit'', Namespace := ''openshift-storage''\<rparr>)
       (Object.fields
          \<lparr>ExternalStorage = \<lparr>Enable = external\<rparr>, HostNetwork = False, StorageDeviceSets = [],
           Resources = Map.empty, MonPVCTemplate = None,
           ManagedResources =
             \<lparr>CephBlockPools = \<lparr>ReconcileStrategy = strategy, DisableStorageClass = disableBlock\<rparr>,
              CephFilesystems = \<lparr>ReconcileStrategy = strategy, DisableStorageClass = disableFilesystem\<rparr>,
              CephObjectStores = \<lparr>ReconcileStrategy = strategy, DisableStorageClass = False\<rparr>\<rparr>\<rparr>
          \<lparr>Phase = [], Conditions = [], RelatedObjects = [], FailureDomain = [],
           ExternalSecretHash = []\<rparr>)"

definition exampleStore :: "nat \<Rightarrow> nat option \<Rightarrow> CephObjectStore" where
  "exampleStore n del =
     ObjectMeta.extend
       (emptyMeta\<lparr>Name := ''store'', Namespace := ''openshift-storage'', DeletionTimestamp := del\<rparr>)
       (Object.fields
          \<lparr>PreservePoolsOnDelete = False,
           DataPool = \<lparr>poolFailureDomain = [], ReplicatedSize = n, TargetSizeRatio = 0\<rparr>,
           MetadataPool = \<lparr>poolFailureDomain = [], ReplicatedSize = n, TargetSizeRatio = 0\<rparr>,
           Gateway = \<lparr>Port = 80, Instances = 2, gwPlacement = emptyPlacement,
                      gwResources = \<lparr>Limits = Map.empty, Requests = Map.empty\<rparr>,
                      ExternalRgwEndpoints = []\<rparr>,
           HealthCheck = \<lparr>Disabled = False, Interval = []\<rparr>\<rparr>
          ())"

definition storeWorld :: "nat option \<Rightarrow> world" where
  \<comment> \<open>One object store \<open>store\<close> is stored, with the given deletion timestamp.\<close>
  "storeWorld del = emptyWorld\<lparr>cephObjectStoreTable :=
     [(''openshift-storage'', ''store'') \<mapsto> exampleStore 3 del]\<rparr>"

definition gateOpen :: "error + (unit, PhaseStatus option) Object \<Rightarrow> bool" where
  \<comment> \<open>What lets a readiness gate of \<open>ensureCreated\<close> pass: the object was fetched, it has a
     status, and its phase is Ready.\<close>
  "gateOpen res =
     (case res of
        Inl err \<Rightarrow> False
      | Inr obj \<Rightarrow> (case Status obj of None \<Rightarrow> False | Some st \<Rightarrow> Phase st = PhaseReady))"

definition dependencyCall :: "call \<Rightarrow> bool" where
  "dependencyCall c = (fst (fst c) = Get \<and> fst (snd (fst c)) \<in> {KCephBlockPool, KCephFilesystem})"

definition exampleExt :: "bool \<Rightarrow> ext" where
  \<comment> \<open>Names as the test \<open>assertStorageClasses\<close> expects them; the flag says whether the platform
     avoids the object store.\<close>
  "exampleExt avoid =
     \<lparr>generateNameForCephBlockPool = (\<lambda>i. Name i @ ''-cephblockpool''),
      generateNameForCephFilesystem = (\<lambda>i. Name i @ ''-cephfilesystem''),
      generateNameForCephObjectStore = (\<lambda>i. Name i @ ''-cephobjectstore''),
      generateNameForCephFilesystemSC = (\<lambda>i. Name i @ ''-cephfs''),
      generateNameForCephBlockPoolSC = (\<lambda>i suffix. Name i @ ''-ceph-rbd'' @ suffix),
      generateNameForCephRgwSC = (\<lambda>i. Name i @ ''-ceph-rgw''),
      GetPlatform = Inr ''platform'',
      avoidObjectStore = (\<lambda>p. avoid),
      PlatformsShouldAvoidObjectStore = Inr avoid,
      getPlacement = (\<lambda>i d. emptyPlacement),
      GetDaemonResources = (\<lambda>d m. \<lparr>Limits = Map.empty, Requests = Map.empty\<rparr>),
      SetControllerReference =
        (\<lambda>owner obj. Inr [OwnerReference (UID owner) (APIVersion owner) (Kind owner) (Name owner)])\<rparr>"

definition exampleDependency :: "string \<Rightarrow> PhaseStatus option \<Rightarrow> (unit, PhaseStatus option) Object" where
  "exampleDependency nm st =
     ObjectMeta.extend (emptyMeta\<lparr>Name := nm, Namespace := ''openshift-storage''\<rparr>)
       (Object.fields () st)"

definition gatesWorld :: "PhaseStatus option option \<Rightarrow> PhaseStatus option option \<Rightarrow> world" where
  \<comment> \<open>The block pool and the filesystem of \<open>ocsinit\<close>, each absent or with the given status.\<close>
  "gatesWorld pool fs =
     emptyWorld\<lparr>cephBlockPoolTable :=
         (case pool of None \<Rightarrow> Map.empty
          | Some st \<Rightarrow> [(''openshift-storage'', ''ocsinit-cephblockpool'')
                          \<mapsto> exampleDependency ''ocsinit-cephblockpool'' st]),
       cephFilesystemTable :=
         (case fs of None \<Rightarrow> Map.empty
          | Some st \<Rightarrow> [(''openshift-storage'', ''ocsinit-cephfilesystem'')
                          \<mapsto> exampleDependency ''ocsinit-cephfilesystem'' st])\<rparr>"

fun storageClassPasses :: "StorageClassConfiguration list list \<Rightarrow> world \<Rightarrow> world" where
  \<comment> \<open>A sequence of passes of \<open>createStorageClasses\<close>, each with the configurations computed for it.\<close>
  "storageClassPasses [] w = w"
| "storageClassPasses (sccs # passes) w = storageClassPasses passes (snd (createStorageClasses sccs w))"

fun objectStorePasses :: "(CephObjectStore list \<times> StorageCluster) list \<Rightarrow> world \<Rightarrow> world" where
  \<comment> \<open>A sequence of passes of \<open>createCephObjectStores\<close>, each with its desired stores and its instance.\<close>
  "objectStorePasses [] w = w"
| "objectStorePasses ((stores, instance) # passes) w =
     objectStorePasses passes (snd (createCephObjectStores stores instance w))"

definition wellKeyed :: "world \<Rightarrow> bool" where
  \<comment> \<open>Every storage class is stored under its own name, as the API server has it.\<close>
  "wellKeyed w = (\<forall>k obj. storageClassTable w k = Some obj \<longrightarrow> NamespacedName obj = k)"

definition newCalls :: "world \<Rightarrow> world \<Rightarrow> call list" where
  \<comment> \<open>The calls made between an earlier and a later world.\<close>
  "newCalls w w' = drop (length (calls w)) (calls w')"

definition present :: "(key \<rightharpoonup> 'a) \<Rightarrow> key \<Rightarrow> nat" where
  "present table k = (if table k = None then 0 else 1)"

definition keptInit :: "key \<Rightarrow> world \<Rightarrow> world \<Rightarrow> bool" where
  \<comment> \<open>Between two worlds the storage class at a key was not deleted or replaced, and was
     created as often as it has come to exist.\<close>
  "keptInit k w w' =
     (wellKeyed w'
      \<and> (\<exists>cs. calls w' = calls w @ cs
            \<and> list_all (\<lambda>c. storageClassCall c \<and> fst c \<noteq> (Delete, KStorageClass, k)) cs
            \<and> present (storageClassTable w) k + count_list cs ((Create, KStorageClass, k), None)
                = present (storageClassTable w') k)
      \<and> (\<forall>obj. storageClassTable w k = Some obj \<longrightarrow> storageClassTable w' k = Some obj))"

definition silentOn :: "key \<Rightarrow> world \<Rightarrow> world \<Rightarrow> bool" where
  \<comment> \<open>Between two worlds no call was made for the object at a key.\<close>
  "silentOn k w w' =
     (wellKeyed w' \<and> (\<exists>cs. calls w' = calls w @ cs \<and> list_all (\<lambda>c. snd (snd (fst c)) \<noteq> k) cs))"

definition keptStore :: "key \<Rightarrow> world \<Rightarrow> world \<Rightarrow> bool" where
  \<comment> \<open>Between two worlds the object store at a key was only read or created, was created as
     often as it has come to exist, and is the same object if it existed.\<close>
  "keptStore k w w' =
     ((\<exists>cs. calls w' = calls w @ cs
            \<and> list_all (\<lambda>c. fst (fst c) = Get \<or> fst (fst c) = Create) cs
            \<and> present (cephObjectStoreTable w) k + count_list cs ((Create, KCephObjectStore, k), None)
                = present (cephObjectStoreTable w') k)
      \<and> (\<forall>obj. cephObjectStoreTable w k = Some obj \<longrightarrow> cephObjectStoreTable w' k = Some obj))"

definition exampleSetCondition :: "Condition list \<Rightarrow> Condition \<Rightarrow> Condition list" where
  \<comment> \<open>Conditions keyed by type: the new one replaces the one of its type.\<close>
  "exampleSetCondition cs c = filter (\<lambda>d. cType d \<noteq> cType c) cs @ [c]"

definition exampleLegacy ::
  "(string \<Rightarrow> error option) \<Rightarrow> (string \<Rightarrow> error + ExternalResource list) \<Rightarrow> legacy" where
  \<comment> \<open>Stand-ins for what is outside \<open>src\<close>: the parameters are the network probe and the JSON
     decoder; the digest of a payload is the payload itself.\<close>
  "exampleLegacy dial decode =
     \<lparr>SetProgressingCondition = (\<lambda>cs reason msg. exampleSetCondition cs
         \<lparr>cType = ''Progressing'', cStatus = ConditionTrue, cReason = reason, cMessage = msg,
          cLastTransitionTime = 0\<rparr>),
      SetErrorCondition = (\<lambda>cs reason msg. exampleSetCondition cs
         \<lparr>cType = ''ReconcileComplete'', cStatus = ConditionFalse, cReason = reason, cMessage = msg,
          cLastTransitionTime = 0\<rparr>),
      SetCompleteCondition = (\<lambda>cs reason msg. exampleSetCondition cs
         \<lparr>cType = ''ReconcileComplete'', cStatus = ConditionTrue, cReason = reason, cMessage = msg,
          cLastTransitionTime = 0\<rparr>),
      SetStatusCondition = exampleSetCondition,
      IsStatusConditionFalse = (\<lambda>cs t. list_ex (\<lambda>c. cType c = t \<and> cStatus c = ConditionFalse) cs),
      MapCephClusterNoConditions = (\<lambda>cs reason msg. exampleSetCondition cs
         \<lparr>cType = ''Progressing'', cStatus = ConditionTrue, cReason = reason, cMessage = msg,
          cLastTransitionTime = 0\<rparr>),
      MapCephClusterNegativeConditions = (\<lambda>cs cephCluster. cs),
      ReconcileInit = ''Init'',
      ReconcileFailed = ''ReconcileFailed'',
      ReconcileCompleted = ''ReconcileCompleted'',
      ReconcileCompletedMessage = ''Reconcile completed successfully'',
      ConditionReconcileComplete = ''ReconcileComplete'',
      ConditionUpgradeable = ''Upgradeable'',
      GetReference = (\<lambda>c. Inr (''CephCluster'', Namespace c, Name c)),
      SetObjectReference = (\<lambda>refs ref. if ref \<in> set refs then refs else refs @ [ref]),
      setControllerReference =
        (\<lambda>owner obj. Inr [OwnerReference (UID owner) (APIVersion owner) (Kind owner) (Name owner)]),
      newStorageClassDeviceSets =
        map (\<lambda>ds. \<lparr>scdsName = dsName ds, scdsCount = dsCount ds, scdsPlacement = emptyPlacement,
                     scdsResources = \<lparr>Limits = Map.empty, Requests = Map.empty\<rparr>,
                     scdsPortable = True, scdsVolumeClaimTemplates = [DataPVCTemplate ds]\<rparr>),
      readySet = None,
      readyUnset = None,
      hashWrite = (\<lambda>b. None),
      hexDigest = (\<lambda>b. b),
      Unmarshal = decode,
      DialTimeout = dial,
      LookupIP = (\<lambda>host. None),
      SplitHostPort = (\<lambda>s. Inr (takeWhile (\<lambda>c. c \<noteq> CHR '':'') s, drop 1 (dropWhile (\<lambda>c. c \<noteq> CHR '':'') s))),
      ParseInt = (\<lambda>s. Inr 80),
      TrimSpace = (\<lambda>s. s),
      newStorageClasses = (\<lambda>i. Inr [exampleClass ''ocsinit-cephfs'' ''fs'' None,
                                       exampleClass ''ocsinit-ceph-rbd'' ''rbd'' None,
                                       exampleClass ''ocsinit-ceph-rgw'' ''rgw'' None]),
      createStorageClassesLogged =
        (\<lambda>cs i w. createStorageClasses
           (map (\<lambda>c. \<lparr>storageClass = c, reconcileStrategy = ReconcileStrategyManage, disable = False\<rparr>)
              (concat (map (\<lambda>c. case c of None \<Rightarrow> [] | Some c' \<Rightarrow> [c']) cs))) w),
      createCephObjectStoresLogged = createCephObjectStores,
      nameForCephObjectStore = (\<lambda>i. Name i @ ''-cephobjectstore'')\<rparr>"

definition reachesEnsurers :: "legacy \<Rightarrow> key \<Rightarrow> reconciler \<Rightarrow> StorageCluster \<Rightarrow> world \<Rightarrow> bool" where
  \<comment> \<open>The part of \<open>Reconcile\<close> before its loop went through: the instance was fetched, its
     conditions were there or were initialized and written, and the initialization object was
     found. The loop then starts with this instance in this world.\<close>
  "reachesEnsurers lx request r instance1 w3 =
     (\<exists>instance w1 w2 scinit.
        clientGet KStorageCluster storageClusterTable request (client r) = (Inr instance, w1)
        \<and> (if Conditions (Status instance) = [] then
              instance1 = instance\<lparr>Status := (Status instance)
                  \<lparr>Conditions := SetProgressingCondition lx (Conditions (Status instance))
                                    (ReconcileInit lx) ''Initializing StorageCluster'',
                   Phase := PhaseProgressing\<rparr>\<rparr>
              \<and> clientStatusUpdate (NamespacedName instance1) instance1 w1 = (None, w2)
            else instance1 = instance \<and> w2 = w1)
        \<and> clientGet KStorageClusterInitialization initializationTable request w2 = (Inr scinit, w3))"

definition reconcileWorld :: "(call list \<Rightarrow> request \<Rightarrow> string option) \<Rightarrow> world" where
  \<comment> \<open>The cluster \<open>ocsinit\<close> and its initialization object are stored; the server fails the
     requests the parameter says.\<close>
  "reconcileWorld f =
     emptyWorld\<lparr>storageClusterTable :=
         [(''openshift-storage'', ''ocsinit'') \<mapsto> exampleCluster ReconcileStrategyManage False False False],
       initializationTable :=
         [(''openshift-storage'', ''ocsinit'') \<mapsto>
            ObjectMeta.extend (emptyMeta\<lparr>Name := ''ocsinit'', Namespace := ''openshift-storage''\<rparr>)
              (Object.fields () ())],
       faults := f\<rparr>"

definition exampleReconciler :: "world \<Rightarrow> reconciler" where
  "exampleReconciler w = \<lparr>client = w, conditions = [], monitoringIP = [], cephImage = ''ceph'', readyFile = False\<rparr>"

definition failing :: "request \<Rightarrow> call list \<Rightarrow> request \<Rightarrow> string option" where
  \<comment> \<open>The server fails one request, whenever it is made.\<close>
  "failing rq t rq' = (if rq' = rq then Some ''etcd timeout'' else None)"

definition exampleInstance :: StorageCluster where
  \<comment> \<open>The cluster \<open>ocsinit\<close> after its conditions were initialized.\<close>
  "exampleInstance =
     (exampleCluster ReconcileStrategyManage False False False)
       \<lparr>Status := \<lparr>Phase = PhaseProgressing,
            Conditions = [\<lparr>cType = ''Progressing'', cStatus = ConditionTrue, cReason = ''Init'',
                            cMessage = ''Initializing StorageCluster'', cLastTransitionTime = 0\<rparr>],
            RelatedObjects = [], FailureDomain = [], ExternalSecretHash = []\<rparr>\<rparr>"

definition initializedWorld :: "(call list \<Rightarrow> request \<Rightarrow> string option) \<Rightarrow> world" where
  \<comment> \<open>As \<open>reconcileWorld\<close>, with the initialized instance stored.\<close>
  "initializedWorld f =
     (reconcileWorld f)\<lparr>storageClusterTable := [(''openshift-storage'', ''ocsinit'') \<mapsto> exampleInstance]\<rparr>"

definition exampleDeviceSet :: "int \<Rightarrow> StorageDeviceSet" where
  "exampleDeviceSet n =
     \<lparr>dsName = ''set0'', dsCount = n,
      DataPVCTemplate = \<lparr>StorageClassName = Some ''gp2'', StorageRequest = Some ''1Ti''\<rparr>\<rparr>"

definition sizedInstance :: "int \<Rightarrow> StorageCluster" where
  \<comment> \<open>The initialized instance, with one device set of the given count.\<close>
  "sizedInstance n = exampleInstance\<lparr>Spec := (Spec exampleInstance)\<lparr>StorageDeviceSets := [exampleDeviceSet n]\<rparr>\<rparr>"

definition clusterWorld :: "CephCluster option \<Rightarrow> world" where
  \<comment> \<open>As \<open>initializedWorld\<close> without faults, with the given \<open>CephCluster\<close> of \<open>ocsinit\<close>, if any.\<close>
  "clusterWorld c =
     (initializedWorld (\<lambda>t rq. None))\<lparr>cephClusterTable :=
        (case c of None \<Rightarrow> Map.empty | Some c' \<Rightarrow> [(''openshift-storage'', ''ocsinit'') \<mapsto> c'])\<rparr>"

definition createdClasses :: "world \<Rightarrow> key list" where
  \<comment> \<open>The keys of the storage classes created so far, in the order of their creation.\<close>
  "createdClasses w =
     map (\<lambda>c. snd (snd (fst c)))
       (filter (\<lambda>c. fst (fst c) = Create \<and> fst (snd (fst c)) = KStorageClass \<and> snd c = None) (calls w))"

definition freshWorld :: world where
  \<comment> \<open>Only the cluster \<open>ocsinit\<close> is stored, as its installer created it.\<close>
  "freshWorld = emptyWorld\<lparr>storageClusterTable :=
     [(''openshift-storage'', ''ocsinit'') \<mapsto> exampleCluster ReconcileStrategyManage False False False]\<rparr>"

definition readyWorld :: world where
  \<comment> \<open>The block pool and the filesystem of \<open>ocsinit\<close> are Ready; nothing else is stored.\<close>
  "readyWorld = gatesWorld (Some (Some \<lparr>Phase = PhaseReady\<rparr>)) (Some (Some \<lparr>Phase = PhaseReady\<rparr>))"

definition secretWorld :: "string \<Rightarrow> string \<Rightarrow> world" where
  \<comment> \<open>As \<open>initializedWorld\<close> without faults, with the external secret holding the given payload
     and the stored instance holding the given checksum.\<close>
  "secretWorld payload checksum =
     (initializedWorld (\<lambda>t rq. None))
       \<lparr>storageClusterTable := [(''openshift-storage'', ''ocsinit'') \<mapsto>
            exampleInstance\<lparr>Status := (Status exampleInstance)\<lparr>ExternalSecretHash := checksum\<rparr>\<rparr>],
        secretTable := [(''openshift-storage'', externalClusterDetailsSecret) \<mapsto>
            ObjectMeta.extend
              (emptyMeta\<lparr>Name := externalClusterDetailsSecret, Namespace := ''openshift-storage''\<rparr>)
              (DataObject.fields [externalClusterDetailsKey \<mapsto> payload])]\<rparr>"

section \<open>The calls of \<open>createStorageClasses\<close>\<close>

lemma sameButStorageClasses_refl: "sameButStorageClasses w w"
  by (simp add: sameButStorageClasses_def)

lemma sameButStorageClasses_trans:
  "sameButStorageClasses w w1 \<Longrightarrow> sameButStorageClasses w1 w2 \<Longrightarrow> sameButStorageClasses w w2"
  by (auto simp: sameButStorageClasses_def)

lemma clientGet_storageClass_same:
  "clientGet KStorageClass storageClassTable k w = (r, w1) \<Longrightarrow> sameButStorageClasses w w1"
  by (auto simp: clientGet_def answer_def sameButStorageClasses_def storageClassCall_def Let_def
      split: option.splits)

lemma clientCreate_storageClass_same:
  "clientCreate KStorageClass storageClassTable storageClassTable_update k obj w = (r, w1)
     \<Longrightarrow> sameButStorageClasses w w1"
  by (auto simp: clientCreate_def answer_def sameButStorageClasses_def storageClassCall_def Let_def
      split: option.splits)

lemma clientDelete_storageClass_same:
  "clientDelete KStorageClass storageClassTable storageClassTable_update k w = (r, w1)
     \<Longrightarrow> sameButStorageClasses w w1"
  by (auto simp: clientDelete_def answer_def sameButStorageClasses_def storageClassCall_def Let_def
      split: option.splits)

lemma createStorageClasses_same:
  "createStorageClasses sccs w = (r, w') \<Longrightarrow> sameButStorageClasses w w'"
proof (induction sccs arbitrary: w r w')
  case Nil
  then show ?case by (simp add: sameButStorageClasses_refl)
next
  case (Cons scc sccs)
  show ?case
    using Cons.prems
    by (auto simp: Let_def split: if_splits prod.splits sum.splits option.splits
        dest!: clientGet_storageClass_same clientCreate_storageClass_same
          clientDelete_storageClass_same Cons.IH
        intro: sameButStorageClasses_trans sameButStorageClasses_refl)
qed

lemma createStorageClasses_calls:
  "\<exists>cs. calls (snd (createStorageClasses sccs w)) = calls w @ cs \<and> list_all storageClassCall cs"
  using createStorageClasses_same [of sccs w "fst (createStorageClasses sccs w)" "snd (createStorageClasses sccs w)"]
  by (simp add: sameButStorageClasses_def)

lemma strategies_distinct:
  "ReconcileStrategyManage \<noteq> ReconcileStrategyIgnore"
  "ReconcileStrategyManage \<noteq> ReconcileStrategyInit"
  "ReconcileStrategyInit \<noteq> ReconcileStrategyIgnore"
  by (simp_all add: ReconcileStrategyManage_def ReconcileStrategyIgnore_def ReconcileStrategyInit_def)

text \<open>
  C3, as amended. A storage class under the Manage strategy that exists, is not marked for
  deletion and whose parameters differ from the desired ones: after the \<open>Get\<close> that finds
  it, \<open>createStorageClasses\<close> issues one \<open>Delete\<close> of it; when the server fails the
  \<open>Delete\<close>, that error is returned and nothing else is issued; otherwise one \<open>Create\<close> of
  the desired class follows, and when that succeeds the class stored is the desired one and the
  pass goes on with the next configuration. No call of the pass is an \<open>Update\<close>.
\<close>

theorem createStorageClasses_recreates_on_drift:
  assumes manage: "reconcileStrategy scc = ReconcileStrategyManage" "\<not> disable scc"
    and found: "faults w (calls w) (Get, KStorageClass, NamespacedName (storageClass scc)) = None"
      "storageClassTable w (NamespacedName (storageClass scc)) = Some existing"
      "NamespacedName existing = NamespacedName (storageClass scc)"
    and live: "DeletionTimestamp existing = None"
    and drift: "Parameters (storageClass scc) \<noteq> Parameters existing"
  shows "\<exists>d cs.
     calls (snd (createStorageClasses (scc # sccs) w)) =
       calls w @ [((Get, KStorageClass, NamespacedName (storageClass scc)), None),
                  ((Delete, KStorageClass, NamespacedName (storageClass scc)), d)] @ cs
     \<and> list_all (\<lambda>c. fst (fst c) \<noteq> Update) cs
     \<and> (case d of
          Some err \<Rightarrow> cs = [] \<and> fst (createStorageClasses (scc # sccs) w) = Some err
        | None \<Rightarrow>
           (\<exists>c cs'. cs = ((Create, KStorageClass, NamespacedName (storageClass scc)), c) # cs'
              \<and> (case c of
                   Some err \<Rightarrow> cs' = [] \<and> fst (createStorageClasses (scc # sccs) w) = Some err
                 | None \<Rightarrow>
                    (\<exists>w3. storageClassTable w3 (NamespacedName (storageClass scc)) = Some (storageClass scc)
                       \<and> calls w3 = calls w @ [((Get, KStorageClass, NamespacedName (storageClass scc)), None),
                            ((Delete, KStorageClass, NamespacedName (storageClass scc)), None),
                            ((Create, KStorageClass, NamespacedName (storageClass scc)), None)]
                       \<and> createStorageClasses (scc # sccs) w = createStorageClasses sccs w3))))"
proof -
  let ?k = "NamespacedName (storageClass scc)"
  let ?w1 = "answer (Get, KStorageClass, ?k) None w"
  have get: "clientGet KStorageClass storageClassTable ?k w = (Inr existing, ?w1)"
    using found by (simp add: clientGet_def)
  have w1: "calls ?w1 = calls w @ [((Get, KStorageClass, ?k), None)]"
    "storageClassTable ?w1 = storageClassTable w" "faults ?w1 = faults w"
    by (simp_all add: answer_def)
  have step: "createStorageClasses (scc # sccs) w =
      (case clientDelete KStorageClass storageClassTable storageClassTable_update ?k ?w1 of
         (Some err', w2) \<Rightarrow> (Some err', w2)
       | (None, w2) \<Rightarrow>
          (case clientCreate KStorageClass storageClassTable storageClassTable_update ?k (storageClass scc) w2 of
             (Some err', w3) \<Rightarrow> (Some err', w3)
           | (None, w3) \<Rightarrow> createStorageClasses sccs w3))"
    using manage live drift found(3) by (simp add: get Let_def strategies_distinct)
  show ?thesis
  proof (cases "faults w (calls ?w1) (Delete, KStorageClass, ?k)")
    case (Some msg)
    then have "createStorageClasses (scc # sccs) w =
        (Some (StatusFailure msg), answer (Delete, KStorageClass, ?k) (Some (StatusFailure msg)) ?w1)"
      by (simp add: step clientDelete_def w1 del: createStorageClasses.simps)
    then show ?thesis
      by (intro exI [of _ "Some (StatusFailure msg)"] exI [of _ "[]"])
         (simp add: answer_def del: createStorageClasses.simps)
  next
    case None
    let ?w2 = "answer (Delete, KStorageClass, ?k) None
                 (storageClassTable_update (\<lambda>m. m(?k := None)) ?w1)"
    have del: "clientDelete KStorageClass storageClassTable storageClassTable_update ?k ?w1 = (None, ?w2)"
      using None found by (simp add: clientDelete_def w1)
    have w2: "calls ?w2 = calls w @ [((Get, KStorageClass, ?k), None), ((Delete, KStorageClass, ?k), None)]"
      "storageClassTable ?w2 ?k = None" "faults ?w2 = faults w"
      by (simp_all add: answer_def)
    show ?thesis
    proof (cases "faults w (calls ?w2) (Create, KStorageClass, ?k)")
      case (Some msg)
      then have "createStorageClasses (scc # sccs) w =
          (Some (StatusFailure msg), answer (Create, KStorageClass, ?k) (Some (StatusFailure msg)) ?w2)"
        by (simp add: step del clientCreate_def w2 del: createStorageClasses.simps)
      then show ?thesis
        by (intro exI [of _ "None"]
              exI [of _ "[((Create, KStorageClass, ?k), Some (StatusFailure msg))]"])
           (simp add: answer_def del: createStorageClasses.simps)
    next
      case None
      let ?w3 = "answer (Create, KStorageClass, ?k) None
                   (storageClassTable_update (\<lambda>m. m(?k \<mapsto> storageClass scc)) ?w2)"
      have cre: "clientCreate KStorageClass storageClassTable storageClassTable_update ?k (storageClass scc) ?w2
                   = (None, ?w3)"
        using None by (simp add: clientCreate_def w2)
      have run: "createStorageClasses (scc # sccs) w = createStorageClasses sccs ?w3"
        by (simp add: step del cre del: createStorageClasses.simps)
      have w3: "calls ?w3 = calls w @ [((Get, KStorageClass, ?k), None),
            ((Delete, KStorageClass, ?k), None), ((Create, KStorageClass, ?k), None)]"
        "storageClassTable ?w3 ?k = Some (storageClass scc)"
        by (simp_all add: answer_def)
      obtain cs' where cs': "calls (snd (createStorageClasses sccs ?w3)) = calls ?w3 @ cs'"
        "list_all storageClassCall cs'"
        using createStorageClasses_calls [of sccs ?w3] by blast
      have noupd: "list_all (\<lambda>c. fst (fst c) \<noteq> Update) cs'"
        using cs'(2) by (induction cs') (auto simp: storageClassCall_def)
      show ?thesis
        apply (rule exI [of _ None])
        apply (rule exI [of _ "((Create, KStorageClass, ?k), None) # cs'"])
        apply (simp add: run cs' w3 noupd del: createStorageClasses.simps)
        apply (rule exI [of _ ?w3])
        apply (simp add: w3 del: createStorageClasses.simps)
        done
    qed
  qed
qed

lemma map_upd_differ: "v \<noteq> v' \<Longrightarrow> (m(k \<mapsto> v) = n(k \<mapsto> v')) = False"
  by (auto dest: map_upd_eqD1)

lemma example_parameters_differ:
  "Parameters (storageClass (exampleConfiguration ''sc'' ''new'' s)) \<noteq> Parameters (exampleClass ''sc'' ''old'' del)"
proof
  assume "Parameters (storageClass (exampleConfiguration ''sc'' ''new'' s)) = Parameters (exampleClass ''sc'' ''old'' del)"
  then have "[''pool'' \<mapsto> ''new''] = [''pool'' \<mapsto> ''old'']"
    by (simp add: exampleConfiguration_def exampleClass_def ObjectMeta.extend_def StorageClass.fields_def emptyMeta_def)
  then have "''new'' = ''old''" by (rule map_upd_eqD1)
  then show False by simp
qed

lemmas example_defs = exampleConfiguration_def exampleClass_def ObjectMeta.extend_def
  StorageClass.fields_def emptyMeta_def emptyWorld_def NamespacedName_def

theorem createStorageClasses_drift_counterexample:
  "reconcileStrategy (exampleConfiguration ''sc'' ''new'' ReconcileStrategyManage) = ReconcileStrategyManage
   \<and> storageClassTable (driftWorld (Some 1)) (NamespacedName (storageClass (exampleConfiguration ''sc'' ''new'' ReconcileStrategyManage)))
       = Some (exampleClass ''sc'' ''old'' (Some 1))
   \<and> Parameters (storageClass (exampleConfiguration ''sc'' ''new'' ReconcileStrategyManage))
       \<noteq> Parameters (exampleClass ''sc'' ''old'' (Some 1))
   \<and> fst (createStorageClasses [exampleConfiguration ''sc'' ''new'' ReconcileStrategyManage] (driftWorld (Some 1)))
       = Some (Errorf ''failed to restore StorageClass  sc because it is marked for deletion'')
   \<and> calls (snd (createStorageClasses [exampleConfiguration ''sc'' ''new'' ReconcileStrategyManage] (driftWorld (Some 1))))
       = [((Get, KStorageClass, ([], ''sc'')), None)]"
  apply (intro conjI)
      apply (simp add: exampleConfiguration_def)
     apply (simp add: example_defs driftWorld_def)
    apply (rule example_parameters_differ)
   apply (simp add: example_defs driftWorld_def clientGet_def answer_def strategies_distinct)
  apply (simp add: example_defs driftWorld_def clientGet_def answer_def strategies_distinct)
  done

theorem createStorageClasses_recreates_on_drift_witness:
  "reconcileStrategy (exampleConfiguration ''sc'' ''new'' ReconcileStrategyManage) = ReconcileStrategyManage
   \<and> \<not> disable (exampleConfiguration ''sc'' ''new'' ReconcileStrategyManage)
   \<and> storageClassTable (driftWorld None) ([], ''sc'') = Some (exampleClass ''sc'' ''old'' None)
   \<and> DeletionTimestamp (exampleClass ''sc'' ''old'' None) = None
   \<and> map fst (calls (snd (createStorageClasses [exampleConfiguration ''sc'' ''new'' ReconcileStrategyManage] (driftWorld None))))
       = [(Get, KStorageClass, ([], ''sc'')), (Delete, KStorageClass, ([], ''sc'')), (Create, KStorageClass, ([], ''sc''))]"
proof -
  let ?scc = "exampleConfiguration ''sc'' ''new'' ReconcileStrategyManage"
  let ?w = "driftWorld None"
  let ?old = "exampleClass ''sc'' ''old'' None"
  have k: "NamespacedName (storageClass ?scc) = ([], ''sc'')"
    by (simp add: example_defs)
  have h1: "reconcileStrategy ?scc = ReconcileStrategyManage" "\<not> disable ?scc"
    by (simp_all add: exampleConfiguration_def)
  have h2: "faults ?w (calls ?w) (Get, KStorageClass, NamespacedName (storageClass ?scc)) = None"
    "storageClassTable ?w (NamespacedName (storageClass ?scc)) = Some ?old"
    "NamespacedName ?old = NamespacedName (storageClass ?scc)"
    by (simp_all add: example_defs driftWorld_def)
  have h3: "DeletionTimestamp ?old = None"
    by (simp add: example_defs)
  have h4: "Parameters (storageClass ?scc) \<noteq> Parameters ?old"
    by (rule example_parameters_differ)
  have nofault: "\<And>t rq. faults ?w t rq = None"
    by (simp add: driftWorld_def emptyWorld_def)
  from createStorageClasses_recreates_on_drift [OF h1 h2 h3 h4, of "[]"]
  obtain d cs where
    c: "calls (snd (createStorageClasses [?scc] ?w)) =
       calls ?w @ [((Get, KStorageClass, NamespacedName (storageClass ?scc)), None),
                  ((Delete, KStorageClass, NamespacedName (storageClass ?scc)), d)] @ cs"
    by blast
  have "calls (snd (createStorageClasses [?scc] ?w)) =
      [((Get, KStorageClass, ([], ''sc'')), None), ((Delete, KStorageClass, ([], ''sc'')), None),
       ((Create, KStorageClass, ([], ''sc'')), None)]"
    by (simp add: example_defs driftWorld_def clientGet_def clientDelete_def clientCreate_def
          answer_def strategies_distinct map_upd_differ)
  with c h1 h2 h3 show ?thesis
    by (simp add: k)
qed

lemma createStorageClasses_append:
  "createStorageClasses (xs @ ys) w =
     (case createStorageClasses xs w of
        (Some err, w1) \<Rightarrow> (Some err, w1)
      | (None, w1) \<Rightarrow> createStorageClasses ys w1)"
  by (induction xs arbitrary: w)
     (auto simp: Let_def split: prod.splits sum.splits option.splits)

text \<open>
  C10, as amended. When the loop of \<open>createStorageClasses\<close> reaches a configuration that is
  not disabled, under a strategy that is neither Ignore nor Init, whose class the \<open>Get\<close> finds
  marked for deletion, it returns an error at once: the \<open>Get\<close> is the only call, and the world
  is otherwise as before. The same holds of \<open>createCephObjectStores\<close> for an object store found
  marked for deletion, under a strategy other than Init.
\<close>

theorem marked_for_deletion_fails:
  "(reconcileStrategy scc \<noteq> ReconcileStrategyIgnore \<and> reconcileStrategy scc \<noteq> ReconcileStrategyInit
      \<and> \<not> disable scc
      \<and> faults w (calls w) (Get, KStorageClass, NamespacedName (storageClass scc)) = None
      \<and> storageClassTable w (NamespacedName (storageClass scc)) = Some existing
      \<and> DeletionTimestamp existing \<noteq> None
    \<longrightarrow> createStorageClasses (scc # sccs) w =
          (Some (Errorf (''failed to restore StorageClass  '' @ Name existing
                           @ '' because it is marked for deletion'')),
           w\<lparr>calls := calls w @ [((Get, KStorageClass, NamespacedName (storageClass scc)), None)]\<rparr>))
   \<and> (ReconcileStrategy (CephObjectStores (ManagedResources (Spec instance))) \<noteq> ReconcileStrategyInit
      \<and> faults w (calls w) (Get, KCephObjectStore, NamespacedName cephObjectStore) = None
      \<and> cephObjectStoreTable w (NamespacedName cephObjectStore) = Some found
      \<and> DeletionTimestamp found \<noteq> None
    \<longrightarrow> createCephObjectStores (cephObjectStore # rest) instance w =
          (Some (Errorf (''failed to restore cephobjectstore object '' @ Name found
                           @ '' because it is marked for deletion'')),
           w\<lparr>calls := calls w @ [((Get, KCephObjectStore, NamespacedName cephObjectStore), None)]\<rparr>))"
  by (auto simp: clientGet_def answer_def Let_def)

lemmas example_store_defs = exampleStore_def exampleCluster_def storeWorld_def emptyWorld_def
  ObjectMeta.extend_def Object.fields_def emptyMeta_def NamespacedName_def

theorem marked_for_deletion_counterexample:
  "storageClassTable (driftWorld (Some 1)) (NamespacedName (storageClass (exampleConfiguration ''sc'' ''new'' ReconcileStrategyInit)))
       = Some (exampleClass ''sc'' ''old'' (Some 1))
   \<and> DeletionTimestamp (exampleClass ''sc'' ''old'' (Some 1)) = Some 1
   \<and> Parameters (storageClass (exampleConfiguration ''sc'' ''new'' ReconcileStrategyInit))
       \<noteq> Parameters (exampleClass ''sc'' ''old'' (Some 1))
   \<and> fst (createStorageClasses [exampleConfiguration ''sc'' ''new'' ReconcileStrategyInit] (driftWorld (Some 1)))
       = None"
  apply (intro conjI)
     apply (simp add: example_defs driftWorld_def)
    apply (simp add: example_defs)
   apply (rule example_parameters_differ)
  apply (simp add: example_defs driftWorld_def clientGet_def answer_def strategies_distinct)
  done

theorem marked_for_deletion_fails_witness:
  "storageClassTable (driftWorld (Some 1)) ([], ''sc'') = Some (exampleClass ''sc'' ''old'' (Some 1))
   \<and> DeletionTimestamp (exampleClass ''sc'' ''old'' (Some 1)) \<noteq> None
   \<and> createStorageClasses [exampleConfiguration ''sc'' ''new'' ReconcileStrategyManage] (driftWorld (Some 1))
       = (Some (Errorf ''failed to restore StorageClass  sc because it is marked for deletion''),
          (driftWorld (Some 1))\<lparr>calls := [((Get, KStorageClass, ([], ''sc'')), None)]\<rparr>)
   \<and> cephObjectStoreTable (storeWorld (Some 1)) (''openshift-storage'', ''store'') = Some (exampleStore 3 (Some 1))
   \<and> createCephObjectStores [exampleStore 2 None] (exampleCluster ReconcileStrategyManage False False False)
         (storeWorld (Some 1))
       = (Some (Errorf ''failed to restore cephobjectstore object store because it is marked for deletion''),
          (storeWorld (Some 1))\<lparr>calls := [((Get, KCephObjectStore, (''openshift-storage'', ''store'')), None)]\<rparr>)"
proof -
  let ?scc = "exampleConfiguration ''sc'' ''new'' ReconcileStrategyManage"
  let ?w = "driftWorld (Some 1)"
  let ?i = "exampleCluster ReconcileStrategyManage False False False"
  let ?v = "storeWorld (Some 1)"
  have a: "reconcileStrategy ?scc \<noteq> ReconcileStrategyIgnore \<and> reconcileStrategy ?scc \<noteq> ReconcileStrategyInit
      \<and> \<not> disable ?scc
      \<and> faults ?w (calls ?w) (Get, KStorageClass, NamespacedName (storageClass ?scc)) = None
      \<and> storageClassTable ?w (NamespacedName (storageClass ?scc)) = Some (exampleClass ''sc'' ''old'' (Some 1))
      \<and> DeletionTimestamp (exampleClass ''sc'' ''old'' (Some 1)) \<noteq> None"
    by (simp add: example_defs driftWorld_def strategies_distinct)
  have b: "ReconcileStrategy (CephObjectStores (ManagedResources (Spec ?i))) \<noteq> ReconcileStrategyInit
      \<and> faults ?v (calls ?v) (Get, KCephObjectStore, NamespacedName (exampleStore 2 None)) = None
      \<and> cephObjectStoreTable ?v (NamespacedName (exampleStore 2 None)) = Some (exampleStore 3 (Some 1))
      \<and> DeletionTimestamp (exampleStore 3 (Some 1)) \<noteq> None"
    by (simp add: example_store_defs strategies_distinct)
  have k: "NamespacedName (storageClass ?scc) = ([], ''sc'')" "Name (exampleClass ''sc'' ''old'' (Some 1)) = ''sc''"
    "calls ?w = []"
    "NamespacedName (exampleStore 2 None) = (''openshift-storage'', ''store'')"
    "Name (exampleStore 3 (Some 1)) = ''store''" "calls ?v = []"
    by (simp_all add: example_defs example_store_defs driftWorld_def)
  from marked_for_deletion_fails [of ?scc ?w "exampleClass ''sc'' ''old'' (Some 1)" "[]" ?i
        "exampleStore 2 None" "exampleStore 3 (Some 1)" "[]"] a
  have c1: "createStorageClasses [?scc] ?w =
          (Some (Errorf (''failed to restore StorageClass  '' @ Name (exampleClass ''sc'' ''old'' (Some 1))
                           @ '' because it is marked for deletion'')),
           ?w\<lparr>calls := calls ?w @ [((Get, KStorageClass, NamespacedName (storageClass ?scc)), None)]\<rparr>)"
    by blast
  from marked_for_deletion_fails [of ?scc ?v "exampleClass ''sc'' ''old'' (Some 1)" "[]" ?i
        "exampleStore 2 None" "exampleStore 3 (Some 1)" "[]"] b
  have c2: "createCephObjectStores [exampleStore 2 None] ?i ?v =
          (Some (Errorf (''failed to restore cephobjectstore object '' @ Name (exampleStore 3 (Some 1))
                           @ '' because it is marked for deletion'')),
           ?v\<lparr>calls := calls ?v @ [((Get, KCephObjectStore, NamespacedName (exampleStore 2 None)), None)]\<rparr>)"
    by blast
  show ?thesis
    using a b c1 c2 unfolding k by simp
qed

lemma clientGet_world:
  "clientGet kd table k w = (res, w1) \<Longrightarrow>
     w1 = w\<lparr>calls := calls w @ [((Get, kd, k), case res of Inl err \<Rightarrow> Some err | Inr obj \<Rightarrow> None)]\<rparr>"
  by (auto simp: clientGet_def answer_def Let_def split: option.splits)

lemma newStorageClassConfigurations_Inr: "\<exists>scs. newStorageClassConfigurations x instance = Inr scs"
  by (simp add: newStorageClassConfigurations_def Let_def)

text \<open>
  C5, as amended. When the block pool's storage class is not disabled and the block pool
  cannot be fetched, has no status or has a phase other than Ready, or when the same holds of
  the filesystem (fetched after the block pool, if that was), \<open>ensureCreated\<close> returns an
  error; the only calls it has made are the \<open>Get\<close>s of these dependencies, and the storage
  classes are as before.
\<close>

theorem ensureCreated_waits_for_dependencies:
  assumes "(\<not> DisableStorageClass (CephBlockPools (ManagedResources (Spec instance)))
        \<and> \<not> gateOpen (fst (clientGet KCephBlockPool cephBlockPoolTable
                  (Namespace instance, generateNameForCephBlockPool x instance) w)))
     \<or> (\<not> DisableStorageClass (CephFilesystems (ManagedResources (Spec instance)))
        \<and> \<not> gateOpen (fst (clientGet KCephFilesystem cephFilesystemTable
                  (Namespace instance, generateNameForCephFilesystem x instance)
                  (if DisableStorageClass (CephBlockPools (ManagedResources (Spec instance))) then w
                   else snd (clientGet KCephBlockPool cephBlockPoolTable
                          (Namespace instance, generateNameForCephBlockPool x instance) w)))))"
  shows "(\<exists>err. fst (ensureCreated x instance w) = Some err)
     \<and> storageClassTable (snd (ensureCreated x instance w)) = storageClassTable w
     \<and> (\<exists>cs. calls (snd (ensureCreated x instance w)) = calls w @ cs \<and> list_all dependencyCall cs)"
proof -
  obtain scs where scs: "newStorageClassConfigurations x instance = Inr scs"
    using newStorageClassConfigurations_Inr by blast
  obtain r1 w1 where g1: "clientGet KCephBlockPool cephBlockPoolTable
        (Namespace instance, generateNameForCephBlockPool x instance) w = (r1, w1)"
    by (cases "clientGet KCephBlockPool cephBlockPoolTable
        (Namespace instance, generateNameForCephBlockPool x instance) w") blast
  note w1 = clientGet_world [OF g1]
  obtain r2 w2 where g2: "clientGet KCephFilesystem cephFilesystemTable
        (Namespace instance, generateNameForCephFilesystem x instance)
        (if DisableStorageClass (CephBlockPools (ManagedResources (Spec instance))) then w else w1) = (r2, w2)"
    by (cases "clientGet KCephFilesystem cephFilesystemTable
        (Namespace instance, generateNameForCephFilesystem x instance)
        (if DisableStorageClass (CephBlockPools (ManagedResources (Spec instance))) then w else w1)") blast
  note w2 = clientGet_world [OF g2]
  show ?thesis
  proof (cases "DisableStorageClass (CephBlockPools (ManagedResources (Spec instance)))")
    case True
    with assms g2 show ?thesis
      by (auto simp: ensureCreated_def scs Let_def gateOpen_def w2 dependencyCall_def
          split: sum.splits option.splits)
  next
    case False
    show ?thesis
    proof (cases "gateOpen r1")
      case open1: True
      with False assms g1 g2 show ?thesis
        by (auto simp: ensureCreated_def scs Let_def gateOpen_def w1 w2 dependencyCall_def
            split: sum.splits option.splits)
    next
      case closed1: False
      with False g1 show ?thesis
        by (auto simp: ensureCreated_def scs Let_def gateOpen_def w1 dependencyCall_def
            split: sum.splits option.splits)
    qed
  qed
qed

lemmas example_gate_defs = exampleCluster_def exampleExt_def gatesWorld_def exampleDependency_def
  emptyWorld_def ObjectMeta.extend_def Object.fields_def StorageClass.fields_def emptyMeta_def
  NamespacedName_def

theorem ensureCreated_gate_counterexample:
  "\<not> gateOpen (fst (clientGet KCephBlockPool cephBlockPoolTable
        (Namespace (exampleCluster ReconcileStrategyManage True False False),
         generateNameForCephBlockPool (exampleExt True) (exampleCluster ReconcileStrategyManage True False False))
        (gatesWorld None (Some (Some \<lparr>Phase = PhaseReady\<rparr>)))))
   \<and> fst (ensureCreated (exampleExt True) (exampleCluster ReconcileStrategyManage True False False)
          (gatesWorld None (Some (Some \<lparr>Phase = PhaseReady\<rparr>)))) = None
   \<and> map fst (calls (snd (ensureCreated (exampleExt True) (exampleCluster ReconcileStrategyManage True False False)
          (gatesWorld None (Some (Some \<lparr>Phase = PhaseReady\<rparr>)))))) =
       [(Get, KCephFilesystem, (''openshift-storage'', ''ocsinit-cephfilesystem'')),
        (Get, KStorageClass, ([], ''ocsinit-cephfs'')),
        (Create, KStorageClass, ([], ''ocsinit-cephfs''))]"
  apply (intro conjI)
    apply (simp add: example_gate_defs gateOpen_def clientGet_def answer_def)
   apply (simp add: example_gate_defs ensureCreated_def newStorageClassConfigurations_def
      newCephFilesystemStorageClassConfiguration_def newCephBlockPoolStorageClassConfiguration_def
      clientGet_def clientCreate_def answer_def strategies_distinct Let_def)
  apply (simp add: example_gate_defs ensureCreated_def newStorageClassConfigurations_def
      newCephFilesystemStorageClassConfiguration_def newCephBlockPoolStorageClassConfiguration_def
      clientGet_def clientCreate_def answer_def strategies_distinct Let_def)
  done

theorem ensureCreated_waits_for_dependencies_witness:
  "\<not> DisableStorageClass (CephBlockPools (ManagedResources (Spec (exampleCluster ReconcileStrategyManage False False False))))
   \<and> \<not> gateOpen (fst (clientGet KCephBlockPool cephBlockPoolTable
        (''openshift-storage'', ''ocsinit-cephblockpool'')
        (gatesWorld (Some (Some \<lparr>Phase = PhaseProgressing\<rparr>)) (Some (Some \<lparr>Phase = PhaseReady\<rparr>)))))
   \<and> (\<exists>err. fst (ensureCreated (exampleExt True) (exampleCluster ReconcileStrategyManage False False False)
          (gatesWorld (Some (Some \<lparr>Phase = PhaseProgressing\<rparr>)) (Some (Some \<lparr>Phase = PhaseReady\<rparr>)))) = Some err)
   \<and> storageClassTable (snd (ensureCreated (exampleExt True) (exampleCluster ReconcileStrategyManage False False False)
          (gatesWorld (Some (Some \<lparr>Phase = PhaseProgressing\<rparr>)) (Some (Some \<lparr>Phase = PhaseReady\<rparr>))))) = Map.empty"
proof -
  let ?i = "exampleCluster ReconcileStrategyManage False False False"
  let ?x = "exampleExt True"
  let ?w = "gatesWorld (Some (Some \<lparr>Phase = PhaseProgressing\<rparr>)) (Some (Some \<lparr>Phase = PhaseReady\<rparr>))"
  have k: "(Namespace ?i, generateNameForCephBlockPool ?x ?i) = (''openshift-storage'', ''ocsinit-cephblockpool'')"
    by (simp add: example_gate_defs)
  have h: "\<not> DisableStorageClass (CephBlockPools (ManagedResources (Spec ?i)))
     \<and> \<not> gateOpen (fst (clientGet KCephBlockPool cephBlockPoolTable
            (Namespace ?i, generateNameForCephBlockPool ?x ?i) ?w))"
    by (simp add: example_gate_defs gateOpen_def clientGet_def answer_def PhaseProgressing_def PhaseReady_def)
  have t: "storageClassTable ?w = Map.empty"
    by (simp add: example_gate_defs)
  from ensureCreated_waits_for_dependencies [of ?i ?x ?w, OF disjI1, OF h] h t
  show ?thesis unfolding k by simp
qed

lemma keptInit_refl: "wellKeyed w \<Longrightarrow> keptInit k w w"
  by (simp add: keptInit_def)

lemma keptInit_trans: "keptInit k w w1 \<Longrightarrow> keptInit k w1 w2 \<Longrightarrow> keptInit k w w2"
  unfolding keptInit_def
  apply (elim conjE exE)
  subgoal for cs1 cs2
    apply (intro conjI)
      apply assumption
     apply (rule exI [of _ "cs1 @ cs2"])
     apply simp
    apply blast
    done
  done

lemma wellKeyed_same: "storageClassTable w' = storageClassTable w \<Longrightarrow> wellKeyed w \<Longrightarrow> wellKeyed w'"
  by (simp add: wellKeyed_def)

lemma wellKeyed_put:
  "wellKeyed w \<Longrightarrow> storageClassTable w' = (storageClassTable w)(NamespacedName obj \<mapsto> obj) \<Longrightarrow> wellKeyed w'"
  by (auto simp: wellKeyed_def split: if_splits)

lemma wellKeyed_remove:
  "wellKeyed w \<Longrightarrow> storageClassTable w' = (storageClassTable w)(k := None) \<Longrightarrow> wellKeyed w'"
  by (auto simp: wellKeyed_def split: if_splits)

lemma clientGet_cases:
  assumes "clientGet kd table k w = (r, w1)"
  shows "w1 = answer (Get, kd, k) (case r of Inl err \<Rightarrow> Some err | Inr obj \<Rightarrow> None) w
     \<and> (case r of Inr obj \<Rightarrow> table w k = Some obj | Inl err \<Rightarrow> True)"
  using assms by (auto simp: clientGet_def Let_def split: option.splits)

lemma clientCreate_cases:
  assumes "clientCreate kd table table_update k obj w = (r, w1)"
  shows "(r = None \<and> table w k = None \<and> w1 = answer (Create, kd, k) None (table_update (\<lambda>m. m(k \<mapsto> obj)) w))
     \<or> (r \<noteq> None \<and> w1 = answer (Create, kd, k) r w)"
  using assms by (auto simp: clientCreate_def Let_def split: option.splits)

lemma clientDelete_cases:
  assumes "clientDelete kd table table_update k w = (r, w1)"
  shows "(r = None \<and> table w k \<noteq> None \<and> w1 = answer (Delete, kd, k) None (table_update (\<lambda>m. m(k := None)) w))
     \<or> (r \<noteq> None \<and> w1 = answer (Delete, kd, k) r w)"
  using assms by (auto simp: clientDelete_def Let_def split: option.splits)

lemma keptInit_get:
  assumes "wellKeyed w" "clientGet KStorageClass storageClassTable k' w = (r, w1)"
  shows "keptInit k w w1"
proof -
  from clientGet_cases [OF assms(2)]
  have w1: "w1 = answer (Get, KStorageClass, k') (case r of Inl err \<Rightarrow> Some err | Inr obj \<Rightarrow> None) w"
    by simp
  have "wellKeyed w1" using assms(1) by (rule wellKeyed_same [rotated]) (simp add: w1 answer_def)
  then show ?thesis
    by (simp add: keptInit_def w1 answer_def storageClassCall_def)
qed

lemma keptInit_create:
  assumes "wellKeyed w"
    "clientCreate KStorageClass storageClassTable storageClassTable_update (NamespacedName obj) obj w = (r, w1)"
  shows "keptInit k w w1"
proof -
  from clientCreate_cases [OF assms(2)] show ?thesis
  proof (elim disjE conjE)
    assume a: "r = None" "storageClassTable w (NamespacedName obj) = None"
      "w1 = answer (Create, KStorageClass, NamespacedName obj) None
              (storageClassTable_update (\<lambda>m. m(NamespacedName obj \<mapsto> obj)) w)"
    have "wellKeyed w1" using assms(1) by (rule wellKeyed_put) (simp add: a answer_def)
    then show ?thesis
      using a(2) by (auto simp: keptInit_def a(3) answer_def storageClassCall_def present_def)
  next
    assume a: "r \<noteq> None" "w1 = answer (Create, KStorageClass, NamespacedName obj) r w"
    have "wellKeyed w1" using assms(1) by (rule wellKeyed_same [rotated]) (simp add: a answer_def)
    then show ?thesis
      using a(1) by (auto simp: keptInit_def a(2) answer_def storageClassCall_def)
  qed
qed

lemma keptInit_delete:
  assumes "wellKeyed w" "k' \<noteq> k"
    "clientDelete KStorageClass storageClassTable storageClassTable_update k' w = (r, w1)"
  shows "keptInit k w w1"
proof -
  from clientDelete_cases [OF assms(3)] show ?thesis
  proof (elim disjE conjE)
    assume a: "r = None"
      "w1 = answer (Delete, KStorageClass, k') None (storageClassTable_update (\<lambda>m. m(k' := None)) w)"
    have "wellKeyed w1" using assms(1) by (rule wellKeyed_remove) (simp add: a answer_def)
    then show ?thesis
      using assms(2) by (auto simp: keptInit_def a(2) answer_def storageClassCall_def present_def)
  next
    assume a: "r \<noteq> None" "w1 = answer (Delete, KStorageClass, k') r w"
    have "wellKeyed w1" using assms(1) by (rule wellKeyed_same [rotated]) (simp add: a answer_def)
    then show ?thesis
      using assms(2) by (auto simp: keptInit_def a(2) answer_def storageClassCall_def)
  qed
qed

lemma clientGet_found_key:
  assumes "wellKeyed w" "clientGet KStorageClass storageClassTable k' w = (Inr existing, w1)"
  shows "NamespacedName existing = k'"
proof -
  from clientGet_cases [OF assms(2)] have "storageClassTable w k' = Some existing" by simp
  with assms(1) show ?thesis unfolding wellKeyed_def by blast
qed

lemma keptInit_wellKeyed: "keptInit k w w' \<Longrightarrow> wellKeyed w'"
  by (simp add: keptInit_def)

lemma createStorageClasses_keptInit:
  assumes "wellKeyed w"
    and "\<forall>scc \<in> set sccs. NamespacedName (storageClass scc) = k \<longrightarrow>
           reconcileStrategy scc = ReconcileStrategyInit \<or> reconcileStrategy scc = ReconcileStrategyIgnore"
    and "createStorageClasses sccs w = (r, w')"
  shows "keptInit k w w'"
  using assms
proof (induction sccs arbitrary: w r w')
  case Nil
  then show ?case by (simp add: keptInit_refl)
next
  case (Cons scc sccs)
  let ?sc = "storageClass scc"
  have rest: "\<forall>scc \<in> set sccs. NamespacedName (storageClass scc) = k \<longrightarrow>
           reconcileStrategy scc = ReconcileStrategyInit \<or> reconcileStrategy scc = ReconcileStrategyIgnore"
    using Cons.prems(2) by simp
  note IH = Cons.IH [OF _ rest]
  show ?case
  proof (cases "reconcileStrategy scc = ReconcileStrategyIgnore \<or> disable scc")
    case True
    with Cons.prems show ?thesis by (auto intro: IH)
  next
    case False
    obtain g w1 where get: "clientGet KStorageClass storageClassTable (NamespacedName ?sc) w = (g, w1)"
      by (cases "clientGet KStorageClass storageClassTable (NamespacedName ?sc) w") blast
    have k1: "keptInit k w w1" using keptInit_get [OF Cons.prems(1) get] .
    have wk1: "wellKeyed w1" using k1 by (rule keptInit_wellKeyed)
    show ?thesis
    proof (cases g)
      case (Inl err)
      show ?thesis
      proof (cases "IsNotFound err")
        case nf: True
        obtain c w2 where cre: "clientCreate KStorageClass storageClassTable storageClassTable_update
              (NamespacedName ?sc) ?sc w1 = (c, w2)"
          by (cases "clientCreate KStorageClass storageClassTable storageClassTable_update
              (NamespacedName ?sc) ?sc w1") blast
        have k2: "keptInit k w1 w2" using keptInit_create [OF wk1 cre] .
        have k02: "keptInit k w w2" using keptInit_trans [OF k1 k2] .
        show ?thesis
        proof (cases c)
          case None
          with Cons.prems(3) False get Inl nf cre have "createStorageClasses sccs w2 = (r, w')"
            by (simp add: Let_def)
          from IH [OF keptInit_wellKeyed [OF k2] this] k02 show ?thesis
            by (rule keptInit_trans [rotated])
        next
          case (Some e)
          with Cons.prems(3) False get Inl nf cre have "w' = w2" by (simp add: Let_def)
          with k02 show ?thesis by simp
        qed
      next
        case False
        with Cons.prems(3) \<open>\<not> (reconcileStrategy scc = ReconcileStrategyIgnore \<or> disable scc)\<close> get Inl
        have "w' = w1" by (simp add: Let_def)
        with k1 show ?thesis by simp
      qed
    next
      case (Inr existing)
      have ek: "NamespacedName existing = NamespacedName ?sc"
        using clientGet_found_key [OF Cons.prems(1)] get Inr by simp
      show ?thesis
      proof (cases "reconcileStrategy scc = ReconcileStrategyInit")
        case True
        with Cons.prems(3) False get Inr have "createStorageClasses sccs w1 = (r, w')"
          by (simp add: Let_def)
        from IH [OF wk1 this] k1 show ?thesis by (rule keptInit_trans [rotated])
      next
        case notInit: False
        with False Cons.prems(2) have nk: "NamespacedName ?sc \<noteq> k" by auto
        show ?thesis
        proof (cases "DeletionTimestamp existing \<noteq> None")
          case True
          with Cons.prems(3) False get Inr notInit have "w' = w1" by (simp add: Let_def)
          with k1 show ?thesis by simp
        next
          case live: False
          show ?thesis
          proof (cases "Parameters ?sc \<noteq> Parameters existing")
            case same: False
            with Cons.prems(3) False get Inr notInit live have "createStorageClasses sccs w1 = (r, w')"
              by (simp add: Let_def)
            from IH [OF wk1 this] k1 show ?thesis by (rule keptInit_trans [rotated])
          next
            case drift: True
            obtain d w2 where del: "clientDelete KStorageClass storageClassTable storageClassTable_update
                  (NamespacedName ?sc) w1 = (d, w2)"
              by (cases "clientDelete KStorageClass storageClassTable storageClassTable_update
                  (NamespacedName ?sc) w1") blast
            have k2: "keptInit k w1 w2" using keptInit_delete [OF wk1 nk del] .
            have k02: "keptInit k w w2" using keptInit_trans [OF k1 k2] .
            have wk2: "wellKeyed w2" using k2 by (rule keptInit_wellKeyed)
            obtain c w3 where cre: "clientCreate KStorageClass storageClassTable storageClassTable_update
                  (NamespacedName ?sc) ?sc w2 = (c, w3)"
              by (cases "clientCreate KStorageClass storageClassTable storageClassTable_update
                  (NamespacedName ?sc) ?sc w2") blast
            have k3: "keptInit k w2 w3" using keptInit_create [OF wk2 cre] .
            have k03: "keptInit k w w3" using keptInit_trans [OF k02 k3] .
            show ?thesis
            proof (cases d)
              case (Some e)
              with Cons.prems(3) False get Inr notInit live drift del ek have "w' = w2"
                by (simp add: Let_def)
              with k02 show ?thesis by simp
            next
              case dn: None
              show ?thesis
              proof (cases c)
                case (Some e)
                with Cons.prems(3) False get Inr notInit live drift del ek dn cre have "w' = w3"
                  by (simp add: Let_def)
                with k03 show ?thesis by simp
              next
                case None
                with Cons.prems(3) False get Inr notInit live drift del ek dn cre
                have "createStorageClasses sccs w3 = (r, w')"
                  by (simp add: Let_def)
                from IH [OF keptInit_wellKeyed [OF k3] this] k03 show ?thesis
                  by (rule keptInit_trans [rotated])
              qed
            qed
          qed
        qed
      qed
    qed
  qed
qed

lemma newCalls_append: "calls w' = calls w @ cs \<Longrightarrow> newCalls w w' = cs"
  by (simp add: newCalls_def)

lemma silentOn_refl: "wellKeyed w \<Longrightarrow> silentOn k w w"
  by (simp add: silentOn_def)

lemma silentOn_trans: "silentOn k w w1 \<Longrightarrow> silentOn k w1 w2 \<Longrightarrow> silentOn k w w2"
  unfolding silentOn_def
  apply (elim conjE exE)
  subgoal for cs1 cs2
    apply (intro conjI)
     apply assumption
    apply (rule exI [of _ "cs1 @ cs2"])
    apply simp
    done
  done

lemma silentOn_wellKeyed: "silentOn k w w' \<Longrightarrow> wellKeyed w'"
  by (simp add: silentOn_def)

lemma silentOn_get:
  assumes "wellKeyed w" "k' \<noteq> k" "clientGet KStorageClass storageClassTable k' w = (r, w1)"
  shows "silentOn k w w1"
proof -
  from clientGet_cases [OF assms(3)]
  have w1: "w1 = answer (Get, KStorageClass, k') (case r of Inl err \<Rightarrow> Some err | Inr obj \<Rightarrow> None) w"
    by simp
  have "wellKeyed w1" using assms(1) by (rule wellKeyed_same [rotated]) (simp add: w1 answer_def)
  then show ?thesis
    using assms(2) by (simp add: silentOn_def w1 answer_def)
qed

lemma silentOn_create:
  assumes "wellKeyed w" "NamespacedName obj \<noteq> k"
    "clientCreate KStorageClass storageClassTable storageClassTable_update (NamespacedName obj) obj w = (r, w1)"
  shows "silentOn k w w1"
proof -
  from clientCreate_cases [OF assms(3)] show ?thesis
  proof (elim disjE conjE)
    assume a: "w1 = answer (Create, KStorageClass, NamespacedName obj) None
              (storageClassTable_update (\<lambda>m. m(NamespacedName obj \<mapsto> obj)) w)"
    have "wellKeyed w1" using assms(1) by (rule wellKeyed_put) (simp add: a answer_def)
    then show ?thesis
      using assms(2) by (simp add: silentOn_def a answer_def)
  next
    assume a: "w1 = answer (Create, KStorageClass, NamespacedName obj) r w"
    have "wellKeyed w1" using assms(1) by (rule wellKeyed_same [rotated]) (simp add: a answer_def)
    then show ?thesis
      using assms(2) by (simp add: silentOn_def a answer_def)
  qed
qed

lemma silentOn_delete:
  assumes "wellKeyed w" "k' \<noteq> k"
    "clientDelete KStorageClass storageClassTable storageClassTable_update k' w = (r, w1)"
  shows "silentOn k w w1"
proof -
  from clientDelete_cases [OF assms(3)] show ?thesis
  proof (elim disjE conjE)
    assume a: "w1 = answer (Delete, KStorageClass, k') None (storageClassTable_update (\<lambda>m. m(k' := None)) w)"
    have "wellKeyed w1" using assms(1) by (rule wellKeyed_remove) (simp add: a answer_def)
    then show ?thesis
      using assms(2) by (simp add: silentOn_def a answer_def)
  next
    assume a: "w1 = answer (Delete, KStorageClass, k') r w"
    have "wellKeyed w1" using assms(1) by (rule wellKeyed_same [rotated]) (simp add: a answer_def)
    then show ?thesis
      using assms(2) by (simp add: silentOn_def a answer_def)
  qed
qed

lemma createStorageClasses_silentOn:
  assumes "wellKeyed w"
    and "\<forall>scc \<in> set sccs. NamespacedName (storageClass scc) = k \<longrightarrow>
           reconcileStrategy scc = ReconcileStrategyIgnore"
    and "createStorageClasses sccs w = (r, w')"
  shows "silentOn k w w'"
  using assms
proof (induction sccs arbitrary: w r w')
  case Nil
  then show ?case by (simp add: silentOn_refl)
next
  case (Cons scc sccs)
  let ?sc = "storageClass scc"
  have rest: "\<forall>scc \<in> set sccs. NamespacedName (storageClass scc) = k \<longrightarrow>
           reconcileStrategy scc = ReconcileStrategyIgnore"
    using Cons.prems(2) by simp
  note IH = Cons.IH [OF _ rest]
  show ?case
  proof (cases "reconcileStrategy scc = ReconcileStrategyIgnore \<or> disable scc")
    case True
    with Cons.prems show ?thesis by (auto intro: IH)
  next
    case False
    with Cons.prems(2) have nk: "NamespacedName ?sc \<noteq> k" by auto
    obtain g w1 where get: "clientGet KStorageClass storageClassTable (NamespacedName ?sc) w = (g, w1)"
      by (cases "clientGet KStorageClass storageClassTable (NamespacedName ?sc) w") blast
    have k1: "silentOn k w w1" using silentOn_get [OF Cons.prems(1) nk get] .
    have wk1: "wellKeyed w1" using k1 by (rule silentOn_wellKeyed)
    obtain c w2 where cre: "clientCreate KStorageClass storageClassTable storageClassTable_update
          (NamespacedName ?sc) ?sc w1 = (c, w2)"
      by (cases "clientCreate KStorageClass storageClassTable storageClassTable_update
          (NamespacedName ?sc) ?sc w1") blast
    have k2: "silentOn k w w2" using silentOn_trans [OF k1 silentOn_create [OF wk1 nk cre]] .
    obtain d v2 where del: "clientDelete KStorageClass storageClassTable storageClassTable_update
          (NamespacedName ?sc) w1 = (d, v2)"
      by (cases "clientDelete KStorageClass storageClassTable storageClassTable_update
          (NamespacedName ?sc) w1") blast
    have kd: "silentOn k w v2" using silentOn_trans [OF k1 silentOn_delete [OF wk1 nk del]] .
    obtain c' v3 where cre': "clientCreate KStorageClass storageClassTable storageClassTable_update
          (NamespacedName ?sc) ?sc v2 = (c', v3)"
      by (cases "clientCreate KStorageClass storageClassTable storageClassTable_update
          (NamespacedName ?sc) ?sc v2") blast
    have kc: "silentOn k w v3"
      using silentOn_trans [OF kd silentOn_create [OF silentOn_wellKeyed [OF kd] nk cre']] .
    have ek: "g = Inr existing \<Longrightarrow> NamespacedName existing = NamespacedName ?sc" for existing
      using clientGet_found_key [OF Cons.prems(1)] get by simp
    have "(w' = w1 \<or> w' = w2 \<or> w' = v2 \<or> w' = v3)
        \<or> (\<exists>u. (u = w1 \<or> u = w2 \<or> u = v3) \<and> createStorageClasses sccs u = (r, w'))"
      using Cons.prems(3) False get cre del cre' ek
      by (auto simp: Let_def split: sum.splits option.splits if_splits)
    then show ?thesis
    proof (elim disjE exE conjE)
      fix u assume "u = w1" "createStorageClasses sccs u = (r, w')"
      then show ?thesis using IH [of w1 r w'] wk1 k1 by (auto intro: silentOn_trans)
    next
      fix u assume "u = w2" "createStorageClasses sccs u = (r, w')"
      then show ?thesis using IH [of w2 r w'] k2 by (auto intro: silentOn_trans dest: silentOn_wellKeyed)
    next
      fix u assume "u = v3" "createStorageClasses sccs u = (r, w')"
      then show ?thesis using IH [of v3 r w'] kc by (auto intro: silentOn_trans dest: silentOn_wellKeyed)
    qed (use k1 k2 kd kc in auto)
  qed
qed

lemma storageClassPasses_silentOn:
  assumes "wellKeyed w"
    and "\<forall>sccs \<in> set passes. \<forall>scc \<in> set sccs. NamespacedName (storageClass scc) = k \<longrightarrow>
           reconcileStrategy scc = ReconcileStrategyIgnore"
  shows "silentOn k w (storageClassPasses passes w)"
  using assms
proof (induction passes arbitrary: w)
  case Nil
  then show ?case by (simp add: silentOn_refl)
next
  case (Cons sccs passes)
  have s1: "silentOn k w (snd (createStorageClasses sccs w))"
    using createStorageClasses_silentOn [of w sccs k "fst (createStorageClasses sccs w)"
        "snd (createStorageClasses sccs w)"] Cons.prems
    by simp
  have "silentOn k (snd (createStorageClasses sccs w))
          (storageClassPasses passes (snd (createStorageClasses sccs w)))"
    using Cons.IH [OF silentOn_wellKeyed [OF s1]] Cons.prems(2) by simp
  with s1 show ?case by (auto intro: silentOn_trans)
qed

lemma storageClassPasses_keptInit:
  assumes "wellKeyed w"
    and "\<forall>sccs \<in> set passes. \<forall>scc \<in> set sccs. NamespacedName (storageClass scc) = k \<longrightarrow>
           reconcileStrategy scc = ReconcileStrategyInit"
  shows "keptInit k w (storageClassPasses passes w)"
  using assms
proof (induction passes arbitrary: w)
  case Nil
  then show ?case by (simp add: keptInit_refl)
next
  case (Cons sccs passes)
  have s1: "keptInit k w (snd (createStorageClasses sccs w))"
    using createStorageClasses_keptInit [of w sccs k "fst (createStorageClasses sccs w)"
        "snd (createStorageClasses sccs w)"] Cons.prems
    by simp
  have "keptInit k (snd (createStorageClasses sccs w))
          (storageClassPasses passes (snd (createStorageClasses sccs w)))"
    using Cons.IH [OF keptInit_wellKeyed [OF s1]] Cons.prems(2) by simp
  with s1 show ?case by (auto intro: keptInit_trans)
qed

lemma keptStore_refl: "keptStore k w w"
  by (simp add: keptStore_def)

lemma keptStore_trans: "keptStore k w w1 \<Longrightarrow> keptStore k w1 w2 \<Longrightarrow> keptStore k w w2"
  unfolding keptStore_def
  apply (elim conjE exE)
  subgoal for cs1 cs2
    apply (intro conjI)
     apply (rule exI [of _ "cs1 @ cs2"])
     apply simp
    apply blast
    done
  done

lemma keptStore_get:
  assumes "clientGet KCephObjectStore cephObjectStoreTable k' w = (r, w1)"
  shows "keptStore k w w1"
proof -
  from clientGet_cases [OF assms]
  have w1: "w1 = answer (Get, KCephObjectStore, k') (case r of Inl err \<Rightarrow> Some err | Inr obj \<Rightarrow> None) w"
    by simp
  show ?thesis
    by (simp add: keptStore_def w1 answer_def)
qed

lemma keptStore_create:
  assumes "clientCreate KCephObjectStore cephObjectStoreTable cephObjectStoreTable_update k' obj w = (r, w1)"
  shows "keptStore k w w1"
proof -
  from clientCreate_cases [OF assms] show ?thesis
  proof (elim disjE conjE)
    assume a: "r = None" "cephObjectStoreTable w k' = None"
      "w1 = answer (Create, KCephObjectStore, k') None
              (cephObjectStoreTable_update (\<lambda>m. m(k' \<mapsto> obj)) w)"
    then show ?thesis
      by (auto simp: keptStore_def answer_def present_def)
  next
    assume a: "r \<noteq> None" "w1 = answer (Create, KCephObjectStore, k') r w"
    then show ?thesis
      by (auto simp: keptStore_def answer_def)
  qed
qed

lemma createCephObjectStores_keptStore:
  assumes "ReconcileStrategy (CephObjectStores (ManagedResources (Spec instance))) = ReconcileStrategyInit"
    and "createCephObjectStores stores instance w = (r, w')"
  shows "keptStore k w w'"
  using assms(2)
proof (induction stores arbitrary: w r w')
  case Nil
  then show ?case by (simp add: keptStore_refl)
next
  case (Cons cephObjectStore stores)
  obtain g w1 where get: "clientGet KCephObjectStore cephObjectStoreTable (NamespacedName cephObjectStore) w = (g, w1)"
    by (cases "clientGet KCephObjectStore cephObjectStoreTable (NamespacedName cephObjectStore) w") blast
  have k1: "keptStore k w w1" using keptStore_get [OF get] .
  obtain c w2 where cre: "clientCreate KCephObjectStore cephObjectStoreTable cephObjectStoreTable_update
        (NamespacedName cephObjectStore) cephObjectStore w1 = (c, w2)"
    by (cases "clientCreate KCephObjectStore cephObjectStoreTable cephObjectStoreTable_update
        (NamespacedName cephObjectStore) cephObjectStore w1") blast
  have k2: "keptStore k w w2" using keptStore_trans [OF k1 keptStore_create [OF cre]] .
  have "(w' = w1 \<or> w' = w2)
      \<or> (\<exists>u. (u = w1 \<or> u = w2) \<and> createCephObjectStores stores instance u = (r, w'))"
    using Cons.prems assms(1) get cre
    by (auto simp: Let_def split: sum.splits option.splits if_splits)
  then show ?case
    using k1 k2 Cons.IH by (auto intro: keptStore_trans)
qed

lemma objectStorePasses_keptStore:
  assumes "\<forall>p \<in> set passes.
      ReconcileStrategy (CephObjectStores (ManagedResources (Spec (snd p)))) = ReconcileStrategyInit"
  shows "keptStore k w (objectStorePasses passes w)"
  using assms
proof (induction passes arbitrary: w)
  case Nil
  then show ?case by (simp add: keptStore_refl)
next
  case (Cons p passes)
  obtain stores inst where p: "p = (stores, inst)" by (cases p)
  have s1: "keptStore k w (snd (createCephObjectStores stores inst w))"
    using createCephObjectStores_keptStore [of inst stores w
        "fst (createCephObjectStores stores inst w)" "snd (createCephObjectStores stores inst w)"]
      Cons.prems p
    by simp
  have "keptStore k (snd (createCephObjectStores stores inst w))
          (objectStorePasses passes (snd (createCephObjectStores stores inst w)))"
    using Cons.IH Cons.prems by simp
  with s1 show ?case by (auto simp: p intro: keptStore_trans)
qed

text \<open>
  C6, as amended. Over every sequence of passes of \<open>createStorageClasses\<close>, from a world that
  stores each class under its name: when every configuration of the class at a key has the
  Ignore strategy, no call is made for that key; when every one has the Init strategy, no
  call is an \<open>Update\<close> and none deletes that class, the class is created at most once, and a
  class that existed at the start is not created and stays the object it was. When the
  strategy of the object stores is Ignore, \<open>ensureCephObjectStores\<close> makes no call at all; over
  every sequence of passes of \<open>createCephObjectStores\<close> under the Init strategy the calls are
  reads and creations only, an object store is created at most once, and one that existed at
  the start is not created and stays the object it was.
\<close>

theorem ignore_and_init_respected:
  "(wellKeyed w
      \<and> (\<forall>sccs \<in> set passes. \<forall>scc \<in> set sccs. NamespacedName (storageClass scc) = k \<longrightarrow>
             reconcileStrategy scc = ReconcileStrategyIgnore)
    \<longrightarrow> list_all (\<lambda>c. snd (snd (fst c)) \<noteq> k) (newCalls w (storageClassPasses passes w)))
   \<and> (wellKeyed w
      \<and> (\<forall>sccs \<in> set passes. \<forall>scc \<in> set sccs. NamespacedName (storageClass scc) = k \<longrightarrow>
             reconcileStrategy scc = ReconcileStrategyInit)
    \<longrightarrow> list_all (\<lambda>c. fst (fst c) \<noteq> Update \<and> fst c \<noteq> (Delete, KStorageClass, k))
            (newCalls w (storageClassPasses passes w))
        \<and> count_list (newCalls w (storageClassPasses passes w)) ((Create, KStorageClass, k), None) \<le> 1
        \<and> (\<forall>obj. storageClassTable w k = Some obj \<longrightarrow>
              storageClassTable (storageClassPasses passes w) k = Some obj
              \<and> count_list (newCalls w (storageClassPasses passes w)) ((Create, KStorageClass, k), None) = 0))
   \<and> (ReconcileStrategy (CephObjectStores (ManagedResources (Spec instance))) = ReconcileStrategyIgnore
    \<longrightarrow> ensureCephObjectStores x instance w = (None, w))
   \<and> ((\<forall>p \<in> set storePasses.
          ReconcileStrategy (CephObjectStores (ManagedResources (Spec (snd p)))) = ReconcileStrategyInit)
    \<longrightarrow> list_all (\<lambda>c. fst (fst c) = Get \<or> fst (fst c) = Create) (newCalls w (objectStorePasses storePasses w))
        \<and> count_list (newCalls w (objectStorePasses storePasses w)) ((Create, KCephObjectStore, k), None) \<le> 1
        \<and> (\<forall>obj. cephObjectStoreTable w k = Some obj \<longrightarrow>
              cephObjectStoreTable (objectStorePasses storePasses w) k = Some obj
              \<and> count_list (newCalls w (objectStorePasses storePasses w)) ((Create, KCephObjectStore, k), None) = 0))"
proof (intro conjI impI)
  assume a: "wellKeyed w
      \<and> (\<forall>sccs \<in> set passes. \<forall>scc \<in> set sccs. NamespacedName (storageClass scc) = k \<longrightarrow>
             reconcileStrategy scc = ReconcileStrategyIgnore)"
  then have "silentOn k w (storageClassPasses passes w)"
    by (intro storageClassPasses_silentOn) auto
  then show "list_all (\<lambda>c. snd (snd (fst c)) \<noteq> k) (newCalls w (storageClassPasses passes w))"
    by (auto simp: silentOn_def newCalls_append)
next
  assume a: "wellKeyed w
      \<and> (\<forall>sccs \<in> set passes. \<forall>scc \<in> set sccs. NamespacedName (storageClass scc) = k \<longrightarrow>
             reconcileStrategy scc = ReconcileStrategyInit)"
  then have "keptInit k w (storageClassPasses passes w)"
    by (intro storageClassPasses_keptInit) auto
  then obtain cs where cs: "calls (storageClassPasses passes w) = calls w @ cs"
    "list_all (\<lambda>c. storageClassCall c \<and> fst c \<noteq> (Delete, KStorageClass, k)) cs"
    "present (storageClassTable w) k + count_list cs ((Create, KStorageClass, k), None)
       = present (storageClassTable (storageClassPasses passes w)) k"
    and same: "\<forall>obj. storageClassTable w k = Some obj \<longrightarrow> storageClassTable (storageClassPasses passes w) k = Some obj"
    unfolding keptInit_def by blast
  note n = newCalls_append [OF cs(1)]
  have "list_all (\<lambda>c. fst (fst c) \<noteq> Update \<and> fst c \<noteq> (Delete, KStorageClass, k)) cs"
    using cs(2) by (induction cs) (auto simp: storageClassCall_def)
  then show "list_all (\<lambda>c. fst (fst c) \<noteq> Update \<and> fst c \<noteq> (Delete, KStorageClass, k))
            (newCalls w (storageClassPasses passes w))"
    by (simp add: n)
  show "count_list (newCalls w (storageClassPasses passes w)) ((Create, KStorageClass, k), None) \<le> 1"
    using cs(3) by (simp add: n present_def split: if_splits)
  show "\<forall>obj. storageClassTable w k = Some obj \<longrightarrow>
              storageClassTable (storageClassPasses passes w) k = Some obj
              \<and> count_list (newCalls w (storageClassPasses passes w)) ((Create, KStorageClass, k), None) = 0"
    using cs(3) same by (auto simp: n present_def split: if_splits)
next
  assume "ReconcileStrategy (CephObjectStores (ManagedResources (Spec instance))) = ReconcileStrategyIgnore"
  then show "ensureCephObjectStores x instance w = (None, w)"
    by (simp add: ensureCephObjectStores_def)
next
  assume a: "\<forall>p \<in> set storePasses.
          ReconcileStrategy (CephObjectStores (ManagedResources (Spec (snd p)))) = ReconcileStrategyInit"
  have "keptStore k w (objectStorePasses storePasses w)"
    using a by (rule objectStorePasses_keptStore)
  then obtain cs where cs: "calls (objectStorePasses storePasses w) = calls w @ cs"
    "list_all (\<lambda>c. fst (fst c) = Get \<or> fst (fst c) = Create) cs"
    "present (cephObjectStoreTable w) k + count_list cs ((Create, KCephObjectStore, k), None)
       = present (cephObjectStoreTable (objectStorePasses storePasses w)) k"
    and same: "\<forall>obj. cephObjectStoreTable w k = Some obj \<longrightarrow> cephObjectStoreTable (objectStorePasses storePasses w) k = Some obj"
    unfolding keptStore_def by blast
  note n = newCalls_append [OF cs(1)]
  show "list_all (\<lambda>c. fst (fst c) = Get \<or> fst (fst c) = Create) (newCalls w (objectStorePasses storePasses w))"
    using cs(2) by (simp add: n)
  show "count_list (newCalls w (objectStorePasses storePasses w)) ((Create, KCephObjectStore, k), None) \<le> 1"
    using cs(3) by (simp add: n present_def split: if_splits)
  show "\<forall>obj. cephObjectStoreTable w k = Some obj \<longrightarrow>
              cephObjectStoreTable (objectStorePasses storePasses w) k = Some obj
              \<and> count_list (newCalls w (objectStorePasses storePasses w)) ((Create, KCephObjectStore, k), None) = 0"
    using cs(3) same by (auto simp: n present_def split: if_splits)
qed

theorem ignore_counterexample:
  "ReconcileStrategy (CephBlockPools (ManagedResources (Spec (exampleCluster ReconcileStrategyIgnore False False False))))
     = ReconcileStrategyIgnore
   \<and> map fst (calls (snd (ensureCreated (exampleExt True) (exampleCluster ReconcileStrategyIgnore False False False)
          (gatesWorld None None)))) =
       [(Get, KCephBlockPool, (''openshift-storage'', ''ocsinit-cephblockpool''))]"
  by (simp add: example_gate_defs ensureCreated_def newStorageClassConfigurations_def
      clientGet_def answer_def Let_def)

lemma wellKeyed_driftWorld: "wellKeyed (driftWorld del)"
  by (auto simp: wellKeyed_def driftWorld_def example_defs split: if_splits)

theorem ignore_and_init_respected_witness:
  "wellKeyed (driftWorld None)
   \<and> newCalls (driftWorld None)
        (storageClassPasses [[exampleConfiguration ''sc'' ''new'' ReconcileStrategyIgnore]] (driftWorld None)) = []
   \<and> storageClassTable
        (storageClassPasses [[exampleConfiguration ''sc'' ''new'' ReconcileStrategyInit],
                             [exampleConfiguration ''sc'' ''newer'' ReconcileStrategyInit]] (driftWorld None))
        ([], ''sc'') = Some (exampleClass ''sc'' ''old'' None)
   \<and> ensureCephObjectStores (exampleExt False) (exampleCluster ReconcileStrategyIgnore False False False) emptyWorld
       = (None, emptyWorld)
   \<and> count_list (newCalls emptyWorld
        (objectStorePasses [([exampleStore 2 None], exampleCluster ReconcileStrategyInit False False False),
                            ([exampleStore 3 None], exampleCluster ReconcileStrategyInit False False False)]
           emptyWorld))
        ((Create, KCephObjectStore, (''openshift-storage'', ''store'')), None) \<le> 1"
proof -
  let ?w = "driftWorld None"
  let ?i = "exampleCluster ReconcileStrategyIgnore False False False"
  let ?n = "exampleCluster ReconcileStrategyInit False False False"
  let ?p1 = "[[exampleConfiguration ''sc'' ''new'' ReconcileStrategyIgnore]]"
  let ?p2 = "[[exampleConfiguration ''sc'' ''new'' ReconcileStrategyInit],
              [exampleConfiguration ''sc'' ''newer'' ReconcileStrategyInit]]"
  let ?sp = "[([exampleStore 2 None], ?n), ([exampleStore 3 None], ?n)]"
  have wk: "wellKeyed ?w" by (rule wellKeyed_driftWorld)
  have h1: "\<forall>sccs \<in> set ?p1. \<forall>scc \<in> set sccs. NamespacedName (storageClass scc) = ([], ''sc'') \<longrightarrow>
             reconcileStrategy scc = ReconcileStrategyIgnore"
    by (simp add: exampleConfiguration_def)
  have h2: "\<forall>sccs \<in> set ?p2. \<forall>scc \<in> set sccs. NamespacedName (storageClass scc) = ([], ''sc'') \<longrightarrow>
             reconcileStrategy scc = ReconcileStrategyInit"
    by (simp add: exampleConfiguration_def)
  have h3: "ReconcileStrategy (CephObjectStores (ManagedResources (Spec ?i))) = ReconcileStrategyIgnore"
    by (simp add: example_store_defs)
  have h4: "\<forall>p \<in> set ?sp.
          ReconcileStrategy (CephObjectStores (ManagedResources (Spec (snd p)))) = ReconcileStrategyInit"
    by (simp add: example_store_defs)
  have t: "storageClassTable ?w ([], ''sc'') = Some (exampleClass ''sc'' ''old'' None)"
    by (simp add: driftWorld_def emptyWorld_def)
  have c1: "list_all (\<lambda>c. snd (snd (fst c)) \<noteq> ([], ''sc'')) (newCalls ?w (storageClassPasses ?p1 ?w))"
    using ignore_and_init_respected [of ?w ?p1 "([], ''sc'')" ?i "exampleExt False" "[]"] wk h1 by blast
  have e1: "newCalls ?w (storageClassPasses ?p1 ?w) = []"
    by (simp add: newCalls_def exampleConfiguration_def)
  have c2: "storageClassTable (storageClassPasses ?p2 ?w) ([], ''sc'') = Some (exampleClass ''sc'' ''old'' None)"
    using ignore_and_init_respected [of ?w ?p2 "([], ''sc'')" ?i "exampleExt False" "[]"] wk h2 t by blast
  have c3: "ensureCephObjectStores (exampleExt False) ?i emptyWorld = (None, emptyWorld)"
    using ignore_and_init_respected [of emptyWorld "[]" "([], ''sc'')" ?i "exampleExt False" "[]"] h3 by blast
  have c4: "count_list (newCalls emptyWorld (objectStorePasses ?sp emptyWorld))
        ((Create, KCephObjectStore, (''openshift-storage'', ''store'')), None) \<le> 1"
    using ignore_and_init_respected [of emptyWorld "[]" "(''openshift-storage'', ''store'')" ?i
        "exampleExt False" ?sp] h4 by blast
  from wk e1 c2 c3 c4 show ?thesis by blast
qed

lemma ReconcileWith_loop:
  assumes "reachesEnsurers lx request r instance1 w3"
    and "runEnsurers lx fs instance1 (r\<lparr>client := w3, conditions := []\<rparr>) = (Some err, instance2, r1)"
  shows "ReconcileWith lx fs request r = (Some err, r1)"
  using assms unfolding reachesEnsurers_def ReconcileWith_def
  by (auto simp: Let_def split: if_splits)

lemma runEnsurers_append:
  "runEnsurers lx (pre @ post) inst r =
     (case runEnsurers lx pre inst r of
        (Some err, instance1, r1) \<Rightarrow> (Some err, instance1, r1)
      | (None, instance1, r1) \<Rightarrow> runEnsurers lx post instance1 r1)"
  by (induction pre arbitrary: inst r)
     (auto simp: Let_def split: prod.splits option.splits)

lemma clientStatusUpdate_cases:
  assumes "clientStatusUpdate k obj w = (u, w')"
  shows "calls w' = calls w @ [((StatusUpdate, KStorageCluster, k), u)]
     \<and> (u = None \<longrightarrow> (\<exists>stored. storageClusterTable w' k = Some stored \<and> Status stored = Status obj))"
  using assms by (auto simp: clientStatusUpdate_def answer_def Let_def split: option.splits)

lemma ReconcileWith_error_path:
  assumes reach: "reachesEnsurers lx request r instance1 w3"
    and pre: "runEnsurers lx pre instance1 (r\<lparr>client := w3, conditions := []\<rparr>) = (None, instance2, r2)"
    and fail: "f instance2 r2 = (Some err, instance3, r3)"
    and failed: "failed = instance3\<lparr>Status := (Status instance3)
       \<lparr>Conditions := SetErrorCondition lx (Conditions (Status instance3)) (ReconcileFailed lx)
                         (''Error while reconciling: '' @ ErrorText err),
        Phase := PhaseError\<rparr>\<rparr>"
  shows "\<exists>w u.
     ReconcileWith lx (pre @ f # post) request r = (Some err, r3\<lparr>client := w\<rparr>)
     \<and> ReconcileWith lx (pre @ f # post) request r = ReconcileWith lx (pre @ [f]) request r
     \<and> clientStatusUpdate (NamespacedName instance3) failed (client r3) = (u, w)
     \<and> calls w = calls (client r3) @ [((StatusUpdate, KStorageCluster, NamespacedName instance3), u)]
     \<and> (u = None \<longrightarrow>
          (\<exists>stored. storageClusterTable w (NamespacedName instance3) = Some stored
             \<and> Status stored = Status failed))"
proof -
  obtain u w where upd: "clientStatusUpdate (NamespacedName instance3) failed (client r3) = (u, w)"
    by (cases "clientStatusUpdate (NamespacedName instance3) failed (client r3)") blast
  have nn: "NamespacedName failed = NamespacedName instance3"
    by (simp add: NamespacedName_def failed)
  have run: "runEnsurers lx (pre @ f # post') instance1 (r\<lparr>client := w3, conditions := []\<rparr>)
      = (Some err, failed, r3\<lparr>client := w\<rparr>)" for post'
    using upd nn unfolding failed
    by (simp add: runEnsurers_append pre fail Let_def del: append.simps)
  have rec: "ReconcileWith lx (pre @ f # post') request r = (Some err, r3\<lparr>client := w\<rparr>)" for post'
    using ReconcileWith_loop [OF reach run] .
  note st = clientStatusUpdate_cases [OF upd]
  show ?thesis
    apply (rule exI [of _ w])
    apply (rule exI [of _ u])
    using rec [of post] rec [of "[]"] upd st
    apply simp
    done
qed

text \<open>
  C1. When the part of \<open>Reconcile\<close> before the loop went through, the ensurers \<open>pre\<close> succeeded
  and the next one, \<open>f\<close>, returns an error: \<open>Reconcile\<close> returns that error; the ensurers
  \<open>post\<close> after \<open>f\<close> are not run (the result is that of the list ending with \<open>f\<close>); the status
  it writes, in one status update made after \<open>f\<close>, has the phase Error and the conditions that
  \<open>SetErrorCondition\<close> gives for the message ending with the error's text; and when the server
  accepts the update the stored status is that status.
\<close>

theorem Reconcile_fails_fast:
  assumes reach: "reachesEnsurers lx request r instance1 w3"
    and pre: "runEnsurers lx pre instance1 (r\<lparr>client := w3, conditions := []\<rparr>) = (None, instance2, r2)"
    and fail: "f instance2 r2 = (Some err, instance3, r3)"
  shows "\<exists>failed w u.
     ReconcileWith lx (pre @ f # post) request r = (Some err, r3\<lparr>client := w\<rparr>)
     \<and> ReconcileWith lx (pre @ f # post) request r = ReconcileWith lx (pre @ [f]) request r
     \<and> Phase (Status failed) = PhaseError
     \<and> Conditions (Status failed) =
         SetErrorCondition lx (Conditions (Status instance3)) (ReconcileFailed lx)
           (''Error while reconciling: '' @ ErrorText err)
     \<and> clientStatusUpdate (NamespacedName instance3) failed (client r3) = (u, w)
     \<and> calls w = calls (client r3) @ [((StatusUpdate, KStorageCluster, NamespacedName instance3), u)]
     \<and> (u = None \<longrightarrow>
          (\<exists>stored. storageClusterTable w (NamespacedName instance3) = Some stored
             \<and> Status stored = Status failed))"
proof -
  let ?failed = "instance3\<lparr>Status := (Status instance3)
       \<lparr>Conditions := SetErrorCondition lx (Conditions (Status instance3)) (ReconcileFailed lx)
                         (''Error while reconciling: '' @ ErrorText err),
        Phase := PhaseError\<rparr>\<rparr>"
  from ReconcileWith_error_path [where f = f and post = post, OF reach pre fail refl]
  obtain w u where
    "ReconcileWith lx (pre @ f # post) request r = (Some err, r3\<lparr>client := w\<rparr>)
     \<and> ReconcileWith lx (pre @ f # post) request r = ReconcileWith lx (pre @ [f]) request r
     \<and> clientStatusUpdate (NamespacedName instance3) ?failed (client r3) = (u, w)
     \<and> calls w = calls (client r3) @ [((StatusUpdate, KStorageCluster, NamespacedName instance3), u)]
     \<and> (u = None \<longrightarrow>
          (\<exists>stored. storageClusterTable w (NamespacedName instance3) = Some stored
             \<and> Status stored = Status ?failed))"
    by blast
  then show ?thesis
    by (intro exI [of _ ?failed] exI [of _ w] exI [of _ u]) (auto simp del: append.simps)
qed


lemmas example_reconcile_defs = initializedWorld_def reconcileWorld_def exampleReconciler_def
  exampleInstance_def exampleCluster_def emptyWorld_def ObjectMeta.extend_def ObjectMeta.truncate_def
  Object.fields_def emptyMeta_def NamespacedName_def failing_def

lemma example_reaches:
  "reachesEnsurers lx (''openshift-storage'', ''ocsinit'') (exampleReconciler (initializedWorld f))
     exampleInstance
     ((initializedWorld f)\<lparr>calls :=
        [((Get, KStorageCluster, (''openshift-storage'', ''ocsinit'')), None),
         ((Get, KStorageClusterInitialization, (''openshift-storage'', ''ocsinit'')), None)]\<rparr>)"
  if "f [] (Get, KStorageCluster, (''openshift-storage'', ''ocsinit'')) = None"
    "f [((Get, KStorageCluster, (''openshift-storage'', ''ocsinit'')), None)]
       (Get, KStorageClusterInitialization, (''openshift-storage'', ''ocsinit'')) = None"
  using that unfolding reachesEnsurers_def
  by (simp add: example_reconcile_defs clientGet_def answer_def)

theorem Reconcile_fails_fast_witness:
  "reachesEnsurers (exampleLegacy (\<lambda>e. None) (\<lambda>b. Inr []))
      (''openshift-storage'', ''ocsinit'')
      (exampleReconciler (initializedWorld (failing (Get, KCephCluster, (''openshift-storage'', ''ocsinit'')))))
      exampleInstance
      ((initializedWorld (failing (Get, KCephCluster, (''openshift-storage'', ''ocsinit''))))\<lparr>calls :=
        [((Get, KStorageCluster, (''openshift-storage'', ''ocsinit'')), None),
         ((Get, KStorageClusterInitialization, (''openshift-storage'', ''ocsinit'')), None)]\<rparr>)
   \<and> fst (Reconcile (exampleLegacy (\<lambda>e. None) (\<lambda>b. Inr [])) (''openshift-storage'', ''ocsinit'')
          (exampleReconciler (initializedWorld (failing (Get, KCephCluster, (''openshift-storage'', ''ocsinit''))))))
       = Some (StatusFailure ''etcd timeout'')
   \<and> (\<exists>failed :: StorageCluster. Phase (Status failed) = PhaseError
        \<and> storageClusterTable
            (client (snd (Reconcile (exampleLegacy (\<lambda>e. None) (\<lambda>b. Inr [])) (''openshift-storage'', ''ocsinit'')
               (exampleReconciler (initializedWorld (failing (Get, KCephCluster, (''openshift-storage'', ''ocsinit''))))))))
            (''openshift-storage'', ''ocsinit'')
           = Some (exampleInstance\<lparr>Status := Status failed\<rparr>))"
proof -
  let ?lx = "exampleLegacy (\<lambda>e. None) (\<lambda>b. Inr [])"
  let ?k = "(''openshift-storage'', ''ocsinit'')"
  let ?f = "failing (Get, KCephCluster, ?k)"
  let ?r = "exampleReconciler (initializedWorld ?f)"
  let ?w3 = "(initializedWorld ?f)\<lparr>calls :=
        [((Get, KStorageCluster, ?k), None), ((Get, KStorageClusterInitialization, ?k), None)]\<rparr>"
  let ?r3 = "?r\<lparr>client := ?w3\<lparr>calls := calls ?w3 @ [((Get, KCephCluster, ?k), Some (StatusFailure ''etcd timeout''))]\<rparr>,
                 conditions := []\<rparr>"
  have reach: "reachesEnsurers ?lx ?k ?r exampleInstance ?w3"
    by (rule example_reaches) (simp_all add: failing_def)
  have pre: "runEnsurers ?lx [] exampleInstance (?r\<lparr>client := ?w3, conditions := []\<rparr>)
      = (None, exampleInstance, ?r\<lparr>client := ?w3, conditions := []\<rparr>)"
    by simp
  have fail: "ensureCephCluster ?lx exampleInstance (?r\<lparr>client := ?w3, conditions := []\<rparr>)
      = (Some (StatusFailure ''etcd timeout''), exampleInstance, ?r3)"
    by (simp add: ensureCephCluster_def newCephCluster_def exampleLegacy_def example_reconcile_defs
        clientGet_def answer_def Let_def)
  from Reconcile_fails_fast [where f = "ensureCephCluster ?lx" and pre = "[]" and post = "[]", OF reach pre fail]
  obtain failed w u where
    res: "ReconcileWith ?lx [ensureCephCluster ?lx] ?k ?r = (Some (StatusFailure ''etcd timeout''), ?r3\<lparr>client := w\<rparr>)"
    and ph: "Phase (Status failed) = PhaseError"
    and upd: "clientStatusUpdate (NamespacedName exampleInstance) failed (client ?r3) = (u, w)"
    by auto
  have "storageClusterTable w ?k = Some (exampleInstance\<lparr>Status := Status failed\<rparr>)"
    using upd
    by (auto simp: clientStatusUpdate_def example_reconcile_defs answer_def Let_def)
  with ph have "\<exists>failed :: StorageCluster. Phase (Status failed) = PhaseError
      \<and> storageClusterTable w ?k = Some (exampleInstance\<lparr>Status := Status failed\<rparr>)"
    by blast
  with reach res show ?thesis
    by (simp add: Reconcile_def)
qed

lemma expanding_iff:
  "expanding foundSets desiredSets \<longleftrightarrow>
     (\<exists>f \<in> set foundSets. \<exists>d \<in> set desiredSets. scdsName f = scdsName d \<and> scdsCount f < scdsCount d)"
  by (auto simp: expanding_def list_ex_iff)

lemma clientUpdate_cases:
  assumes "clientUpdate kd table table_update k obj w = (u, w')"
  shows "(u = None \<and> table w k \<noteq> None \<and> w' = answer (Update, kd, k) None (table_update (\<lambda>m. m(k \<mapsto> obj)) w))
     \<or> (u \<noteq> None \<and> w' = answer (Update, kd, k) u w)"
  using assms by (auto simp: clientUpdate_def Let_def split: option.splits)

text \<open>
  C7. When \<open>ensureCephCluster\<close> finds the \<open>CephCluster\<close> with a spec unequal to the desired one,
  and a device set found has a count below the desired count of a device set of the same name:
  the instance it returns has the phase Expanding, and after the \<open>Get\<close> it issues one \<open>Update\<close>,
  of the object found with its whole spec replaced by the desired spec, whose result it
  returns; when the server accepts the update, that object is the one stored.
\<close>

theorem ensureCephCluster_expands:
  assumes owner: "setControllerReference lx sc (ObjectMeta.truncate (newCephCluster lx sc (cephImage r))) = Inr refs"
    and found: "faults (client r) (calls (client r)) (Get, KCephCluster, (Namespace sc, Name sc)) = None"
      "cephClusterTable (client r) (Namespace sc, Name sc) = Some found"
    and unequal: "Spec found \<noteq> Spec (newCephCluster lx sc (cephImage r))"
    and smaller: "f \<in> set (StorageClassDeviceSets (Storage (Spec found)))"
      "d \<in> set (StorageClassDeviceSets (Storage (Spec (newCephCluster lx sc (cephImage r)))))"
      "scdsName f = scdsName d" "scdsCount f < scdsCount d"
  shows "\<exists>u w.
     ensureCephCluster lx sc r =
       (u, sc\<lparr>Status := (Status sc)\<lparr>Phase := PhaseClusterExpanding\<rparr>\<rparr>, r\<lparr>client := w\<rparr>)
     \<and> calls w = calls (client r) @
          [((Get, KCephCluster, (Namespace sc, Name sc)), None),
           ((Update, KCephCluster, NamespacedName found), u)]
     \<and> (u = None \<longrightarrow>
          cephClusterTable w (NamespacedName found)
            = Some (found\<lparr>Spec := Spec (newCephCluster lx sc (cephImage r))\<rparr>))"
proof -
  let ?desired = "newCephCluster lx sc (cephImage r)"
  let ?cc = "?desired\<lparr>OwnerReferences := refs\<rparr>"
  let ?w1 = "answer (Get, KCephCluster, (Namespace sc, Name sc)) None (client r)"
  let ?found' = "found\<lparr>Spec := Spec ?desired\<rparr>"
  have nn: "NamespacedName ?cc = (Namespace sc, Name sc)"
    by (simp add: newCephCluster_def NamespacedName_def ObjectMeta.extend_def emptyMeta_def)
  have get: "clientGet KCephCluster cephClusterTable (Namespace sc, Name sc) (client r) = (Inr found, ?w1)"
    using found by (simp add: clientGet_def)
  have ex: "expanding (StorageClassDeviceSets (Storage (Spec found)))
              (StorageClassDeviceSets (Storage (Spec ?desired)))"
    using smaller unfolding expanding_iff by blast
  obtain u w where upd: "clientUpdate KCephCluster cephClusterTable cephClusterTable_update
        (NamespacedName found) ?found' ?w1 = (u, w)"
    by (cases "clientUpdate KCephCluster cephClusterTable cephClusterTable_update
        (NamespacedName found) ?found' ?w1") blast
  have nf: "NamespacedName ?found' = NamespacedName found"
    by (simp add: NamespacedName_def)
  have spec: "Spec ?cc = Spec ?desired" by simp
  have run: "ensureCephCluster lx sc r =
       (u, sc\<lparr>Status := (Status sc)\<lparr>Phase := PhaseClusterExpanding\<rparr>\<rparr>, r\<lparr>client := w\<rparr>)"
    unfolding ensureCephCluster_def
    using unequal ex by (simp add: owner Let_def nn get nf upd)
  have "calls w = calls (client r) @
          [((Get, KCephCluster, (Namespace sc, Name sc)), None),
           ((Update, KCephCluster, NamespacedName found), u)]
     \<and> (u = None \<longrightarrow> cephClusterTable w (NamespacedName found) = Some ?found')"
    using clientUpdate_cases [OF upd] by (auto simp: answer_def)
  with run show ?thesis by blast
qed

lemmas example_cluster_defs = clusterWorld_def sizedInstance_def exampleDeviceSet_def exampleLegacy_def
  newCephCluster_def example_reconcile_defs

theorem ensureCephCluster_expands_witness:
  "cephClusterTable (client (exampleReconciler (clusterWorld
        (Some (newCephCluster (exampleLegacy (\<lambda>e. None) (\<lambda>b. Inr [])) (sizedInstance 1) ''ceph'')))))
      (''openshift-storage'', ''ocsinit'')
     = Some (newCephCluster (exampleLegacy (\<lambda>e. None) (\<lambda>b. Inr [])) (sizedInstance 1) ''ceph'')
   \<and> map scdsCount (StorageClassDeviceSets (Storage (Spec
        (newCephCluster (exampleLegacy (\<lambda>e. None) (\<lambda>b. Inr [])) (sizedInstance 1) ''ceph'')))) = [1]
   \<and> map scdsCount (StorageClassDeviceSets (Storage (Spec
        (newCephCluster (exampleLegacy (\<lambda>e. None) (\<lambda>b. Inr [])) (sizedInstance 3) ''ceph'')))) = [3]
   \<and> Phase (Status (fst (snd (ensureCephCluster (exampleLegacy (\<lambda>e. None) (\<lambda>b. Inr [])) (sizedInstance 3)
        (exampleReconciler (clusterWorld
           (Some (newCephCluster (exampleLegacy (\<lambda>e. None) (\<lambda>b. Inr [])) (sizedInstance 1) ''ceph''))))))))
     = PhaseClusterExpanding"
proof -
  let ?lx = "exampleLegacy (\<lambda>e. None) (\<lambda>b. Inr [])"
  let ?found = "newCephCluster ?lx (sizedInstance 1) ''ceph''"
  let ?r = "exampleReconciler (clusterWorld (Some ?found))"
  let ?sc = "sizedInstance 3"
  let ?f = "\<lparr>scdsName = ''set0'', scdsCount = 1, scdsPlacement = defaultOSDPlacement,
              scdsResources = \<lparr>Limits = Map.empty, Requests = Map.empty\<rparr>,
              scdsPortable = True,
              scdsVolumeClaimTemplates = [\<lparr>StorageClassName = Some ''gp2'', StorageRequest = Some ''1Ti''\<rparr>]\<rparr>"
  let ?d = "?f\<lparr>scdsCount := 3\<rparr>"
  have img: "cephImage ?r = ''ceph''" by (simp add: exampleReconciler_def)
  have owner: "setControllerReference ?lx ?sc (ObjectMeta.truncate (newCephCluster ?lx ?sc (cephImage ?r)))
      = Inr [OwnerReference (UID ?sc) (APIVersion ?sc) (Kind ?sc) (Name ?sc)]"
    by (simp add: exampleLegacy_def)
  have found: "faults (client ?r) (calls (client ?r)) (Get, KCephCluster, (Namespace ?sc, Name ?sc)) = None"
    "cephClusterTable (client ?r) (Namespace ?sc, Name ?sc) = Some ?found"
    by (simp_all add: clusterWorld_def sizedInstance_def example_reconcile_defs)
  have sets: "StorageClassDeviceSets (Storage (Spec ?found)) = [?f]"
    "StorageClassDeviceSets (Storage (Spec (newCephCluster ?lx ?sc (cephImage ?r)))) = [?d]"
    by (simp_all add: example_cluster_defs)
  have unequal: "Spec ?found \<noteq> Spec (newCephCluster ?lx ?sc (cephImage ?r))"
  proof
    assume "Spec ?found = Spec (newCephCluster ?lx ?sc (cephImage ?r))"
    then have "StorageClassDeviceSets (Storage (Spec ?found))
        = StorageClassDeviceSets (Storage (Spec (newCephCluster ?lx ?sc (cephImage ?r))))"
      by simp
    then show False unfolding sets by simp
  qed
  have smaller: "?f \<in> set (StorageClassDeviceSets (Storage (Spec ?found)))"
    "?d \<in> set (StorageClassDeviceSets (Storage (Spec (newCephCluster ?lx ?sc (cephImage ?r)))))"
    "scdsName ?f = scdsName ?d" "scdsCount ?f < scdsCount ?d"
    unfolding sets by simp_all
  from ensureCephCluster_expands [OF owner found unequal smaller]
  have "Phase (Status (fst (snd (ensureCephCluster ?lx ?sc ?r)))) = PhaseClusterExpanding"
    by auto
  moreover have "cephClusterTable (client ?r) (''openshift-storage'', ''ocsinit'') = Some ?found"
    using found(2) by (simp add: sizedInstance_def example_reconcile_defs)
  ultimately show ?thesis
    using sets by (simp add: img)
qed

lemma createStorageClasses_fresh_step:
  assumes "faults w = (\<lambda>t rq. None)"
    and "reconcileStrategy scc \<noteq> ReconcileStrategyIgnore" "\<not> disable scc"
    and "storageClassTable w (NamespacedName (storageClass scc)) = None"
  shows "createStorageClasses (scc # sccs) w =
     createStorageClasses sccs
       (w\<lparr>storageClassTable := (storageClassTable w)(NamespacedName (storageClass scc) \<mapsto> storageClass scc),
          calls := calls w @
            [((Get, KStorageClass, NamespacedName (storageClass scc)),
                Some (StatusNotFound (snd (NamespacedName (storageClass scc))))),
             ((Create, KStorageClass, NamespacedName (storageClass scc)), None)]\<rparr>)"
  using assms
  apply (subst createStorageClasses.simps(2))
  apply (simp add: clientGet_def clientCreate_def answer_def Let_def del: createStorageClasses.simps)
  apply (rule arg_cong [where f = "createStorageClasses sccs"])
  apply (cases w)
  apply simp
  done

lemma createdClasses_fresh_step:
  "createdClasses (w\<lparr>storageClassTable := t,
      calls := calls w @ [((Get, KStorageClass, k), Some e), ((Create, KStorageClass, k), None)]\<rparr>)
     = createdClasses w @ [k]"
  by (simp add: createdClasses_def)

lemma createStorageClasses_fresh:
  assumes "faults w = (\<lambda>t rq. None)"
    and "\<forall>scc \<in> set sccs. reconcileStrategy scc \<noteq> ReconcileStrategyIgnore \<and> \<not> disable scc
           \<and> storageClassTable w (NamespacedName (storageClass scc)) = None"
    and "distinct (map (\<lambda>scc. NamespacedName (storageClass scc)) sccs)"
  shows "fst (createStorageClasses sccs w) = None
     \<and> createdClasses (snd (createStorageClasses sccs w)) =
         createdClasses w @ map (\<lambda>scc. NamespacedName (storageClass scc)) sccs
     \<and> dom (storageClassTable (snd (createStorageClasses sccs w))) =
         dom (storageClassTable w) \<union> set (map (\<lambda>scc. NamespacedName (storageClass scc)) sccs)"
  using assms
proof (induction sccs arbitrary: w)
  case Nil
  then show ?case by simp
next
  case (Cons scc sccs)
  let ?k = "NamespacedName (storageClass scc)"
  let ?w' = "w\<lparr>storageClassTable := (storageClassTable w)(?k \<mapsto> storageClass scc),
          calls := calls w @
            [((Get, KStorageClass, ?k), Some (StatusNotFound (snd ?k))),
             ((Create, KStorageClass, ?k), None)]\<rparr>"
  have step: "createStorageClasses (scc # sccs) w = createStorageClasses sccs ?w'"
    using Cons.prems by (intro createStorageClasses_fresh_step) simp_all
  have f: "faults ?w' = (\<lambda>t rq. None)" using Cons.prems(1) by simp
  have r: "\<forall>scc \<in> set sccs. reconcileStrategy scc \<noteq> ReconcileStrategyIgnore \<and> \<not> disable scc
           \<and> storageClassTable ?w' (NamespacedName (storageClass scc)) = None"
    using Cons.prems(2,3) by (auto simp: image_iff)
  have d: "distinct (map (\<lambda>scc. NamespacedName (storageClass scc)) sccs)"
    using Cons.prems(3) by simp
  have dm: "dom (storageClassTable ?w') = insert ?k (dom (storageClassTable w))"
    by (auto split: if_splits)
  from Cons.IH [OF f r d] show ?case
    unfolding step dm by (simp add: createdClasses_fresh_step)
qed

text \<open>
  C8, as amended. On a cluster without a \<open>CephCluster\<close>, when the server fails no request and
  the owner reference can be set, \<open>ensureCephCluster\<close> creates the \<open>CephCluster\<close> with three
  monitors. With all strategies Manage, no storage class disabled, the external mode off,
  the block pool and the filesystem Ready, no storage class stored, a server that fails no
  request and four distinct class names, \<open>ensureCreated\<close> succeeds and creates the filesystem
  class, the block class and the thick block class, in this order, and after them the
  object class exactly when the platform check succeeds and does not avoid the object store:
  three or four classes.
\<close>

theorem fresh_cluster_creates:
  "(setControllerReference lx sc (ObjectMeta.truncate (newCephCluster lx sc (cephImage r))) = Inr refs
      \<and> faults (client r) = (\<lambda>t rq. None)
      \<and> cephClusterTable (client r) (Namespace sc, Name sc) = None
    \<longrightarrow> (\<exists>w c. ensureCephCluster lx sc r = (None, sc, r\<lparr>client := w\<rparr>)
          \<and> cephClusterTable w (Namespace sc, Name sc) = Some c
          \<and> Count (Mon (Spec c)) = 3
          \<and> map fst (newCalls (client r) w) =
               [(Get, KCephCluster, (Namespace sc, Name sc)), (Create, KCephCluster, (Namespace sc, Name sc))]))
   \<and> (faults w = (\<lambda>t rq. None)
      \<and> \<not> Enable (ExternalStorage (Spec instance))
      \<and> ReconcileStrategy (CephBlockPools (ManagedResources (Spec instance))) = ReconcileStrategyManage
      \<and> ReconcileStrategy (CephFilesystems (ManagedResources (Spec instance))) = ReconcileStrategyManage
      \<and> ReconcileStrategy (CephObjectStores (ManagedResources (Spec instance))) = ReconcileStrategyManage
      \<and> \<not> DisableStorageClass (CephBlockPools (ManagedResources (Spec instance)))
      \<and> \<not> DisableStorageClass (CephFilesystems (ManagedResources (Spec instance)))
      \<and> \<not> DisableStorageClass (CephObjectStores (ManagedResources (Spec instance)))
      \<and> cephBlockPoolTable w (Namespace instance, generateNameForCephBlockPool x instance) = Some pool
      \<and> Status pool = Some poolStatus \<and> Phase poolStatus = PhaseReady
      \<and> cephFilesystemTable w (Namespace instance, generateNameForCephFilesystem x instance) = Some fs
      \<and> Status fs = Some fsStatus \<and> Phase fsStatus = PhaseReady
      \<and> storageClassTable w = Map.empty
      \<and> distinct [generateNameForCephFilesystemSC x instance, generateNameForCephBlockPoolSC x instance [],
                   generateNameForCephBlockPoolSC x instance ''-thick'', generateNameForCephRgwSC x instance]
    \<longrightarrow> fst (ensureCreated x instance w) = None
        \<and> createdClasses (snd (ensureCreated x instance w)) =
             createdClasses w @
             [([], generateNameForCephFilesystemSC x instance),
              ([], generateNameForCephBlockPoolSC x instance []),
              ([], generateNameForCephBlockPoolSC x instance ''-thick'')]
             @ (if PlatformsShouldAvoidObjectStore x = Inr False
                then [([], generateNameForCephRgwSC x instance)] else [])
        \<and> dom (storageClassTable (snd (ensureCreated x instance w))) =
             set ([([], generateNameForCephFilesystemSC x instance),
                   ([], generateNameForCephBlockPoolSC x instance []),
                   ([], generateNameForCephBlockPoolSC x instance ''-thick'')]
                  @ (if PlatformsShouldAvoidObjectStore x = Inr False
                     then [([], generateNameForCephRgwSC x instance)] else [])))"
proof (rule conjI; rule impI)
  assume a: "setControllerReference lx sc (ObjectMeta.truncate (newCephCluster lx sc (cephImage r))) = Inr refs
      \<and> faults (client r) = (\<lambda>t rq. None)
      \<and> cephClusterTable (client r) (Namespace sc, Name sc) = None"
  let ?cc = "(newCephCluster lx sc (cephImage r))\<lparr>OwnerReferences := refs\<rparr>"
  have nn: "NamespacedName ?cc = (Namespace sc, Name sc)"
    by (simp add: newCephCluster_def NamespacedName_def ObjectMeta.extend_def emptyMeta_def)
  have mon: "Count (Mon (Spec ?cc)) = 3"
    by (simp add: newCephCluster_def ObjectMeta.extend_def Object.fields_def)
  show "\<exists>w c. ensureCephCluster lx sc r = (None, sc, r\<lparr>client := w\<rparr>)
          \<and> cephClusterTable w (Namespace sc, Name sc) = Some c
          \<and> Count (Mon (Spec c)) = 3
          \<and> map fst (newCalls (client r) w) =
               [(Get, KCephCluster, (Namespace sc, Name sc)), (Create, KCephCluster, (Namespace sc, Name sc))]"
    apply (rule exI [of _ "answer (Create, KCephCluster, (Namespace sc, Name sc)) None
        (cephClusterTable_update (\<lambda>m. m((Namespace sc, Name sc) \<mapsto> ?cc))
           (answer (Get, KCephCluster, (Namespace sc, Name sc)) (Some (StatusNotFound (Name sc))) (client r)))"])
    apply (rule exI [of _ ?cc])
    unfolding ensureCephCluster_def
    using a mon
    apply (simp add: Let_def nn clientGet_def clientCreate_def answer_def newCalls_def)
    done
next
  assume a: "faults w = (\<lambda>t rq. None)
      \<and> \<not> Enable (ExternalStorage (Spec instance))
      \<and> ReconcileStrategy (CephBlockPools (ManagedResources (Spec instance))) = ReconcileStrategyManage
      \<and> ReconcileStrategy (CephFilesystems (ManagedResources (Spec instance))) = ReconcileStrategyManage
      \<and> ReconcileStrategy (CephObjectStores (ManagedResources (Spec instance))) = ReconcileStrategyManage
      \<and> \<not> DisableStorageClass (CephBlockPools (ManagedResources (Spec instance)))
      \<and> \<not> DisableStorageClass (CephFilesystems (ManagedResources (Spec instance)))
      \<and> \<not> DisableStorageClass (CephObjectStores (ManagedResources (Spec instance)))
      \<and> cephBlockPoolTable w (Namespace instance, generateNameForCephBlockPool x instance) = Some pool
      \<and> Status pool = Some poolStatus \<and> Phase poolStatus = PhaseReady
      \<and> cephFilesystemTable w (Namespace instance, generateNameForCephFilesystem x instance) = Some fs
      \<and> Status fs = Some fsStatus \<and> Phase fsStatus = PhaseReady
      \<and> storageClassTable w = Map.empty
      \<and> distinct [generateNameForCephFilesystemSC x instance, generateNameForCephBlockPoolSC x instance [],
                   generateNameForCephBlockPoolSC x instance ''-thick'', generateNameForCephRgwSC x instance]"
  let ?fs = "newCephFilesystemStorageClassConfiguration x instance"
  let ?rbd = "newCephBlockPoolStorageClassConfiguration x instance False"
  let ?thick = "newCephBlockPoolStorageClassConfiguration x instance True"
  let ?obc = "newCephOBCStorageClassConfiguration x instance"
  have keys: "NamespacedName (storageClass ?fs) = ([], generateNameForCephFilesystemSC x instance)"
    "NamespacedName (storageClass ?rbd) = ([], generateNameForCephBlockPoolSC x instance [])"
    "NamespacedName (storageClass ?thick) = ([], generateNameForCephBlockPoolSC x instance ''-thick'')"
    "NamespacedName (storageClass ?obc) = ([], generateNameForCephRgwSC x instance)"
    by (simp_all add: newCephFilesystemStorageClassConfiguration_def
        newCephBlockPoolStorageClassConfiguration_def newCephOBCStorageClassConfiguration_def
        NamespacedName_def ObjectMeta.extend_def emptyMeta_def Let_def)
  have act: "reconcileStrategy ?fs \<noteq> ReconcileStrategyIgnore" "\<not> disable ?fs"
    "reconcileStrategy ?rbd \<noteq> ReconcileStrategyIgnore" "\<not> disable ?rbd"
    "reconcileStrategy ?thick \<noteq> ReconcileStrategyIgnore" "\<not> disable ?thick"
    "reconcileStrategy ?obc \<noteq> ReconcileStrategyIgnore" "\<not> disable ?obc"
    using a
    by (simp_all add: newCephFilesystemStorageClassConfiguration_def
        newCephBlockPoolStorageClassConfiguration_def newCephOBCStorageClassConfiguration_def
        Let_def strategies_distinct)
  define w2 where "w2 = w\<lparr>calls := calls w @
      [((Get, KCephBlockPool, (Namespace instance, generateNameForCephBlockPool x instance)), None),
       ((Get, KCephFilesystem, (Namespace instance, generateNameForCephFilesystem x instance)), None)]\<rparr>"
  have w2: "faults w2 = (\<lambda>t rq. None)" "storageClassTable w2 = Map.empty" "createdClasses w2 = createdClasses w"
    using a by (simp_all add: w2_def createdClasses_def)
  have gates: "ensureCreated x instance w =
      (case newStorageClassConfigurations x instance of Inr cfgs \<Rightarrow> createStorageClasses cfgs w2
       | Inl err \<Rightarrow> (Some err, w))"
    using a unfolding ensureCreated_def w2_def
    by (auto simp: clientGet_def answer_def Let_def split: sum.splits)
  define sccs where "sccs = [?fs, ?rbd, ?thick]
      @ (if PlatformsShouldAvoidObjectStore x = Inr False then [?obc] else [])"
  have cfg: "newStorageClassConfigurations x instance = Inr sccs"
    using a unfolding sccs_def
    by (cases "PlatformsShouldAvoidObjectStore x")
       (auto simp: newStorageClassConfigurations_def Let_def)
  have ks: "map (\<lambda>scc. NamespacedName (storageClass scc)) sccs =
      [([], generateNameForCephFilesystemSC x instance),
       ([], generateNameForCephBlockPoolSC x instance []),
       ([], generateNameForCephBlockPoolSC x instance ''-thick'')]
      @ (if PlatformsShouldAvoidObjectStore x = Inr False
         then [([], generateNameForCephRgwSC x instance)] else [])"
    unfolding sccs_def by (simp add: keys)
  have h2: "\<forall>scc \<in> set sccs. reconcileStrategy scc \<noteq> ReconcileStrategyIgnore \<and> \<not> disable scc
           \<and> storageClassTable w2 (NamespacedName (storageClass scc)) = None"
    unfolding sccs_def using act by (simp add: w2)
  have h3: "distinct (map (\<lambda>scc. NamespacedName (storageClass scc)) sccs)"
    unfolding ks using a by auto
  from createStorageClasses_fresh [OF w2(1) h2 h3]
  show "fst (ensureCreated x instance w) = None
        \<and> createdClasses (snd (ensureCreated x instance w)) =
             createdClasses w @
             [([], generateNameForCephFilesystemSC x instance),
              ([], generateNameForCephBlockPoolSC x instance []),
              ([], generateNameForCephBlockPoolSC x instance ''-thick'')]
             @ (if PlatformsShouldAvoidObjectStore x = Inr False
                then [([], generateNameForCephRgwSC x instance)] else [])
        \<and> dom (storageClassTable (snd (ensureCreated x instance w))) =
             set ([([], generateNameForCephFilesystemSC x instance),
                   ([], generateNameForCephBlockPoolSC x instance []),
                   ([], generateNameForCephBlockPoolSC x instance ''-thick'')]
                  @ (if PlatformsShouldAvoidObjectStore x = Inr False
                     then [([], generateNameForCephRgwSC x instance)] else []))"
    unfolding gates cfg ks by (simp add: w2)
qed

lemmas example_class_defs = newStorageClassConfigurations_def
  newCephFilesystemStorageClassConfiguration_def newCephBlockPoolStorageClassConfiguration_def
  newCephOBCStorageClassConfiguration_def

theorem fresh_cluster_counterexample:
  "createdClasses (snd (ensureCreated (exampleExt False)
        (exampleCluster ReconcileStrategyManage False False False) readyWorld)) =
     [([], ''ocsinit-cephfs''), ([], ''ocsinit-ceph-rbd''), ([], ''ocsinit-ceph-rbd-thick''),
      ([], ''ocsinit-ceph-rgw'')]
   \<and> createdClasses (snd (ensureCreated (exampleExt True)
        (exampleCluster ReconcileStrategyManage False False False) readyWorld)) =
     [([], ''ocsinit-cephfs''), ([], ''ocsinit-ceph-rbd''), ([], ''ocsinit-ceph-rbd-thick'')]
   \<and> fst (Reconcile (exampleLegacy (\<lambda>e. None) (\<lambda>b. Inr [])) (''openshift-storage'', ''ocsinit'')
          (exampleReconciler freshWorld)) = None
   \<and> map fst (calls (client (snd (Reconcile (exampleLegacy (\<lambda>e. None) (\<lambda>b. Inr []))
          (''openshift-storage'', ''ocsinit'') (exampleReconciler freshWorld))))) =
       [(Get, KStorageCluster, (''openshift-storage'', ''ocsinit'')),
        (StatusUpdate, KStorageCluster, (''openshift-storage'', ''ocsinit'')),
        (Get, KStorageClusterInitialization, (''openshift-storage'', ''ocsinit'')),
        (Create, KStorageClusterInitialization, (''openshift-storage'', ''ocsinit''))]"
  apply (intro conjI)
     apply (simp add: readyWorld_def example_gate_defs ensureCreated_def example_class_defs
      clientGet_def clientCreate_def answer_def strategies_distinct Let_def createdClasses_def PhaseReady_def)
    apply (simp add: readyWorld_def example_gate_defs ensureCreated_def example_class_defs
      clientGet_def clientCreate_def answer_def strategies_distinct Let_def createdClasses_def PhaseReady_def)
   apply (simp add: Reconcile_def ReconcileWith_def freshWorld_def exampleLegacy_def example_reconcile_defs
      clientGet_def clientCreate_def clientStatusUpdate_def answer_def Let_def)
  apply (simp add: Reconcile_def ReconcileWith_def freshWorld_def exampleLegacy_def example_reconcile_defs
      clientGet_def clientCreate_def clientStatusUpdate_def answer_def Let_def)
  done

theorem fresh_cluster_creates_witness:
  "cephClusterTable (client (exampleReconciler (clusterWorld None))) (''openshift-storage'', ''ocsinit'') = None
   \<and> (\<exists>w c. ensureCephCluster (exampleLegacy (\<lambda>e. None) (\<lambda>b. Inr [])) exampleInstance
                (exampleReconciler (clusterWorld None))
              = (None, exampleInstance, (exampleReconciler (clusterWorld None))\<lparr>client := w\<rparr>)
          \<and> cephClusterTable w (''openshift-storage'', ''ocsinit'') = Some c
          \<and> Count (Mon (Spec c)) = 3)
   \<and> storageClassTable readyWorld = Map.empty
   \<and> fst (ensureCreated (exampleExt False) (exampleCluster ReconcileStrategyManage False False False) readyWorld)
       = None
   \<and> createdClasses (snd (ensureCreated (exampleExt False)
        (exampleCluster ReconcileStrategyManage False False False) readyWorld)) =
     [([], ''ocsinit-cephfs''), ([], ''ocsinit-ceph-rbd''), ([], ''ocsinit-ceph-rbd-thick''),
      ([], ''ocsinit-ceph-rgw'')]"
proof -
  let ?lx = "exampleLegacy (\<lambda>e. None) (\<lambda>b. Inr [])"
  let ?r = "exampleReconciler (clusterWorld None)"
  let ?sc = exampleInstance
  let ?x = "exampleExt False"
  let ?i = "exampleCluster ReconcileStrategyManage False False False"
  have nm: "Namespace ?sc = ''openshift-storage''" "Name ?sc = ''ocsinit''"
    by (simp_all add: example_reconcile_defs)
  have a: "setControllerReference ?lx ?sc (ObjectMeta.truncate (newCephCluster ?lx ?sc (cephImage ?r)))
        = Inr [OwnerReference (UID ?sc) (APIVersion ?sc) (Kind ?sc) (Name ?sc)]
      \<and> faults (client ?r) = (\<lambda>t rq. None)
      \<and> cephClusterTable (client ?r) (Namespace ?sc, Name ?sc) = None"
    by (simp add: exampleLegacy_def clusterWorld_def example_reconcile_defs)
  have b: "faults readyWorld = (\<lambda>t rq. None)
      \<and> \<not> Enable (ExternalStorage (Spec ?i))
      \<and> ReconcileStrategy (CephBlockPools (ManagedResources (Spec ?i))) = ReconcileStrategyManage
      \<and> ReconcileStrategy (CephFilesystems (ManagedResources (Spec ?i))) = ReconcileStrategyManage
      \<and> ReconcileStrategy (CephObjectStores (ManagedResources (Spec ?i))) = ReconcileStrategyManage
      \<and> \<not> DisableStorageClass (CephBlockPools (ManagedResources (Spec ?i)))
      \<and> \<not> DisableStorageClass (CephFilesystems (ManagedResources (Spec ?i)))
      \<and> \<not> DisableStorageClass (CephObjectStores (ManagedResources (Spec ?i)))
      \<and> cephBlockPoolTable readyWorld (Namespace ?i, generateNameForCephBlockPool ?x ?i)
          = Some (exampleDependency ''ocsinit-cephblockpool'' (Some \<lparr>Phase = PhaseReady\<rparr>))
      \<and> Status (exampleDependency ''ocsinit-cephblockpool'' (Some \<lparr>Phase = PhaseReady\<rparr>)) = Some \<lparr>Phase = PhaseReady\<rparr>
      \<and> Phase \<lparr>Phase = PhaseReady\<rparr> = PhaseReady
      \<and> cephFilesystemTable readyWorld (Namespace ?i, generateNameForCephFilesystem ?x ?i)
          = Some (exampleDependency ''ocsinit-cephfilesystem'' (Some \<lparr>Phase = PhaseReady\<rparr>))
      \<and> Status (exampleDependency ''ocsinit-cephfilesystem'' (Some \<lparr>Phase = PhaseReady\<rparr>)) = Some \<lparr>Phase = PhaseReady\<rparr>
      \<and> Phase \<lparr>Phase = PhaseReady\<rparr> = PhaseReady
      \<and> storageClassTable readyWorld = Map.empty
      \<and> distinct [generateNameForCephFilesystemSC ?x ?i, generateNameForCephBlockPoolSC ?x ?i [],
                   generateNameForCephBlockPoolSC ?x ?i ''-thick'', generateNameForCephRgwSC ?x ?i]"
    by (simp add: readyWorld_def example_gate_defs)
  have names: "generateNameForCephFilesystemSC ?x ?i = ''ocsinit-cephfs''"
    "generateNameForCephBlockPoolSC ?x ?i [] = ''ocsinit-ceph-rbd''"
    "generateNameForCephBlockPoolSC ?x ?i ''-thick'' = ''ocsinit-ceph-rbd-thick''"
    "generateNameForCephRgwSC ?x ?i = ''ocsinit-ceph-rgw''"
    "PlatformsShouldAvoidObjectStore ?x = Inr False"
    "createdClasses readyWorld = []"
    by (simp_all add: readyWorld_def example_gate_defs createdClasses_def)
  note inst0 = fresh_cluster_creates [of ?lx ?sc ?r _ readyWorld ?i ?x
      "exampleDependency ''ocsinit-cephblockpool'' (Some \<lparr>Phase = PhaseReady\<rparr>)" "\<lparr>Phase = PhaseReady\<rparr>"
      "exampleDependency ''ocsinit-cephfilesystem'' (Some \<lparr>Phase = PhaseReady\<rparr>)" "\<lparr>Phase = PhaseReady\<rparr>"]
  from inst0 a have c1: "\<exists>w c. ensureCephCluster ?lx ?sc ?r = (None, ?sc, ?r\<lparr>client := w\<rparr>)
          \<and> cephClusterTable w (Namespace ?sc, Name ?sc) = Some c
          \<and> Count (Mon (Spec c)) = 3"
    by blast
  from inst0 b have c2: "fst (ensureCreated ?x ?i readyWorld) = None
        \<and> createdClasses (snd (ensureCreated ?x ?i readyWorld)) =
             createdClasses readyWorld @
             [([], generateNameForCephFilesystemSC ?x ?i),
              ([], generateNameForCephBlockPoolSC ?x ?i []),
              ([], generateNameForCephBlockPoolSC ?x ?i ''-thick'')]
             @ (if PlatformsShouldAvoidObjectStore ?x = Inr False
                then [([], generateNameForCephRgwSC ?x ?i)] else [])"
    by blast
  from a b c1 c2 show ?thesis
    unfolding names nm by simp
qed

lemma sameExternalSecretData_unchanged:
  assumes "retrieveSecret externalClusterDetailsSecret instance (client r) = (Inr found, w1)"
    and "sha512sum lx (valueOf (Data found) externalClusterDetailsKey) = Inr d"
    and "ExternalSecretHash (Status instance) = d"
  shows "sameExternalSecretData lx instance r = (True, instance, r\<lparr>client := w1\<rparr>)"
  using assms by (simp add: sameExternalSecretData_def externalSecretDataChecksum_def)

lemma sameExternalSecretData_changed:
  assumes "retrieveSecret externalClusterDetailsSecret instance (client r) = (Inr found, w1)"
    and "sha512sum lx (valueOf (Data found) externalClusterDetailsKey) = Inr d"
    and "ExternalSecretHash (Status instance) \<noteq> d"
  shows "sameExternalSecretData lx instance r =
     (False, instance\<lparr>Status := (Status instance)\<lparr>ExternalSecretHash := d\<rparr>\<rparr>, r\<lparr>client := w1\<rparr>)"
  using assms by (simp add: sameExternalSecretData_def externalSecretDataChecksum_def)

lemma retrieveSecret_world:
  assumes "retrieveSecret secretName instance w = (res, w1)"
  shows "w1 = w\<lparr>calls := calls w @
      [((Get, KSecret, (Namespace instance, secretName)), case res of Inl err \<Rightarrow> Some err | Inr obj \<Rightarrow> None)]\<rparr>"
  using assms unfolding retrieveSecret_def by (rule clientGet_world)

text \<open>
  C4. \<open>ensureExternalStorageClusterResources\<close> begins by fetching the external secret and
  computing the digest of its payload. When the digest is the checksum in the status, it
  returns success: the fetch is its only call, and the instance and the reconciler are
  otherwise unchanged, so no record was processed. When the digest differs, the checksum in
  the instance becomes the digest and the result is that of
  \<open>createExternalStorageClusterResources\<close> run on that instance.
\<close>

theorem ensureExternal_skips_unchanged:
  assumes fetch: "retrieveSecret externalClusterDetailsSecret instance (client r) = (Inr found, w1)"
    and digest: "sha512sum lx (valueOf (Data found) externalClusterDetailsKey) = Inr d"
  shows "w1 = (client r)\<lparr>calls := calls (client r) @
            [((Get, KSecret, (Namespace instance, externalClusterDetailsSecret)), None)]\<rparr>
     \<and> (ExternalSecretHash (Status instance) = d \<longrightarrow>
          ensureExternalStorageClusterResources lx instance r = (None, instance, r\<lparr>client := w1\<rparr>))
     \<and> (ExternalSecretHash (Status instance) \<noteq> d \<longrightarrow>
          ensureExternalStorageClusterResources lx instance r =
            (fst (createExternalStorageClusterResources lx
                    (instance\<lparr>Status := (Status instance)\<lparr>ExternalSecretHash := d\<rparr>\<rparr>) (r\<lparr>client := w1\<rparr>)),
             instance\<lparr>Status := (Status instance)\<lparr>ExternalSecretHash := d\<rparr>\<rparr>,
             snd (createExternalStorageClusterResources lx
                    (instance\<lparr>Status := (Status instance)\<lparr>ExternalSecretHash := d\<rparr>\<rparr>) (r\<lparr>client := w1\<rparr>))))"
proof (intro conjI impI)
  show "w1 = (client r)\<lparr>calls := calls (client r) @
            [((Get, KSecret, (Namespace instance, externalClusterDetailsSecret)), None)]\<rparr>"
    using retrieveSecret_world [OF fetch] by simp
next
  assume "ExternalSecretHash (Status instance) = d"
  from sameExternalSecretData_unchanged [OF fetch digest this]
  show "ensureExternalStorageClusterResources lx instance r = (None, instance, r\<lparr>client := w1\<rparr>)"
    by (simp add: ensureExternalStorageClusterResources_def)
next
  assume "ExternalSecretHash (Status instance) \<noteq> d"
  from sameExternalSecretData_changed [OF fetch digest this]
  show "ensureExternalStorageClusterResources lx instance r =
            (fst (createExternalStorageClusterResources lx
                    (instance\<lparr>Status := (Status instance)\<lparr>ExternalSecretHash := d\<rparr>\<rparr>) (r\<lparr>client := w1\<rparr>)),
             instance\<lparr>Status := (Status instance)\<lparr>ExternalSecretHash := d\<rparr>\<rparr>,
             snd (createExternalStorageClusterResources lx
                    (instance\<lparr>Status := (Status instance)\<lparr>ExternalSecretHash := d\<rparr>\<rparr>) (r\<lparr>client := w1\<rparr>)))"
    by (simp add: ensureExternalStorageClusterResources_def split: prod.splits)
qed

lemmas example_secret_defs = secretWorld_def example_reconcile_defs externalClusterDetailsSecret_def
  externalClusterDetailsKey_def DataObject.fields_def

theorem ensureExternal_skips_unchanged_witness:
  "ExternalSecretHash (Status (exampleInstance\<lparr>Status := (Status exampleInstance)\<lparr>ExternalSecretHash := ''[]''\<rparr>\<rparr>))
     = hexDigest (exampleLegacy (\<lambda>e. None) (\<lambda>b. Inr [])) ''[]''
   \<and> ensureExternalStorageClusterResources (exampleLegacy (\<lambda>e. None) (\<lambda>b. Inr []))
        (exampleInstance\<lparr>Status := (Status exampleInstance)\<lparr>ExternalSecretHash := ''[]''\<rparr>\<rparr>)
        (exampleReconciler (secretWorld ''[]'' ''[]''))
     = (None, exampleInstance\<lparr>Status := (Status exampleInstance)\<lparr>ExternalSecretHash := ''[]''\<rparr>\<rparr>,
        (exampleReconciler (secretWorld ''[]'' ''[]''))\<lparr>client := (secretWorld ''[]'' ''[]'')\<lparr>calls :=
           [((Get, KSecret, (''openshift-storage'', ''rook-ceph-external-cluster-details'')), None)]\<rparr>\<rparr>)"
proof -
  let ?lx = "exampleLegacy (\<lambda>e. None) (\<lambda>b. Inr [])"
  let ?i = "exampleInstance\<lparr>Status := (Status exampleInstance)\<lparr>ExternalSecretHash := ''[]''\<rparr>\<rparr>"
  let ?w = "secretWorld ''[]'' ''[]''"
  let ?r = "exampleReconciler ?w"
  let ?found = "ObjectMeta.extend
              (emptyMeta\<lparr>Name := externalClusterDetailsSecret, Namespace := ''openshift-storage''\<rparr>)
              (DataObject.fields [externalClusterDetailsKey \<mapsto> ''[]''])"
  let ?w1 = "?w\<lparr>calls := [((Get, KSecret, (''openshift-storage'', ''rook-ceph-external-cluster-details'')), None)]\<rparr>"
  have fetch: "retrieveSecret externalClusterDetailsSecret ?i (client ?r) = (Inr ?found, ?w1)"
    by (simp add: retrieveSecret_def clientGet_def answer_def example_secret_defs)
  have digest: "sha512sum ?lx (valueOf (Data ?found) externalClusterDetailsKey) = Inr ''[]''"
    by (simp add: sha512sum_def exampleLegacy_def valueOf_def example_secret_defs)
  have same: "ExternalSecretHash (Status ?i) = ''[]''" by simp
  have hd: "hexDigest ?lx ''[]'' = ''[]''" by (simp add: exampleLegacy_def)
  from ensureExternal_skips_unchanged [OF fetch digest] same
  have "ensureExternalStorageClusterResources ?lx ?i ?r = (None, ?i, ?r\<lparr>client := ?w1\<rparr>)"
    by blast
  then show ?thesis using same hd by simp
qed

text \<open>
  C9. When the secret is fetched and its digest differs from the checksum in the status,
  \<open>sameExternalSecretData\<close> returns false with the checksum in the instance replaced by the
  digest, before anything else runs. When the secret cannot be fetched or hashed it returns
  false and leaves the instance as it was. In a pass of \<open>Reconcile\<close> whose ensurers include
  \<open>ensureExternalStorageClusterResources\<close>, when the digest differs and
  \<open>createExternalStorageClusterResources\<close> fails, \<open>Reconcile\<close> returns that error and, the
  server accepting the status update, the status stored has the new digest as its checksum.
  With that checksum and the same payload, \<open>ensureExternalStorageClusterResources\<close> returns
  success after the fetch alone.
\<close>

theorem checksum_kept_when_synthesis_fails:
  "(retrieveSecret externalClusterDetailsSecret instance (client r) = (Inr found, w1)
      \<and> sha512sum lx (valueOf (Data found) externalClusterDetailsKey) = Inr d
      \<and> ExternalSecretHash (Status instance) \<noteq> d
    \<longrightarrow> sameExternalSecretData lx instance r =
          (False, instance\<lparr>Status := (Status instance)\<lparr>ExternalSecretHash := d\<rparr>\<rparr>, r\<lparr>client := w1\<rparr>))
   \<and> ((\<exists>err. fst (retrieveSecret externalClusterDetailsSecret instance (client r)) = Inl err)
       \<or> (\<exists>secret err. fst (retrieveSecret externalClusterDetailsSecret instance (client r)) = Inr secret
             \<and> sha512sum lx (valueOf (Data secret) externalClusterDetailsKey) = Inl err)
    \<longrightarrow> fst (sameExternalSecretData lx instance r) = False
        \<and> fst (snd (sameExternalSecretData lx instance r)) = instance)
   \<and> (reachesEnsurers lx request r0 instance1 w3
      \<and> runEnsurers lx pre instance1 (r0\<lparr>client := w3, conditions := []\<rparr>) = (None, instance, r)
      \<and> retrieveSecret externalClusterDetailsSecret instance (client r) = (Inr found, w1)
      \<and> sha512sum lx (valueOf (Data found) externalClusterDetailsKey) = Inr d
      \<and> ExternalSecretHash (Status instance) \<noteq> d
      \<and> createExternalStorageClusterResources lx
            (instance\<lparr>Status := (Status instance)\<lparr>ExternalSecretHash := d\<rparr>\<rparr>) (r\<lparr>client := w1\<rparr>)
          = (Some err, r3)
      \<and> faults (client r3) (calls (client r3)) (StatusUpdate, KStorageCluster, NamespacedName instance) = None
      \<and> storageClusterTable (client r3) (NamespacedName instance) = Some stored
    \<longrightarrow> (\<exists>w stored'.
           ReconcileWith lx (pre @ ensureExternalStorageClusterResources lx # post) request r0
             = (Some err, r3\<lparr>client := w\<rparr>)
           \<and> storageClusterTable w (NamespacedName instance) = Some stored'
           \<and> ExternalSecretHash (Status stored') = d))
   \<and> (retrieveSecret externalClusterDetailsSecret instance (client r) = (Inr found, w1)
      \<and> sha512sum lx (valueOf (Data found) externalClusterDetailsKey) = Inr d
      \<and> ExternalSecretHash (Status instance) = d
    \<longrightarrow> ensureExternalStorageClusterResources lx instance r = (None, instance, r\<lparr>client := w1\<rparr>))"
proof (intro conjI)
  show "retrieveSecret externalClusterDetailsSecret instance (client r) = (Inr found, w1)
      \<and> sha512sum lx (valueOf (Data found) externalClusterDetailsKey) = Inr d
      \<and> ExternalSecretHash (Status instance) \<noteq> d
    \<longrightarrow> sameExternalSecretData lx instance r =
          (False, instance\<lparr>Status := (Status instance)\<lparr>ExternalSecretHash := d\<rparr>\<rparr>, r\<lparr>client := w1\<rparr>)"
    by (simp add: sameExternalSecretData_changed)
next
  show "(\<exists>err. fst (retrieveSecret externalClusterDetailsSecret instance (client r)) = Inl err)
       \<or> (\<exists>secret err. fst (retrieveSecret externalClusterDetailsSecret instance (client r)) = Inr secret
             \<and> sha512sum lx (valueOf (Data secret) externalClusterDetailsKey) = Inl err)
    \<longrightarrow> fst (sameExternalSecretData lx instance r) = False
        \<and> fst (snd (sameExternalSecretData lx instance r)) = instance"
    by (cases "retrieveSecret externalClusterDetailsSecret instance (client r)")
       (auto simp: sameExternalSecretData_def externalSecretDataChecksum_def split: sum.splits)
next
  show "reachesEnsurers lx request r0 instance1 w3
      \<and> runEnsurers lx pre instance1 (r0\<lparr>client := w3, conditions := []\<rparr>) = (None, instance, r)
      \<and> retrieveSecret externalClusterDetailsSecret instance (client r) = (Inr found, w1)
      \<and> sha512sum lx (valueOf (Data found) externalClusterDetailsKey) = Inr d
      \<and> ExternalSecretHash (Status instance) \<noteq> d
      \<and> createExternalStorageClusterResources lx
            (instance\<lparr>Status := (Status instance)\<lparr>ExternalSecretHash := d\<rparr>\<rparr>) (r\<lparr>client := w1\<rparr>)
          = (Some err, r3)
      \<and> faults (client r3) (calls (client r3)) (StatusUpdate, KStorageCluster, NamespacedName instance) = None
      \<and> storageClusterTable (client r3) (NamespacedName instance) = Some stored
    \<longrightarrow> (\<exists>w stored'.
           ReconcileWith lx (pre @ ensureExternalStorageClusterResources lx # post) request r0
             = (Some err, r3\<lparr>client := w\<rparr>)
           \<and> storageClusterTable w (NamespacedName instance) = Some stored'
           \<and> ExternalSecretHash (Status stored') = d)"
  proof
    assume a: "reachesEnsurers lx request r0 instance1 w3
      \<and> runEnsurers lx pre instance1 (r0\<lparr>client := w3, conditions := []\<rparr>) = (None, instance, r)
      \<and> retrieveSecret externalClusterDetailsSecret instance (client r) = (Inr found, w1)
      \<and> sha512sum lx (valueOf (Data found) externalClusterDetailsKey) = Inr d
      \<and> ExternalSecretHash (Status instance) \<noteq> d
      \<and> createExternalStorageClusterResources lx
            (instance\<lparr>Status := (Status instance)\<lparr>ExternalSecretHash := d\<rparr>\<rparr>) (r\<lparr>client := w1\<rparr>)
          = (Some err, r3)
      \<and> faults (client r3) (calls (client r3)) (StatusUpdate, KStorageCluster, NamespacedName instance) = None
      \<and> storageClusterTable (client r3) (NamespacedName instance) = Some stored"
    let ?i3 = "instance\<lparr>Status := (Status instance)\<lparr>ExternalSecretHash := d\<rparr>\<rparr>"
    let ?failed = "?i3\<lparr>Status := (Status ?i3)
       \<lparr>Conditions := SetErrorCondition lx (Conditions (Status ?i3)) (ReconcileFailed lx)
                         (''Error while reconciling: '' @ ErrorText err),
        Phase := PhaseError\<rparr>\<rparr>"
    have same: "sameExternalSecretData lx instance r = (False, ?i3, r\<lparr>client := w1\<rparr>)"
      using a by (simp add: sameExternalSecretData_changed)
    have fail: "ensureExternalStorageClusterResources lx instance r = (Some err, ?i3, r3)"
      using a by (simp add: ensureExternalStorageClusterResources_def same)
    have nn: "NamespacedName ?i3 = NamespacedName instance" by (simp add: NamespacedName_def)
    from a have reach: "reachesEnsurers lx request r0 instance1 w3"
      and pre: "runEnsurers lx pre instance1 (r0\<lparr>client := w3, conditions := []\<rparr>) = (None, instance, r)"
      by simp_all
    from ReconcileWith_error_path [where f = "ensureExternalStorageClusterResources lx" and post = post,
        OF reach pre fail refl]
    obtain w u where
      res: "ReconcileWith lx (pre @ ensureExternalStorageClusterResources lx # post) request r0
              = (Some err, r3\<lparr>client := w\<rparr>)"
      and upd: "clientStatusUpdate (NamespacedName ?i3) ?failed (client r3) = (u, w)"
      and st: "u = None \<longrightarrow>
          (\<exists>stored. storageClusterTable w (NamespacedName ?i3) = Some stored
             \<and> Status stored = Status ?failed)"
      by blast
    have "u = None"
      using upd a unfolding nn by (auto simp: clientStatusUpdate_def Let_def)
    with st obtain stored' where "storageClusterTable w (NamespacedName instance) = Some stored'"
      "Status stored' = Status ?failed"
      unfolding nn by blast
    then have "storageClusterTable w (NamespacedName instance) = Some stored'
        \<and> ExternalSecretHash (Status stored') = d"
      by simp
    with res show "\<exists>w stored'.
           ReconcileWith lx (pre @ ensureExternalStorageClusterResources lx # post) request r0
             = (Some err, r3\<lparr>client := w\<rparr>)
           \<and> storageClusterTable w (NamespacedName instance) = Some stored'
           \<and> ExternalSecretHash (Status stored') = d"
      by blast
  qed
next
  show "retrieveSecret externalClusterDetailsSecret instance (client r) = (Inr found, w1)
      \<and> sha512sum lx (valueOf (Data found) externalClusterDetailsKey) = Inr d
      \<and> ExternalSecretHash (Status instance) = d
    \<longrightarrow> ensureExternalStorageClusterResources lx instance r = (None, instance, r\<lparr>client := w1\<rparr>)"
    by (auto simp: ensureExternalStorageClusterResources_def sameExternalSecretData_unchanged)
qed

theorem checksum_kept_when_synthesis_fails_witness:
  "ExternalSecretHash (Status exampleInstance) \<noteq> ''not json''
   \<and> fst (ReconcileWith (exampleLegacy (\<lambda>e. None) (\<lambda>b. Inl (Errorf ''invalid character'')))
          [ensureExternalStorageClusterResources (exampleLegacy (\<lambda>e. None) (\<lambda>b. Inl (Errorf ''invalid character'')))]
          (''openshift-storage'', ''ocsinit'') (exampleReconciler (secretWorld ''not json'' [])))
       = Some (Errorf ''invalid character'')
   \<and> (\<exists>stored'. storageClusterTable
          (client (snd (ReconcileWith (exampleLegacy (\<lambda>e. None) (\<lambda>b. Inl (Errorf ''invalid character'')))
            [ensureExternalStorageClusterResources (exampleLegacy (\<lambda>e. None) (\<lambda>b. Inl (Errorf ''invalid character'')))]
            (''openshift-storage'', ''ocsinit'') (exampleReconciler (secretWorld ''not json'' [])))))
          (''openshift-storage'', ''ocsinit'') = Some stored'
        \<and> ExternalSecretHash (Status stored') = ''not json'')"
proof -
  let ?lx = "exampleLegacy (\<lambda>e. None) (\<lambda>b. Inl (Errorf ''invalid character''))"
  let ?k = "(''openshift-storage'', ''ocsinit'')"
  let ?sk = "(''openshift-storage'', ''rook-ceph-external-cluster-details'')"
  let ?w = "secretWorld ''not json'' []"
  let ?start = "exampleReconciler ?w"
  let ?i = "exampleInstance\<lparr>Status := (Status exampleInstance)\<lparr>ExternalSecretHash := []\<rparr>\<rparr>"
  let ?w3 = "?w\<lparr>calls := [((Get, KStorageCluster, ?k), None), ((Get, KStorageClusterInitialization, ?k), None)]\<rparr>"
  let ?r = "?start\<lparr>client := ?w3, conditions := []\<rparr>"
  let ?found = "ObjectMeta.extend
              (emptyMeta\<lparr>Name := externalClusterDetailsSecret, Namespace := ''openshift-storage''\<rparr>)
              (DataObject.fields [externalClusterDetailsKey \<mapsto> ''not json''])"
  let ?w1 = "?w3\<lparr>calls := calls ?w3 @ [((Get, KSecret, ?sk), None)]\<rparr>"
  let ?r3 = "?r\<lparr>client := ?w1\<lparr>calls := calls ?w1 @ [((Get, KSecret, ?sk), None)]\<rparr>\<rparr>"
  have reach: "reachesEnsurers ?lx ?k ?start ?i ?w3"
    unfolding reachesEnsurers_def
    apply (simp add: clientGet_def answer_def)
    apply (simp add: secretWorld_def)
    apply (simp add: initializedWorld_def reconcileWorld_def exampleReconciler_def emptyWorld_def)
    apply (simp add: example_secret_defs clientGet_def answer_def Let_def)
    done
  have pre: "runEnsurers ?lx [] ?i (?start\<lparr>client := ?w3, conditions := []\<rparr>) = (None, ?i, ?r)"
    by simp
  have fetch: "retrieveSecret externalClusterDetailsSecret ?i (client ?r) = (Inr ?found, ?w1)"
    by (simp add: retrieveSecret_def clientGet_def answer_def example_secret_defs)
  have digest: "sha512sum ?lx (valueOf (Data ?found) externalClusterDetailsKey) = Inr ''not json''"
    by (simp add: sha512sum_def exampleLegacy_def valueOf_def example_secret_defs)
  have differs: "ExternalSecretHash (Status ?i) \<noteq> ''not json''" by simp
  have synth: "createExternalStorageClusterResources ?lx
            (?i\<lparr>Status := (Status ?i)\<lparr>ExternalSecretHash := ''not json''\<rparr>\<rparr>) (?r\<lparr>client := ?w1\<rparr>)
          = (Some (Errorf ''invalid character''), ?r3)"
    by (simp add: createExternalStorageClusterResources_def retrieveExternalSecretData_def
        retrieveSecret_def clientGet_def answer_def exampleLegacy_def valueOf_def example_secret_defs)
  have upd: "faults (client ?r3) (calls (client ?r3)) (StatusUpdate, KStorageCluster, NamespacedName ?i) = None"
    "storageClusterTable (client ?r3) (NamespacedName ?i) = Some ?i"
    by (simp_all add: example_secret_defs)
  have nn: "NamespacedName ?i = ?k" by (simp add: example_secret_defs)
  from checksum_kept_when_synthesis_fails [of ?i ?r ?found ?w1 ?lx "''not json''" ?k ?start ?i ?w3 "[]"
      "Errorf ''invalid character''" ?r3 ?i "[]"]
    reach pre fetch digest differs synth upd
  obtain w stored' where
    "ReconcileWith ?lx [ensureExternalStorageClusterResources ?lx] ?k ?start
       = (Some (Errorf ''invalid character''), ?r3\<lparr>client := w\<rparr>)"
    "storageClusterTable w (NamespacedName ?i) = Some stored'"
    "ExternalSecretHash (Status stored') = ''not json''"
    by (auto simp del: ReconcileWith_def)
  then show ?thesis
    unfolding nn by (auto simp: exampleInstance_def)
qed

end
